theory Spec2Isabelle
  imports Main "HOL-Library.AList"
begin

section \<open>Values, errors and objects\<close>

text \<open>
  The attribute framework of \<^verbatim>\<open>descarteslabs/catalog/attributes.py\<close>. Python objects
  live in a heap (a list of objects, an address is an index), because one
  MappingAttribute or ListAttribute value can be held by several owners. Every
  operation returns the heap it leaves behind together with its result or the
  exception it raised: a Python exception does not undo what was mutated before it.
  Dictionaries are association lists in insertion order.
\<close>

datatype error =
    AttributeValidationError
  | AttributeError
  | ValueError
  | TypeError
  | IndexError
  | RecursionError
  | CallbackVeto

type_synonym addr = nat

datatype tz = UTC

record datetime =
  year :: nat
  month :: nat
  day :: nat
  hour :: nat
  minute :: nat
  second :: nat
  microsecond :: nat
  tzinfo :: "tz option"

datatype val =
    VNone
  | VBool bool
  | VInt int
  | VStr string
  | VDateTime datetime
  | VEnum string string
  | VList "val list"
  | VDict "(string \<times> val) list"
  | VObj addr

datatype DocumentState = SAVED | MODIFIED | UNSAVED | DELETED

text \<open>The kinds of plain attribute: each has its own serialize and deserialize.
  An enumeration kind carries the name of its Enum class and the string values of
  its members.\<close>

datatype kind =
    KAttribute
  | KTimestamp
  | KEnum string "string list"
  | KGeometry
  | KBoolean

record flags =
  mutable :: bool
  serializable :: bool
  sticky :: bool
  readonly :: bool

text \<open>An attribute descriptor: the four policy flags, the name it is bound to in
  its class, and what its subclass adds (for a plain attribute, its kind).\<close>

record 'k attribute = flags +
  attribute_name :: string
  kind :: 'k

text \<open>A class that carries an attribute schema: its name, its base class and the
  attributes declared in its body.\<close>

datatype cls = Class (class_name: string) (base: "cls option") (declared: "(string \<times> kind attribute) list")

datatype item_type = ItemMapping cls | ItemPlain kind

text \<open>Modelled from the spec: the owning model object (CatalogObject is not among the
  sources). It supplies a per-instance value store, a lifecycle state and the
  modification callback; \<open>mo_notices\<close> records every call of the callback as
  (name, changed, validate).\<close>

record model_object =
  mo_mro :: "string list"
  mo_attributes :: "(string \<times> val) list"
  mo_state :: DocumentState
  mo_notices :: "(string option \<times> bool \<times> bool) list"

record mapping_value =
  mv_class :: cls
  mv_flags :: flags
  mv_attributes :: "(string \<times> val) list"
  mv_model_objects :: "(addr \<times> string option) list"

record list_value =
  lv_item_type :: item_type
  lv_flags :: flags
  lv_items :: "val list"
  lv_model_objects :: "(addr \<times> string option) list"

datatype obj =
    ModelObject model_object
  | MappingValue mapping_value
  | ListValue list_value

type_synonym heap = "obj list"

type_synonym 'a result = "(error + 'a) \<times> heap"

text \<open>What the framework calls but does not define: \<open>datetime.strptime\<close> (None
  is its ValueError), \<open>datetime.isoformat\<close>, Python's \<open>==\<close> on
  two values in a heap, the two shapely helpers,
  and the lookup \<open>reference_class.get(id, client)\<close>.\<close>

record externals =
  strptime :: "string \<Rightarrow> string \<Rightarrow> datetime option"
  isoformat :: "datetime \<Rightarrow> string"
  py_eq :: "heap \<Rightarrow> val \<Rightarrow> val \<Rightarrow> bool"
  geometry_like_to_shapely :: "val \<Rightarrow> error + val"
  shapely_to_geojson :: "val \<Rightarrow> error + val"
  reference_get :: "string \<Rightarrow> val \<Rightarrow> heap \<Rightarrow> val result"

definition lookup :: "heap \<Rightarrow> addr \<Rightarrow> obj option" where
  "lookup h a = (if a < length h then Some (h ! a) else None)"

text \<open>\<open>obj._attributes\<close>: model objects and mapping values have one, a list value
  has none.\<close>

definition get_attributes :: "heap \<Rightarrow> addr \<Rightarrow> (string \<times> val) list option" where
  "get_attributes h a =
     (case lookup h a of
        Some (ModelObject mo) \<Rightarrow> Some (mo_attributes mo)
      | Some (MappingValue mv) \<Rightarrow> Some (mv_attributes mv)
      | _ \<Rightarrow> None)"

definition set_attributes :: "heap \<Rightarrow> addr \<Rightarrow> (string \<times> val) list \<Rightarrow> heap" where
  "set_attributes h a attrs =
     (case lookup h a of
        Some (ModelObject mo) \<Rightarrow> h[a := ModelObject (mo\<lparr>mo_attributes := attrs\<rparr>)]
      | Some (MappingValue mv) \<Rightarrow> h[a := MappingValue (mv\<lparr>mv_attributes := attrs\<rparr>)]
      | _ \<Rightarrow> h)"

text \<open>\<open>bool(value)\<close>: a ListAttribute defines \<open>__len__\<close>, the other objects are
  true.\<close>

definition truthy :: "heap \<Rightarrow> val \<Rightarrow> bool" where
  "truthy h v =
     (case v of
        VNone \<Rightarrow> False
      | VBool b \<Rightarrow> b
      | VInt i \<Rightarrow> i \<noteq> 0
      | VStr s \<Rightarrow> s \<noteq> []
      | VDateTime d \<Rightarrow> True
      | VEnum c s \<Rightarrow> s \<noteq> []
      | VList xs \<Rightarrow> xs \<noteq> []
      | VDict kvs \<Rightarrow> kvs \<noteq> []
      | VObj a \<Rightarrow> (case lookup h a of Some (ListValue lv) \<Rightarrow> lv_items lv \<noteq> [] | _ \<Rightarrow> True))"

section \<open>Timestamps\<close>

text \<open>\<open>parse_iso_datetime\<close>: a string longer than 27 characters keeps its first 26
  characters and its last one; the format with fractional seconds is tried first,
  the one without after a ValueError.\<close>

definition parse_iso_datetime :: "externals \<Rightarrow> string \<Rightarrow> error + datetime" where
  "parse_iso_datetime E date_str =
     (let s = (if length date_str > 27 then take 26 date_str @ [last date_str] else date_str)
      in case strptime E s ''%Y-%m-%dT%H:%M:%S.%fZ'' of
           Some date \<Rightarrow> Inr (date\<lparr>tzinfo := Some UTC\<rparr>)
         | None \<Rightarrow>
             (case strptime E s ''%Y-%m-%dT%H:%M:%SZ'' of
                Some date \<Rightarrow> Inr (date\<lparr>tzinfo := Some UTC\<rparr>)
              | None \<Rightarrow> Inl ValueError))"


text \<open>\<open>serialize_datetime\<close>\<close>

definition serialize_datetime :: "externals \<Rightarrow> val \<Rightarrow> val" where
  "serialize_datetime E v = (case v of VDateTime d \<Rightarrow> VStr (isoformat E d) | _ \<Rightarrow> v)"

text \<open>\<open>Timestamp.deserialize\<close>. A value that is neither None, a datetime nor a
  string makes \<open>len\<close> or \<open>strptime\<close> raise a TypeError, which the handler for
  ValueError does not catch.\<close>

definition Timestamp_deserialize :: "externals \<Rightarrow> val \<Rightarrow> bool \<Rightarrow> error + val" where
  "Timestamp_deserialize E v validate =
     (if v = VNone \<or> validate then Inr v
      else case v of
             VDateTime d \<Rightarrow>
               (if tzinfo d = None then Inr (VDateTime (d\<lparr>tzinfo := Some UTC\<rparr>)) else Inr v)
           | VStr s \<Rightarrow>
               (case parse_iso_datetime E s of
                  Inr d \<Rightarrow> Inr (VDateTime d)
                | Inl e \<Rightarrow> Inl AttributeValidationError)
           | VEnum c s \<Rightarrow>
               (case parse_iso_datetime E s of
                  Inr d \<Rightarrow> Inr (VDateTime d)
                | Inl e \<Rightarrow> Inl AttributeValidationError)
           | _ \<Rightarrow> Inl TypeError)"

definition Timestamp_serialize :: "externals \<Rightarrow> val \<Rightarrow> val" where
  "Timestamp_serialize E v = serialize_datetime E v"

section \<open>The other plain attributes\<close>

text \<open>\<open>EnumAttribute\<close>: \<open>self._enum_cls(value).value\<close> looks the value up among the
  values of the members and raises ValueError when there is none. The enumeration has
  \<open>str\<close> as mixin, and a member of any such enumeration hashes and compares as its
  string value: it is found when that string is the value of a member.\<close>

definition EnumAttribute_deserialize :: "string \<Rightarrow> string list \<Rightarrow> val \<Rightarrow> bool \<Rightarrow> error + val" where
  "EnumAttribute_deserialize enum_cls members v validate =
     (if validate then
        (case v of
           VStr s \<Rightarrow> (if s \<in> set members then Inr (VStr s) else Inl ValueError)
         | VEnum c s \<Rightarrow> (if s \<in> set members then Inr (VStr s) else Inl ValueError)
         | _ \<Rightarrow> Inl ValueError)
      else Inr v)"

definition EnumAttribute_serialize :: "string \<Rightarrow> val \<Rightarrow> val" where
  "EnumAttribute_serialize enum_cls v =
     (case v of VEnum c s \<Rightarrow> (if c = enum_cls then VStr s else v) | _ \<Rightarrow> v)"

text \<open>\<open>GeometryAttribute\<close>: a ValueError or TypeError of the shapely helper (an
  AttributeValidationError is a ValueError) becomes an AttributeValidationError.\<close>

definition GeometryAttribute_deserialize :: "externals \<Rightarrow> val \<Rightarrow> error + val" where
  "GeometryAttribute_deserialize E v =
     (if v = VNone then Inr v
      else case geometry_like_to_shapely E v of
             Inr g \<Rightarrow> Inr g
           | Inl e \<Rightarrow>
               (if e = ValueError \<or> e = TypeError \<or> e = AttributeValidationError
                then Inl AttributeValidationError else Inl e))"

definition BooleanAttribute_deserialize :: "heap \<Rightarrow> val \<Rightarrow> val" where
  "BooleanAttribute_deserialize h v = VBool (truthy h v)"

definition BooleanAttribute_serialize :: "heap \<Rightarrow> val \<Rightarrow> val" where
  "BooleanAttribute_serialize h v = VBool (truthy h v)"

text \<open>\<open>attribute.deserialize(value, validate)\<close> and \<open>attribute.serialize(value)\<close>,
  dispatched on the attribute's class; the base class returns the value.\<close>

definition deserialize :: "externals \<Rightarrow> heap \<Rightarrow> kind \<Rightarrow> val \<Rightarrow> bool \<Rightarrow> error + val" where
  "deserialize E h k v validate =
     (case k of
        KAttribute \<Rightarrow> Inr v
      | KTimestamp \<Rightarrow> Timestamp_deserialize E v validate
      | KEnum c ms \<Rightarrow> EnumAttribute_deserialize c ms v validate
      | KGeometry \<Rightarrow> GeometryAttribute_deserialize E v
      | KBoolean \<Rightarrow> Inr (BooleanAttribute_deserialize h v))"

definition serialize :: "externals \<Rightarrow> heap \<Rightarrow> kind \<Rightarrow> val \<Rightarrow> error + val" where
  "serialize E h k v =
     (case k of
        KAttribute \<Rightarrow> Inr v
      | KTimestamp \<Rightarrow> Inr (Timestamp_serialize E v)
      | KEnum c ms \<Rightarrow> Inr (EnumAttribute_serialize c v)
      | KGeometry \<Rightarrow> shapely_to_geojson E v
      | KBoolean \<Rightarrow> Inr (BooleanAttribute_serialize h v))"

section \<open>Modification notices\<close>

text \<open>Modelled from the spec: the modification callback
  \<open>set_modified(name, changed, validate) -> None | raises\<close> of a model object
  (\<open>CatalogObject._set_modified\<close> is not among the sources). It raises when the
  object is in a state that forbids modification (deleted) and records the notice
  otherwise.\<close>

definition model_set_modified ::
  "model_object \<Rightarrow> string option \<Rightarrow> bool \<Rightarrow> bool \<Rightarrow> error + model_object" where
  "model_set_modified mo attr_name changed validate =
     (if mo_state mo = DELETED then Inl CallbackVeto
      else Inr (mo\<lparr>mo_notices := mo_notices mo @ [(attr_name, changed, validate)]\<rparr>))"

text \<open>\<open>obj._set_modified(attr_name, changed, validate)\<close> on any object of the heap.
  \<open>MappingAttribute._set_modified\<close> and \<open>ListAttribute._set_modified\<close> ignore the
  name they are given and call every registered owner with the name that owner
  holds the value under, in the order of the registry; the first exception ends the
  loop. The first argument bounds the depth of the calls, as Python's recursion limit
  does.\<close>

fun set_modified :: "nat \<Rightarrow> heap \<Rightarrow> addr \<Rightarrow> string option \<Rightarrow> bool \<Rightarrow> bool \<Rightarrow> unit result"
and notify_owners :: "nat \<Rightarrow> heap \<Rightarrow> (addr \<times> string option) list \<Rightarrow> bool \<Rightarrow> bool \<Rightarrow> unit result"
where
  "set_modified 0 h a attr_name changed validate = (Inl RecursionError, h)"
| "set_modified (Suc n) h a attr_name changed validate =
     (case lookup h a of
        None \<Rightarrow> (Inl AttributeError, h)
      | Some (ModelObject mo) \<Rightarrow>
          (case model_set_modified mo attr_name changed validate of
             Inl e \<Rightarrow> (Inl e, h)
           | Inr mo' \<Rightarrow> (Inr (), h[a := ModelObject mo']))
      | Some (MappingValue mv) \<Rightarrow> notify_owners n h (mv_model_objects mv) changed validate
      | Some (ListValue lv) \<Rightarrow> notify_owners n h (lv_model_objects lv) changed validate)"
| "notify_owners n h [] changed validate = (Inr (), h)"
| "notify_owners n h ((model_object, attr_name) # rest) changed validate =
     (case set_modified n h model_object attr_name changed validate of
        (Inl e, h') \<Rightarrow> (Inl e, h')
      | (Inr u, h') \<Rightarrow> notify_owners n h' rest changed validate)"

section \<open>Attribute: the base descriptor\<close>

text \<open>\<open>Attribute.__get__(obj, objtype)\<close>; \<open>obj\<close> is None when the attribute is read
  on the class.\<close>

definition Attribute_get :: "'k attribute \<Rightarrow> heap \<Rightarrow> addr option \<Rightarrow> error + val" where
  "Attribute_get A h obj =
     (case obj of
        None \<Rightarrow> Inl AttributeError
      | Some a \<Rightarrow>
          (case get_attributes h a of
             None \<Rightarrow> Inl AttributeError
           | Some attrs \<Rightarrow>
               (case map_of attrs (attribute_name A) of None \<Rightarrow> Inr VNone | Some v \<Rightarrow> Inr v)))"

text \<open>\<open>_raise_if_immutable_or_readonly(operation, obj)\<close>; the object is given by its
  \<open>_attributes\<close>, the only part the check reads.\<close>

definition raise_if_immutable_or_readonly ::
  "'a flags_scheme \<Rightarrow> string \<Rightarrow> (string \<times> val) list option \<Rightarrow> error + unit" where
  "raise_if_immutable_or_readonly A name obj =
     (if readonly A then Inl AttributeValidationError
      else if \<not> mutable A \<and> (case obj of None \<Rightarrow> True | Some attrs \<Rightarrow> map_of attrs name \<noteq> None)
      then Inl AttributeValidationError
      else Inr ())"

text \<open>\<open>Attribute.__set__(obj, value, validate)\<close>\<close>

definition Attribute_set ::
  "externals \<Rightarrow> nat \<Rightarrow> kind attribute \<Rightarrow> heap \<Rightarrow> addr \<Rightarrow> val \<Rightarrow> bool \<Rightarrow> unit result" where
  "Attribute_set E fuel A h obj v validate =
     (case get_attributes h obj of
        None \<Rightarrow> (Inl AttributeError, h)
      | Some attrs \<Rightarrow>
          (case (if validate then raise_if_immutable_or_readonly A (attribute_name A) (Some attrs)
                 else Inr ()) of
             Inl e \<Rightarrow> (Inl e, h)
           | Inr u \<Rightarrow>
               (case deserialize E h (kind A) v validate of
                  Inl e \<Rightarrow> (Inl e, h)
                | Inr v' \<Rightarrow>
                    (let changed =
                           (case map_of attrs (attribute_name A) of
                              None \<Rightarrow> True
                            | Some old \<Rightarrow> \<not> py_eq E h old v')
                     in case set_modified fuel h obj (Some (attribute_name A)) changed validate of
                          (Inl e, h') \<Rightarrow> (Inl e, h')
                        | (Inr u', h') \<Rightarrow>
                            (case get_attributes h' obj of
                               None \<Rightarrow> (Inl AttributeError, h')
                             | Some attrs' \<Rightarrow>
                                 (Inr (), set_attributes h' obj
                                            (AList.update (attribute_name A) v' attrs')))))))"

text \<open>\<open>Attribute.__delete__(obj, validate)\<close>\<close>

definition Attribute_delete :: "'k attribute \<Rightarrow> heap \<Rightarrow> addr \<Rightarrow> bool \<Rightarrow> unit result" where
  "Attribute_delete A h obj validate =
     (case get_attributes h obj of
        None \<Rightarrow> (Inl AttributeError, h)
      | Some attrs \<Rightarrow>
          (case (if validate then raise_if_immutable_or_readonly A (attribute_name A) (Some attrs)
                 else Inr ()) of
             Inl e \<Rightarrow> (Inl e, h)
           | Inr u \<Rightarrow> (Inr (), set_attributes h obj (AList.delete (attribute_name A) attrs))))"

section \<open>CatalogObjectReference\<close>

text \<open>What \<open>CatalogObjectReference\<close> adds to an attribute: the class of the
  referenced objects and whether an unsaved object may be assigned.\<close>

record reference =
  reference_class :: string
  allow_unsaved :: bool

definition id_field :: "reference attribute \<Rightarrow> string" where
  "id_field A = attribute_name A @ ''_id''"

text \<open>\<open>value.id\<close> and \<open>value.state\<close> of a referenced object, and
  \<open>isinstance(value, reference_class)\<close>: only a model object has them.\<close>

definition object_id :: "heap \<Rightarrow> val \<Rightarrow> error + val" where
  "object_id h v =
     (case v of
        VObj a \<Rightarrow>
          (case lookup h a of
             Some (ModelObject mo) \<Rightarrow>
               (case map_of (mo_attributes mo) ''id'' of None \<Rightarrow> Inr VNone | Some i \<Rightarrow> Inr i)
           | _ \<Rightarrow> Inl AttributeError)
      | _ \<Rightarrow> Inl AttributeError)"

definition object_state :: "heap \<Rightarrow> val \<Rightarrow> error + DocumentState" where
  "object_state h v =
     (case v of
        VObj a \<Rightarrow>
          (case lookup h a of Some (ModelObject mo) \<Rightarrow> Inr (mo_state mo) | _ \<Rightarrow> Inl AttributeError)
      | _ \<Rightarrow> Inl AttributeError)"

definition isinstance :: "heap \<Rightarrow> val \<Rightarrow> string \<Rightarrow> bool" where
  "isinstance h v c =
     (case v of
        VObj a \<Rightarrow> (case lookup h a of Some (ModelObject mo) \<Rightarrow> c \<in> set (mo_mro mo) | _ \<Rightarrow> False)
      | _ \<Rightarrow> False)"

text \<open>\<open>CatalogObjectReference.__get__(model_object, objtype)\<close> on an instance. The
  shadow id is read with \<open>getattr(model_object, self.id_field)\<close>, which the id
  attribute of the owner answers from the value store.\<close>

definition CatalogObjectReference_get ::
  "externals \<Rightarrow> reference attribute \<Rightarrow> heap \<Rightarrow> addr \<Rightarrow> val result" where
  "CatalogObjectReference_get E A h model_object =
     (case get_attributes h model_object of
        None \<Rightarrow> (Inl AttributeError, h)
      | Some attrs \<Rightarrow>
          (let cached_value = (case map_of attrs (attribute_name A) of None \<Rightarrow> VNone | Some c \<Rightarrow> c);
               reference_id = (case map_of attrs (id_field A) of None \<Rightarrow> VNone | Some i \<Rightarrow> i)
           in case (if truthy h cached_value
                    then (case object_id h cached_value of
                            Inl e \<Rightarrow> Inl e
                          | Inr cached_id \<Rightarrow> Inr (py_eq E h cached_id reference_id))
                    else Inr False) of
                Inl e \<Rightarrow> (Inl e, h)
              | Inr True \<Rightarrow> (Inr cached_value, h)
              | Inr False \<Rightarrow>
                  (case (if truthy h reference_id
                         then reference_get E (reference_class (kind A)) reference_id h
                         else (Inr VNone, h)) of
                     (Inl e, h') \<Rightarrow> (Inl e, h')
                   | (Inr new_value, h') \<Rightarrow>
                       (case get_attributes h' model_object of
                          None \<Rightarrow> (Inl AttributeError, h')
                        | Some attrs' \<Rightarrow>
                            (Inr new_value,
                             set_attributes h' model_object
                               (AList.update (attribute_name A) new_value attrs'))))))"

text \<open>\<open>CatalogObjectReference.__set__(model_object, value, validate)\<close>\<close>

definition CatalogObjectReference_set ::
  "externals \<Rightarrow> nat \<Rightarrow> reference attribute \<Rightarrow> heap \<Rightarrow> addr \<Rightarrow> val \<Rightarrow> bool \<Rightarrow> unit result" where
  "CatalogObjectReference_set E fuel A h model_object v validate =
     (case get_attributes h model_object of
        None \<Rightarrow> (Inl AttributeError, h)
      | Some attrs \<Rightarrow>
          (case (if validate then raise_if_immutable_or_readonly A (attribute_name A) (Some attrs)
                 else Inr ()) of
             Inl e \<Rightarrow> (Inl e, h)
           | Inr u \<Rightarrow>
               (if v \<noteq> VNone \<and> \<not> isinstance h v (reference_class (kind A))
                then (Inl AttributeValidationError, h)
                else if v \<noteq> VNone \<and> \<not> allow_unsaved (kind A) \<and> object_state h v = Inr UNSAVED
                then (Inl AttributeValidationError, h)
                else
                  (let changed =
                         (case map_of attrs (attribute_name A) of
                            None \<Rightarrow> True
                          | Some old \<Rightarrow> \<not> py_eq E h old v)
                   in case set_modified fuel h model_object (Some (attribute_name A)) changed validate of
                        (Inl e, h1) \<Rightarrow> (Inl e, h1)
                      | (Inr u1, h1) \<Rightarrow>
                          (case get_attributes h1 model_object of
                             None \<Rightarrow> (Inl AttributeError, h1)
                           | Some attrs1 \<Rightarrow>
                               (let h2 = set_attributes h1 model_object
                                           (AList.update (attribute_name A) v attrs1)
                                in case set_modified fuel h2 model_object (Some (id_field A)) changed False of
                                     (Inl e, h3) \<Rightarrow> (Inl e, h3)
                                   | (Inr u3, h3) \<Rightarrow>
                                       (case (if v = VNone then Inr VNone else object_id h3 v) of
                                          Inl e \<Rightarrow> (Inl e, h3)
                                        | Inr i \<Rightarrow>
                                            (case get_attributes h3 model_object of
                                               None \<Rightarrow> (Inl AttributeError, h3)
                                             | Some attrs3 \<Rightarrow>
                                                 (Inr (), set_attributes h3 model_object
                                                            (AList.update (id_field A) i attrs3))))))))))"

section \<open>Schema registration\<close>

text \<open>\<open>AttributeMeta.__new__\<close>: the attributes declared in the class body are
  registered under, and bound to, their names; the entries of the base class are
  added where the name is not present yet.\<close>

fun inherit ::
  "(string \<times> kind attribute) list \<Rightarrow> (string \<times> kind attribute) list \<Rightarrow> (string \<times> kind attribute) list" where
  "inherit types [] = types"
| "inherit types ((attr_name, attr_type) # rest) =
     inherit (if map_of types attr_name = None then types @ [(attr_name, attr_type)] else types) rest"

definition register_declared :: "(string \<times> kind attribute) list \<Rightarrow> (string \<times> kind attribute) list" where
  "register_declared attrs =
     foldl (\<lambda>types (attr_name, attr_type).
              AList.update attr_name (attr_type\<lparr>attribute_name := attr_name\<rparr>) types) [] attrs"

fun attribute_types :: "cls \<Rightarrow> (string \<times> kind attribute) list" where
  "attribute_types (Class n None attrs) = register_declared attrs"
| "attribute_types (Class n (Some b) attrs) = inherit (register_declared attrs) (attribute_types b)"

text \<open>\<open>issubclass(c, d)\<close>, and \<open>isinstance\<close> for a model object, whose class is
  given by the names of its method resolution order.\<close>

fun issubclass :: "cls \<Rightarrow> cls \<Rightarrow> bool" where
  "issubclass (Class n None attrs) d = (Class n None attrs = d)"
| "issubclass (Class n (Some b) attrs) d = (Class n (Some b) attrs = d \<or> issubclass b d)"

section \<open>MappingAttribute\<close>

text \<open>\<open>get_attribute_type(name)\<close>\<close>

definition get_attribute_type :: "cls \<Rightarrow> string \<Rightarrow> error + kind attribute" where
  "get_attribute_type c name =
     (case map_of (attribute_types c) name of None \<Rightarrow> Inl AttributeError | Some A \<Rightarrow> Inr A)"

text \<open>\<open>_add_model_object(model_object, attr_name)\<close> and
  \<open>_remove_model_object(model_object)\<close> of a mapping or list value at an address. The
  registry is keyed by \<open>id(model_object)\<close>, here the owner's address.\<close>

definition add_model_object :: "heap \<Rightarrow> addr \<Rightarrow> addr \<Rightarrow> string option \<Rightarrow> unit result" where
  "add_model_object h self model_object attr_name =
     (case lookup h self of
        Some (MappingValue mv) \<Rightarrow>
          (Inr (), h[self := MappingValue
             (mv\<lparr>mv_model_objects := AList.update model_object attr_name (mv_model_objects mv)\<rparr>)])
      | Some (ListValue lv) \<Rightarrow>
          (Inr (), h[self := ListValue
             (lv\<lparr>lv_model_objects := AList.update model_object attr_name (lv_model_objects lv)\<rparr>)])
      | _ \<Rightarrow> (Inl AttributeError, h))"

definition remove_model_object :: "heap \<Rightarrow> addr \<Rightarrow> addr \<Rightarrow> unit result" where
  "remove_model_object h self model_object =
     (case lookup h self of
        Some (MappingValue mv) \<Rightarrow>
          (Inr (), h[self := MappingValue
             (mv\<lparr>mv_model_objects := AList.delete model_object (mv_model_objects mv)\<rparr>)])
      | Some (ListValue lv) \<Rightarrow>
          (Inr (), h[self := ListValue
             (lv\<lparr>lv_model_objects := AList.delete model_object (lv_model_objects lv)\<rparr>)])
      | _ \<Rightarrow> (Inl AttributeError, h))"

text \<open>The two calls as the descriptors make them, on whatever value the slot held:
  a value that is not an object has neither method.\<close>

definition value_remove_model_object :: "heap \<Rightarrow> val \<Rightarrow> addr \<Rightarrow> unit result" where
  "value_remove_model_object h v model_object =
     (case v of VObj a \<Rightarrow> remove_model_object h a model_object | _ \<Rightarrow> (Inl AttributeError, h))"

definition value_add_model_object :: "heap \<Rightarrow> val \<Rightarrow> addr \<Rightarrow> string option \<Rightarrow> unit result" where
  "value_add_model_object h v model_object attr_name =
     (case v of VObj a \<Rightarrow> add_model_object h a model_object attr_name | _ \<Rightarrow> (Inl AttributeError, h))"

text \<open>\<open>_get_attr_params(**extra_params)\<close>\<close>

definition get_attr_params :: "'a flags_scheme \<Rightarrow> (string \<times> val) list \<Rightarrow> (string \<times> val) list" where
  "get_attr_params A extra_params =
     foldl (\<lambda>params (k, v). AList.update k v params)
       [(''mutable'', VBool (mutable A)), (''serializable'', VBool (serializable A)),
        (''sticky'', VBool (sticky A)), (''readonly'', VBool (readonly A))]
       extra_params"

text \<open>\<open>kwargs.pop(key, default)\<close>\<close>

definition kwargs_pop :: "(string \<times> val) list \<Rightarrow> string \<Rightarrow> val \<Rightarrow> val \<times> (string \<times> val) list" where
  "kwargs_pop kwargs k d =
     (case map_of kwargs k of None \<Rightarrow> (d, kwargs) | Some v \<Rightarrow> (v, AList.delete k kwargs))"

text \<open>The loop of \<open>MappingAttribute.__init__\<close> over the remaining keyword
  arguments: each is set through the descriptor of its name; without validation an
  unknown name is skipped.\<close>

fun init_attributes ::
  "externals \<Rightarrow> nat \<Rightarrow> cls \<Rightarrow> heap \<Rightarrow> addr \<Rightarrow> (string \<times> val) list \<Rightarrow> bool \<Rightarrow> unit result" where
  "init_attributes E fuel c h self [] validate = (Inr (), h)"
| "init_attributes E fuel c h self ((attr_name, v) # rest) validate =
     (case map_of (attribute_types c) attr_name of
        None \<Rightarrow>
          (if validate then (Inl AttributeError, h)
           else init_attributes E fuel c h self rest validate)
      | Some A \<Rightarrow>
          (case Attribute_set E fuel A h self v validate of
             (Inl e, h') \<Rightarrow> (Inl e, h')
           | (Inr u, h') \<Rightarrow> init_attributes E fuel c h' self rest validate))"

text \<open>\<open>MappingAttribute.__init__(**kwargs)\<close> of a new instance of class \<open>c\<close>: the
  instance is allocated, the descriptor parameters and \<open>validate\<close> are popped, the
  rest are attribute values. The result is the address of the instance.\<close>

definition MappingAttribute_init ::
  "externals \<Rightarrow> nat \<Rightarrow> cls \<Rightarrow> heap \<Rightarrow> (string \<times> val) list \<Rightarrow> addr result" where
  "MappingAttribute_init E fuel c h kwargs =
     (let self = length h;
          (m, kw1) = kwargs_pop kwargs ''mutable'' (VBool True);
          (s, kw2) = kwargs_pop kw1 ''serializable'' (VBool True);
          (st, kw3) = kwargs_pop kw2 ''sticky'' (VBool False);
          (r, kw4) = kwargs_pop kw3 ''readonly'' (VBool False);
          (d, kw5) = kwargs_pop kw4 ''doc'' VNone;
          h0 = h @ [MappingValue
                 \<lparr>mv_class = c,
                  mv_flags = \<lparr>mutable = truthy h m, serializable = truthy h s,
                              sticky = truthy h st, readonly = truthy h r\<rparr>,
                  mv_attributes = [], mv_model_objects = []\<rparr>];
          (validate, kw6) = kwargs_pop kw5 ''validate'' (VBool True)
      in case init_attributes E fuel c h0 self kw6 (truthy h validate) of
           (Inl e, h') \<Rightarrow> (Inl e, h')
         | (Inr u, h') \<Rightarrow> (Inr self, h'))"

text \<open>\<open>MappingAttribute.deserialize(values, validate)\<close> of a descriptor. The
  constructor is called as \<open>type_(validate=validate, **params)\<close>: a key
  \<open>validate\<close> among the values is a second value for that keyword, a TypeError.\<close>

definition is_mapping_value :: "heap \<Rightarrow> val \<Rightarrow> bool" where
  "is_mapping_value h v =
     (case v of VObj a \<Rightarrow> (case lookup h a of Some (MappingValue mv) \<Rightarrow> True | _ \<Rightarrow> False) | _ \<Rightarrow> False)"

definition is_list_value :: "heap \<Rightarrow> val \<Rightarrow> bool" where
  "is_list_value h v =
     (case v of VObj a \<Rightarrow> (case lookup h a of Some (ListValue lv) \<Rightarrow> True | _ \<Rightarrow> False) | _ \<Rightarrow> False)"

definition MappingAttribute_deserialize ::
  "externals \<Rightarrow> nat \<Rightarrow> cls attribute \<Rightarrow> heap \<Rightarrow> val \<Rightarrow> bool \<Rightarrow> val result" where
  "MappingAttribute_deserialize E fuel A h values validate =
     (if values = VNone then (Inr VNone, h)
      else if is_mapping_value h values then (Inr values, h)
      else case values of
             VDict d \<Rightarrow>
               (let params = get_attr_params A d
                in if map_of params ''validate'' \<noteq> None then (Inl TypeError, h)
                   else case MappingAttribute_init E fuel (kind A) h
                               ((''validate'', VBool validate) # params) of
                          (Inl e, h') \<Rightarrow> (Inl e, h')
                        | (Inr a, h') \<Rightarrow> (Inr (VObj a), h'))
           | _ \<Rightarrow> (Inl AttributeValidationError, h))"

text \<open>\<open>MappingAttribute.serialize(attrs)\<close> of a descriptor: the data are the
  \<open>_attributes\<close> of a mapping value or the given dict; every name must be declared,
  and the serializable ones are serialized by their attribute. The keys of a dict are
  distinct, so each assignment \<open>serialized[name] = ...\<close> adds an entry at the end.\<close>

fun serialize_data ::
  "externals \<Rightarrow> heap \<Rightarrow> cls \<Rightarrow> (string \<times> val) list \<Rightarrow> error + (string \<times> val) list" where
  "serialize_data E h c [] = Inr []"
| "serialize_data E h c ((name, v) # rest) =
     (case get_attribute_type c name of
        Inl e \<Rightarrow> Inl e
      | Inr attribute_type \<Rightarrow>
          (if serializable attribute_type then
             (case serialize E h (kind attribute_type) v of
                Inl e \<Rightarrow> Inl e
              | Inr s \<Rightarrow>
                  (case serialize_data E h c rest of
                     Inl e \<Rightarrow> Inl e
                   | Inr ss \<Rightarrow> Inr ((name, s) # ss)))
           else serialize_data E h c rest))"

definition MappingAttribute_serialize :: "externals \<Rightarrow> heap \<Rightarrow> cls attribute \<Rightarrow> val \<Rightarrow> error + val" where
  "MappingAttribute_serialize E h A attrs =
     (if attrs = VNone then Inr VNone
      else case (case attrs of
                   VObj a \<Rightarrow>
                     (case lookup h a of
                        Some (MappingValue mv) \<Rightarrow> Inr (mv_attributes mv)
                      | _ \<Rightarrow> Inl AttributeError)
                 | VDict d \<Rightarrow> Inr d
                 | _ \<Rightarrow> Inl AttributeError) of
             Inl e \<Rightarrow> Inl e
           | Inr data \<Rightarrow>
               (case serialize_data E h (kind A) data of
                  Inl e \<Rightarrow> Inl e
                | Inr serialized \<Rightarrow> Inr (VDict serialized)))"

text \<open>\<open>MappingAttribute.__get__\<close>, \<open>__set__\<close> and \<open>__delete__\<close> of a descriptor on a
  model object.\<close>

definition MappingAttribute_get :: "cls attribute \<Rightarrow> heap \<Rightarrow> addr \<Rightarrow> error + val" where
  "MappingAttribute_get A h model_object =
     (case get_attributes h model_object of
        None \<Rightarrow> Inl AttributeError
      | Some attrs \<Rightarrow>
          (case map_of attrs (attribute_name A) of None \<Rightarrow> Inr VNone | Some v \<Rightarrow> Inr v))"

text \<open>The part that \<open>MappingAttribute.__set__\<close> and \<open>ListAttribute.__set__\<close> share,
  from the deserialized value on.\<close>

definition set_registered ::
  "externals \<Rightarrow> nat \<Rightarrow> string \<Rightarrow> heap \<Rightarrow> addr \<Rightarrow> val \<Rightarrow> bool \<Rightarrow> unit result" where
  "set_registered E fuel name h model_object v validate =
     (case get_attributes h model_object of
        None \<Rightarrow> (Inl AttributeError, h)
      | Some attrs \<Rightarrow>
          (let previous_value = (case map_of attrs name of None \<Rightarrow> VNone | Some p \<Rightarrow> p);
               changed = \<not> (map_of attrs name \<noteq> None \<and> py_eq E h previous_value v)
           in case set_modified fuel h model_object (Some name) changed validate of
                (Inl e, h1) \<Rightarrow> (Inl e, h1)
              | (Inr u, h1) \<Rightarrow>
                  (case (if previous_value \<noteq> VNone
                         then value_remove_model_object h1 previous_value model_object
                         else (Inr (), h1)) of
                     (Inl e, h2) \<Rightarrow> (Inl e, h2)
                   | (Inr u, h2) \<Rightarrow>
                       (case (if v \<noteq> VNone
                              then value_add_model_object h2 v model_object (Some name)
                              else (Inr (), h2)) of
                          (Inl e, h3) \<Rightarrow> (Inl e, h3)
                        | (Inr u, h3) \<Rightarrow>
                            (case get_attributes h3 model_object of
                               None \<Rightarrow> (Inl AttributeError, h3)
                             | Some attrs' \<Rightarrow>
                                 (Inr (), set_attributes h3 model_object
                                            (AList.update name v attrs')))))))"

definition MappingAttribute_set ::
  "externals \<Rightarrow> nat \<Rightarrow> cls attribute \<Rightarrow> heap \<Rightarrow> addr \<Rightarrow> val \<Rightarrow> bool \<Rightarrow> unit result" where
  "MappingAttribute_set E fuel A h model_object v validate =
     (case get_attributes h model_object of
        None \<Rightarrow> (Inl AttributeError, h)
      | Some attrs \<Rightarrow>
          (case (if validate then raise_if_immutable_or_readonly A (attribute_name A) (Some attrs)
                 else Inr ()) of
             Inl e \<Rightarrow> (Inl e, h)
           | Inr u \<Rightarrow>
               (case MappingAttribute_deserialize E fuel A h v validate of
                  (Inl e, h') \<Rightarrow> (Inl e, h')
                | (Inr v', h') \<Rightarrow> set_registered E fuel (attribute_name A) h' model_object v' validate)))"

text \<open>The part that \<open>MappingAttribute.__delete__\<close> and \<open>ListAttribute.__delete__\<close>
  share.\<close>

definition delete_registered :: "'k attribute \<Rightarrow> heap \<Rightarrow> addr \<Rightarrow> bool \<Rightarrow> unit result" where
  "delete_registered A h model_object validate =
     (case get_attributes h model_object of
        None \<Rightarrow> (Inl AttributeError, h)
      | Some attrs \<Rightarrow>
          (case (if validate then raise_if_immutable_or_readonly A (attribute_name A) (Some attrs)
                 else Inr ()) of
             Inl e \<Rightarrow> (Inl e, h)
           | Inr u \<Rightarrow>
               (let previous_value = (case map_of attrs (attribute_name A) of None \<Rightarrow> VNone | Some p \<Rightarrow> p);
                    h1 = set_attributes h model_object (AList.delete (attribute_name A) attrs)
                in if previous_value \<noteq> VNone
                   then value_remove_model_object h1 previous_value model_object
                   else (Inr (), h1))))"

definition MappingAttribute_delete :: "cls attribute \<Rightarrow> heap \<Rightarrow> addr \<Rightarrow> bool \<Rightarrow> unit result" where
  "MappingAttribute_delete A h model_object validate = delete_registered A h model_object validate"

text \<open>\<open>MappingAttribute.__setattr__(name, value)\<close> for a public name (one that does
  not start with an underscore), as in \<open>m.href = value\<close>: the name must be a declared
  attribute, and the assignment then goes through the descriptor of that attribute
  with the mapping value itself as the owner and validate at its default, True.\<close>

definition MappingAttribute_setattr ::
  "externals \<Rightarrow> nat \<Rightarrow> heap \<Rightarrow> addr \<Rightarrow> string \<Rightarrow> val \<Rightarrow> unit result" where
  "MappingAttribute_setattr E fuel h self name v =
     (case lookup h self of
        Some (MappingValue mv) \<Rightarrow>
          (case get_attribute_type (mv_class mv) name of
             Inl e \<Rightarrow> (Inl e, h)
           | Inr A \<Rightarrow> Attribute_set E fuel A h self v True)
      | _ \<Rightarrow> (Inl AttributeError, h))"

section \<open>ListAttribute\<close>

text \<open>\<open>self._items\<close> of the list value at an address.\<close>

definition get_items :: "heap \<Rightarrow> addr \<Rightarrow> val list option" where
  "get_items h self = (case lookup h self of Some (ListValue lv) \<Rightarrow> Some (lv_items lv) | _ \<Rightarrow> None)"

definition set_items :: "heap \<Rightarrow> addr \<Rightarrow> val list \<Rightarrow> heap" where
  "set_items h self xs =
     (case lookup h self of
        Some (ListValue lv) \<Rightarrow> h[self := ListValue (lv\<lparr>lv_items := xs\<rparr>)]
      | _ \<Rightarrow> h)"

text \<open>The policy check of a list mutator,
  \<open>self._raise_if_immutable_or_readonly(operation)\<close>: no object is passed, so an
  immutable list rejects every mutator.\<close>

definition list_policy :: "heap \<Rightarrow> addr \<Rightarrow> error + unit" where
  "list_policy h self =
     (case lookup h self of
        Some (ListValue lv) \<Rightarrow> raise_if_immutable_or_readonly (lv_flags lv) [] None
      | _ \<Rightarrow> Inl AttributeError)"

text \<open>\<open>_instantiate_item(item, validate, add_model)\<close>. When the item type is a mapping
  class, an item that is not a mapping value is passed to the constructor as
  \<open>self._item_cls(validate=validate, **item)\<close>, a TypeError unless it is a dict (and
  when it has a key \<open>validate\<close>); with \<open>add_model\<close> the list is registered as an owner
  of the item, under no name.\<close>

definition instantiate_item ::
  "externals \<Rightarrow> nat \<Rightarrow> heap \<Rightarrow> addr \<Rightarrow> val \<Rightarrow> bool \<Rightarrow> bool \<Rightarrow> val result" where
  "instantiate_item E fuel h self item validate add_model =
     (case lookup h self of
        Some (ListValue lv) \<Rightarrow>
          (case lv_item_type lv of
             ItemPlain k \<Rightarrow> (Inr item, h)
           | ItemMapping c \<Rightarrow>
               (case (if is_mapping_value h item then (Inr item, h)
                      else case item of
                             VDict d \<Rightarrow>
                               (if map_of d ''validate'' \<noteq> None then (Inl TypeError, h)
                                else case MappingAttribute_init E fuel c h
                                            ((''validate'', VBool validate) # d) of
                                       (Inl e, h') \<Rightarrow> (Inl e, h')
                                     | (Inr a, h') \<Rightarrow> (Inr (VObj a), h'))
                           | _ \<Rightarrow> (Inl TypeError, h)) of
                  (Inl e, h1) \<Rightarrow> (Inl e, h1)
                | (Inr it, h1) \<Rightarrow>
                    (if add_model
                     then (case value_add_model_object h1 it self None of
                             (Inl e, h2) \<Rightarrow> (Inl e, h2)
                           | (Inr u, h2) \<Rightarrow> (Inr it, h2))
                     else (Inr it, h1))))
      | _ \<Rightarrow> (Inl AttributeError, h))"

text \<open>The list comprehension of \<open>ListAttribute.__init__\<close>: the items are
  instantiated in order and collected; the list is assigned only when all are.\<close>

fun instantiate_items ::
  "externals \<Rightarrow> nat \<Rightarrow> heap \<Rightarrow> addr \<Rightarrow> val list \<Rightarrow> bool \<Rightarrow> (val list) result" where
  "instantiate_items E fuel h self [] validate = (Inr [], h)"
| "instantiate_items E fuel h self (item # rest) validate =
     (case instantiate_item E fuel h self item validate True of
        (Inl e, h') \<Rightarrow> (Inl e, h')
      | (Inr it, h') \<Rightarrow>
          (case instantiate_items E fuel h' self rest validate of
             (Inl e, h'') \<Rightarrow> (Inl e, h'')
           | (Inr its, h'') \<Rightarrow> (Inr (it # its), h'')))"

text \<open>\<open>ListAttribute.__init__(item_cls, validate, items, **kwargs)\<close> of a new list
  value with the given flags; the result is its address.\<close>

definition ListAttribute_init ::
  "externals \<Rightarrow> nat \<Rightarrow> item_type \<Rightarrow> heap \<Rightarrow> bool \<Rightarrow> val list \<Rightarrow> flags \<Rightarrow> addr result" where
  "ListAttribute_init E fuel item_cls h validate xs fl =
     (let self = length h;
          h0 = h @ [ListValue \<lparr>lv_item_type = item_cls, lv_flags = fl, lv_items = [],
                                lv_model_objects = []\<rparr>]
      in case instantiate_items E fuel h0 self xs validate of
           (Inl e, h') \<Rightarrow> (Inl e, h')
         | (Inr its, h') \<Rightarrow> (Inr self, set_items h' self its))"

text \<open>\<open>ListAttribute.deserialize(values, validate)\<close> of a descriptor.\<close>

definition ListAttribute_deserialize ::
  "externals \<Rightarrow> nat \<Rightarrow> item_type attribute \<Rightarrow> heap \<Rightarrow> val \<Rightarrow> bool \<Rightarrow> val result" where
  "ListAttribute_deserialize E fuel A h values validate =
     (if values = VNone then (Inr VNone, h)
      else if is_list_value h values then (Inr values, h)
      else case values of
             VList xs \<Rightarrow>
               (case ListAttribute_init E fuel (kind A) h validate xs
                       \<lparr>mutable = mutable A, serializable = serializable A,
                        sticky = sticky A, readonly = readonly A\<rparr> of
                  (Inl e, h') \<Rightarrow> (Inl e, h')
                | (Inr a, h') \<Rightarrow> (Inr (VObj a), h'))
           | _ \<Rightarrow> (Inl AttributeValidationError, h))"

text \<open>The attribute that serializes the items of a list of mapping values,
  \<open>self._item_type = item_cls(**kwargs)\<close>: an instance of the mapping class, made with
  the flags of the list and bound to no name.\<close>

definition item_attribute :: "'a flags_scheme \<Rightarrow> cls \<Rightarrow> cls attribute" where
  "item_attribute A c =
     \<lparr>mutable = mutable A, serializable = serializable A, sticky = sticky A,
      readonly = readonly A, attribute_name = [], kind = c\<rparr>"

text \<open>\<open>self._item_type.serialize(v)\<close>\<close>

definition serialize_item :: "externals \<Rightarrow> heap \<Rightarrow> item_type attribute \<Rightarrow> val \<Rightarrow> error + val" where
  "serialize_item E h A v =
     (case kind A of
        ItemMapping c \<Rightarrow> MappingAttribute_serialize E h (item_attribute A c) v
      | ItemPlain k \<Rightarrow> serialize E h k v)"

fun serialize_items :: "externals \<Rightarrow> heap \<Rightarrow> item_type attribute \<Rightarrow> val list \<Rightarrow> error + val list" where
  "serialize_items E h A [] = Inr []"
| "serialize_items E h A (v # rest) =
     (case serialize_item E h A v of
        Inl e \<Rightarrow> Inl e
      | Inr s \<Rightarrow>
          (case serialize_items E h A rest of
             Inl e \<Rightarrow> Inl e
           | Inr ss \<Rightarrow> Inr (s # ss)))"

text \<open>What \<open>for v in values\<close> runs over: the elements of a list, the items of a
  ListAttribute (\<open>__iter__\<close>), the characters of a string, the keys of a dict; the
  other values are not iterable.\<close>

definition iterate :: "heap \<Rightarrow> val \<Rightarrow> error + val list" where
  "iterate h values =
     (case values of
        VList xs \<Rightarrow> Inr xs
      | VObj a \<Rightarrow> (case lookup h a of Some (ListValue lv) \<Rightarrow> Inr (lv_items lv) | _ \<Rightarrow> Inl TypeError)
      | VStr s \<Rightarrow> Inr (map (\<lambda>c. VStr [c]) s)
      | VEnum c s \<Rightarrow> Inr (map (\<lambda>c. VStr [c]) s)
      | VDict d \<Rightarrow> Inr (map (\<lambda>(k, v). VStr k) d)
      | _ \<Rightarrow> Inl TypeError)"

text \<open>\<open>ListAttribute.serialize(values)\<close> of a descriptor.\<close>

definition ListAttribute_serialize :: "externals \<Rightarrow> heap \<Rightarrow> item_type attribute \<Rightarrow> val \<Rightarrow> error + val" where
  "ListAttribute_serialize E h A values =
     (if values = VNone then Inr VNone
      else case iterate h values of
             Inl e \<Rightarrow> Inl e
           | Inr xs \<Rightarrow>
               (case serialize_items E h A xs of
                  Inl e \<Rightarrow> Inl e
                | Inr ss \<Rightarrow> Inr (VList ss)))"

text \<open>\<open>ListAttribute.__set__\<close> and \<open>__delete__\<close> of a descriptor on a model
  object.\<close>

definition ListAttribute_set ::
  "externals \<Rightarrow> nat \<Rightarrow> item_type attribute \<Rightarrow> heap \<Rightarrow> addr \<Rightarrow> val \<Rightarrow> bool \<Rightarrow> unit result" where
  "ListAttribute_set E fuel A h model_object v validate =
     (case get_attributes h model_object of
        None \<Rightarrow> (Inl AttributeError, h)
      | Some attrs \<Rightarrow>
          (case (if validate then raise_if_immutable_or_readonly A (attribute_name A) (Some attrs)
                 else Inr ()) of
             Inl e \<Rightarrow> (Inl e, h)
           | Inr u \<Rightarrow>
               (case ListAttribute_deserialize E fuel A h v validate of
                  (Inl e, h') \<Rightarrow> (Inl e, h')
                | (Inr v', h') \<Rightarrow> set_registered E fuel (attribute_name A) h' model_object v' validate)))"

definition ListAttribute_delete :: "item_type attribute \<Rightarrow> heap \<Rightarrow> addr \<Rightarrow> bool \<Rightarrow> unit result" where
  "ListAttribute_delete A h model_object validate = delete_registered A h model_object validate"

text \<open>\<open>append(item)\<close>\<close>

definition ListAttribute_append :: "externals \<Rightarrow> nat \<Rightarrow> heap \<Rightarrow> addr \<Rightarrow> val \<Rightarrow> unit result" where
  "ListAttribute_append E fuel h self item =
     (case list_policy h self of
        Inl e \<Rightarrow> (Inl e, h)
      | Inr u \<Rightarrow>
          (case instantiate_item E fuel h self item True True of
             (Inl e, h1) \<Rightarrow> (Inl e, h1)
           | (Inr v, h1) \<Rightarrow>
               (case set_modified fuel h1 self None True True of
                  (Inl e, h2) \<Rightarrow> (Inl e, h2)
                | (Inr u, h2) \<Rightarrow>
                    (case get_items h2 self of
                       None \<Rightarrow> (Inl AttributeError, h2)
                     | Some xs \<Rightarrow> (Inr (), set_items h2 self (xs @ [v]))))))"

text \<open>\<open>self._items.extend(new_others)\<close> where \<open>new_others\<close> is the generator
  \<open>(self._instantiate_item(o) for o in other)\<close>: the built-in \<open>list.extend\<close> asks the
  generator for one item at a time and appends it before it asks for the next, so an
  exception of the generator ends the call with the earlier items in the list.\<close>

fun extend_items :: "externals \<Rightarrow> nat \<Rightarrow> heap \<Rightarrow> addr \<Rightarrow> val list \<Rightarrow> unit result" where
  "extend_items E fuel h self [] = (Inr (), h)"
| "extend_items E fuel h self (x # rest) =
     (case instantiate_item E fuel h self x True True of
        (Inl e, h1) \<Rightarrow> (Inl e, h1)
      | (Inr v, h1) \<Rightarrow>
          (case get_items h1 self of
             None \<Rightarrow> (Inl AttributeError, h1)
           | Some xs \<Rightarrow> extend_items E fuel (set_items h1 self (xs @ [v])) self rest))"

text \<open>\<open>extend(other)\<close> and \<open>__iadd__(other)\<close>; \<open>other\<close> is given by the items it
  yields.\<close>

definition ListAttribute_extend :: "externals \<Rightarrow> nat \<Rightarrow> heap \<Rightarrow> addr \<Rightarrow> val list \<Rightarrow> unit result" where
  "ListAttribute_extend E fuel h self other =
     (case list_policy h self of
        Inl e \<Rightarrow> (Inl e, h)
      | Inr u \<Rightarrow>
          (case set_modified fuel h self None True True of
             (Inl e, h1) \<Rightarrow> (Inl e, h1)
           | (Inr u, h1) \<Rightarrow> extend_items E fuel h1 self other))"

definition ListAttribute_iadd :: "externals \<Rightarrow> nat \<Rightarrow> heap \<Rightarrow> addr \<Rightarrow> val list \<Rightarrow> unit result" where
  "ListAttribute_iadd E fuel h self other =
     (case list_policy h self of
        Inl e \<Rightarrow> (Inl e, h)
      | Inr u \<Rightarrow>
          (case set_modified fuel h self None (other \<noteq> []) True of
             (Inl e, h1) \<Rightarrow> (Inl e, h1)
           | (Inr u, h1) \<Rightarrow> extend_items E fuel h1 self other))"

text \<open>How the built-in list compares an item with a value: the same object is
  equal, otherwise \<open>==\<close> decides.\<close>

definition item_eq :: "externals \<Rightarrow> heap \<Rightarrow> val \<Rightarrow> val \<Rightarrow> bool" where
  "item_eq E h x y =
     (case (x, y) of (VObj a, VObj b) \<Rightarrow> a = b \<or> py_eq E h x y | _ \<Rightarrow> py_eq E h x y)"

fun first_index :: "externals \<Rightarrow> heap \<Rightarrow> val list \<Rightarrow> val \<Rightarrow> nat \<Rightarrow> nat option" where
  "first_index E h [] v i = None"
| "first_index E h (x # xs) v i = (if item_eq E h x v then Some i else first_index E h xs v (Suc i))"

text \<open>\<open>index(value)\<close> (without a start and stop), \<open>count(value)\<close> and
  \<open>__contains__(value)\<close>\<close>

definition ListAttribute_index :: "externals \<Rightarrow> nat \<Rightarrow> heap \<Rightarrow> addr \<Rightarrow> val \<Rightarrow> nat result" where
  "ListAttribute_index E fuel h self v =
     (case instantiate_item E fuel h self v True True of
        (Inl e, h1) \<Rightarrow> (Inl e, h1)
      | (Inr new_value, h1) \<Rightarrow>
          (case get_items h1 self of
             None \<Rightarrow> (Inl AttributeError, h1)
           | Some xs \<Rightarrow>
               (case first_index E h1 xs new_value 0 of
                  None \<Rightarrow> (Inl ValueError, h1)
                | Some i \<Rightarrow> (Inr i, h1))))"

definition ListAttribute_count :: "externals \<Rightarrow> nat \<Rightarrow> heap \<Rightarrow> addr \<Rightarrow> val \<Rightarrow> nat result" where
  "ListAttribute_count E fuel h self v =
     (case instantiate_item E fuel h self v True False of
        (Inl e, h1) \<Rightarrow> (Inl e, h1)
      | (Inr new_value, h1) \<Rightarrow>
          (case get_items h1 self of
             None \<Rightarrow> (Inl AttributeError, h1)
           | Some xs \<Rightarrow> (Inr (length (filter (\<lambda>x. item_eq E h1 x new_value) xs)), h1)))"

definition ListAttribute_contains :: "externals \<Rightarrow> nat \<Rightarrow> heap \<Rightarrow> addr \<Rightarrow> val \<Rightarrow> bool result" where
  "ListAttribute_contains E fuel h self v =
     (case instantiate_item E fuel h self v True True of
        (Inl e, h1) \<Rightarrow> (Inl e, h1)
      | (Inr new_value, h1) \<Rightarrow>
          (case get_items h1 self of
             None \<Rightarrow> (Inl AttributeError, h1)
           | Some xs \<Rightarrow> (Inr (first_index E h1 xs new_value 0 \<noteq> None), h1)))"

text \<open>\<open>insert(index, value)\<close>: the built-in \<open>list.insert\<close> counts a negative index
  from the end and clamps it to the list.\<close>

definition insert_at :: "int \<Rightarrow> val \<Rightarrow> val list \<Rightarrow> val list" where
  "insert_at i v xs =
     (let n = int (length xs);
          j = (if i < 0 then max 0 (i + n) else min i n)
      in take (nat j) xs @ [v] @ drop (nat j) xs)"

definition ListAttribute_insert :: "externals \<Rightarrow> nat \<Rightarrow> heap \<Rightarrow> addr \<Rightarrow> int \<Rightarrow> val \<Rightarrow> unit result" where
  "ListAttribute_insert E fuel h self i v =
     (case list_policy h self of
        Inl e \<Rightarrow> (Inl e, h)
      | Inr u \<Rightarrow>
          (case instantiate_item E fuel h self v True True of
             (Inl e, h1) \<Rightarrow> (Inl e, h1)
           | (Inr new_value, h1) \<Rightarrow>
               (case set_modified fuel h1 self None True True of
                  (Inl e, h2) \<Rightarrow> (Inl e, h2)
                | (Inr u, h2) \<Rightarrow>
                    (case get_items h2 self of
                       None \<Rightarrow> (Inl AttributeError, h2)
                     | Some xs \<Rightarrow> (Inr (), set_items h2 self (insert_at i new_value xs))))))"

text \<open>\<open>pop(index)\<close>: the built-in \<open>list.pop\<close> counts a negative index from the end
  and raises IndexError outside the list.\<close>

definition ListAttribute_pop :: "nat \<Rightarrow> heap \<Rightarrow> addr \<Rightarrow> int \<Rightarrow> val result" where
  "ListAttribute_pop fuel h self i =
     (case list_policy h self of
        Inl e \<Rightarrow> (Inl e, h)
      | Inr u \<Rightarrow>
          (case set_modified fuel h self None True True of
             (Inl e, h1) \<Rightarrow> (Inl e, h1)
           | (Inr u, h1) \<Rightarrow>
               (case get_items h1 self of
                  None \<Rightarrow> (Inl AttributeError, h1)
                | Some xs \<Rightarrow>
                    (let n = int (length xs); j = (if i < 0 then i + n else i)
                     in if j < 0 \<or> n \<le> j then (Inl IndexError, h1)
                        else
                          (let popped = xs ! nat j;
                               h2 = set_items h1 self (take (nat j) xs @ drop (Suc (nat j)) xs)
                           in if is_mapping_value h2 popped
                              then (case value_remove_model_object h2 popped self of
                                      (Inl e, h3) \<Rightarrow> (Inl e, h3)
                                    | (Inr u, h3) \<Rightarrow> (Inr popped, h3))
                              else (Inr popped, h2))))))"

text \<open>\<open>remove(value)\<close>\<close>

definition ListAttribute_remove :: "externals \<Rightarrow> nat \<Rightarrow> heap \<Rightarrow> addr \<Rightarrow> val \<Rightarrow> unit result" where
  "ListAttribute_remove E fuel h self v =
     (case list_policy h self of
        Inl e \<Rightarrow> (Inl e, h)
      | Inr u \<Rightarrow>
          (case ListAttribute_index E fuel h self v of
             (Inl e, h1) \<Rightarrow> (Inl e, h1)
           | (Inr i, h1) \<Rightarrow>
               (case ListAttribute_pop fuel h1 self (int i) of
                  (Inl e, h2) \<Rightarrow> (Inl e, h2)
                | (Inr popped, h2) \<Rightarrow> (Inr (), h2))))"

section \<open>AttributeEqualityMixin\<close>

text \<open>The loop of \<open>AttributeEqualityMixin.__eq__\<close> over \<open>self._attribute_types\<close>:
  an attribute that is not serializable is skipped, the first serializable one whose
  two serialized values differ ends the loop with False. \<open>_attributes.get(name)\<close> is
  None for a name without a value.\<close>

definition attribute_value :: "(string \<times> val) list \<Rightarrow> string \<Rightarrow> val" where
  "attribute_value attrs name = (case map_of attrs name of None \<Rightarrow> VNone | Some v \<Rightarrow> v)"

fun eq_attributes ::
  "externals \<Rightarrow> heap \<Rightarrow> (string \<times> kind attribute) list \<Rightarrow> (string \<times> val) list \<Rightarrow>
   (string \<times> val) list \<Rightarrow> error + bool" where
  "eq_attributes E h [] self_attributes other_attributes = Inr True"
| "eq_attributes E h ((name, attribute_type) # rest) self_attributes other_attributes =
     (if \<not> serializable attribute_type then eq_attributes E h rest self_attributes other_attributes
      else case serialize E h (kind attribute_type) (attribute_value self_attributes name) of
             Inl e \<Rightarrow> Inl e
           | Inr x \<Rightarrow>
               (case serialize E h (kind attribute_type) (attribute_value other_attributes name) of
                  Inl e \<Rightarrow> Inl e
                | Inr y \<Rightarrow>
                    (if \<not> py_eq E h x y then Inr False
                     else eq_attributes E h rest self_attributes other_attributes)))"

text \<open>\<open>AttributeEqualityMixin.__eq__(self, other)\<close> of a mapping value:
  \<open>isinstance(other, self.__class__)\<close> holds when the class of \<open>other\<close> is the class
  of \<open>self\<close> or one of its subclasses.\<close>

definition AttributeEqualityMixin_eq :: "externals \<Rightarrow> heap \<Rightarrow> mapping_value \<Rightarrow> val \<Rightarrow> error + bool" where
  "AttributeEqualityMixin_eq E h self other =
     (case other of
        VObj b \<Rightarrow>
          (case lookup h b of
             Some (MappingValue ov) \<Rightarrow>
               (if \<not> issubclass (mv_class ov) (mv_class self) then Inr False
                else eq_attributes E h (attribute_types (mv_class self))
                       (mv_attributes self) (mv_attributes ov))
           | _ \<Rightarrow> Inr False)
      | _ \<Rightarrow> Inr False)"

definition AttributeEqualityMixin_ne :: "externals \<Rightarrow> heap \<Rightarrow> mapping_value \<Rightarrow> val \<Rightarrow> error + bool" where
  "AttributeEqualityMixin_ne E h self other =
     (case AttributeEqualityMixin_eq E h self other of Inl e \<Rightarrow> Inl e | Inr r \<Rightarrow> Inr (\<not> r))"

text \<open>The comparison \<open>a == b\<close> of the mapping values at two addresses, as Python
  evaluates it: when the class of \<open>b\<close> is a proper subclass of the class of \<open>a\<close>,
  the method of \<open>b\<close> is tried first, otherwise the method of \<open>a\<close>; \<open>__eq__\<close> never
  returns NotImplemented, so the first answer stands. An address that holds no
  mapping value is outside this function (TypeError).\<close>

definition mapping_values_equal :: "externals \<Rightarrow> heap \<Rightarrow> addr \<Rightarrow> addr \<Rightarrow> error + bool" where
  "mapping_values_equal E h a b =
     (case (lookup h a, lookup h b) of
        (Some (MappingValue ma), Some (MappingValue mb)) \<Rightarrow>
          (if mv_class mb \<noteq> mv_class ma \<and> issubclass (mv_class mb) (mv_class ma)
           then AttributeEqualityMixin_eq E h mb (VObj a)
           else AttributeEqualityMixin_eq E h ma (VObj b))
      | _ \<Rightarrow> Inl TypeError)"

text \<open>\<open>ListAttribute.__eq__(self, other)\<close>. The loop compares the items pairwise
  with \<open>i1 != i2\<close>: between two mapping values that is \<open>__ne__\<close> of
  AttributeEqualityMixin, the negation of \<open>__eq__\<close>, dispatched as \<open>==\<close> is; between
  other values it is the negation of \<open>==\<close>. \<open>zip\<close> stops at the end of the shorter
  list.\<close>

definition item_ne :: "externals \<Rightarrow> heap \<Rightarrow> val \<Rightarrow> val \<Rightarrow> error + bool" where
  "item_ne E h i1 i2 =
     (case (i1, i2) of
        (VObj a, VObj b) \<Rightarrow>
          (if is_mapping_value h i1 \<and> is_mapping_value h i2
           then (case mapping_values_equal E h a b of Inl e \<Rightarrow> Inl e | Inr r \<Rightarrow> Inr (\<not> r))
           else Inr (\<not> py_eq E h i1 i2))
      | _ \<Rightarrow> Inr (\<not> py_eq E h i1 i2))"

fun eq_zip :: "externals \<Rightarrow> heap \<Rightarrow> val list \<Rightarrow> val list \<Rightarrow> error + bool" where
  "eq_zip E h (i1 # xs) (i2 # ys) =
     (case item_ne E h i1 i2 of
        Inl e \<Rightarrow> Inl e
      | Inr r \<Rightarrow> (if r then Inr False else eq_zip E h xs ys))"
| "eq_zip E h xs ys = Inr True"

definition ListAttribute_eq :: "externals \<Rightarrow> heap \<Rightarrow> addr \<Rightarrow> val \<Rightarrow> error + bool" where
  "ListAttribute_eq E h self other =
     (case lookup h self of
        Some (ListValue lv) \<Rightarrow>
          (if other = VObj self then Inr True
           else case (case other of
                        VObj b \<Rightarrow> (case lookup h b of Some (ListValue lo) \<Rightarrow> Some (lv_items lo) | _ \<Rightarrow> None)
                      | VList ys \<Rightarrow> Some ys
                      | _ \<Rightarrow> None) of
                  None \<Rightarrow> Inr False
                | Some ys \<Rightarrow>
                    (if length (lv_items lv) \<noteq> length ys then Inr False
                     else eq_zip E h (lv_items lv) ys))
      | _ \<Rightarrow> Inl TypeError)"

text \<open>The serialized value of the attribute \<open>name\<close> of a store, and the condition
  that two stores agree on every serializable attribute of a schema.\<close>

definition serialized :: "externals \<Rightarrow> heap \<Rightarrow> kind attribute \<Rightarrow> (string \<times> val) list \<Rightarrow> string \<Rightarrow> error + val" where
  "serialized E h attribute_type attrs name = serialize E h (kind attribute_type) (attribute_value attrs name)"

definition serialize_alike ::
  "externals \<Rightarrow> heap \<Rightarrow> (string \<times> kind attribute) list \<Rightarrow> (string \<times> val) list \<Rightarrow>
   (string \<times> val) list \<Rightarrow> bool" where
  "serialize_alike E h types xs ys =
     (\<forall>(name, t) \<in> set types.
        serializable t \<longrightarrow>
          (\<exists>x y. serialized E h t xs name = Inr x \<and> serialized E h t ys name = Inr y \<and> py_eq E h x y))"

definition serializes ::
  "externals \<Rightarrow> heap \<Rightarrow> (string \<times> kind attribute) list \<Rightarrow> (string \<times> val) list \<Rightarrow> bool" where
  "serializes E h types xs =
     (\<forall>(name, t) \<in> set types. serializable t \<longrightarrow> (\<exists>x. serialized E h t xs name = Inr x))"

section \<open>Round trips\<close>

text \<open>\<open>attribute.deserialize(attribute.serialize(v), validate)\<close> for a plain
  attribute.\<close>

definition round_trip :: "externals \<Rightarrow> heap \<Rightarrow> kind \<Rightarrow> val \<Rightarrow> bool \<Rightarrow> error + val" where
  "round_trip E h k v validate =
     (case serialize E h k v of Inl e \<Rightarrow> Inl e | Inr s \<Rightarrow> deserialize E h k s validate)"

text \<open>The keyword arguments that \<open>MappingAttribute.__init__\<close> takes for itself,
  and the condition that a value survives serialize, deserialize (validating) and
  serialize again of a plain attribute with the same serialized form, whatever the
  heap.\<close>

definition constructor_keywords :: "string list" where
  "constructor_keywords = [''mutable'', ''serializable'', ''sticky'', ''readonly'', ''doc'', ''validate'']"

definition stable :: "externals \<Rightarrow> kind \<Rightarrow> val \<Rightarrow> bool" where
  "stable E k v =
     (\<exists>s v'. (\<forall>h. serialize E h k v = Inr s) \<and> (\<forall>h. deserialize E h k s True = Inr v') \<and>
             (\<forall>h. serialize E h k v' = Inr s))"

text \<open>What the round trip of a mapping value asks of one attribute of the schema:
  when it has no value, that None serializes; when it has one, that it is not
  readonly and that the value is stable.\<close>

definition field_stable :: "externals \<Rightarrow> kind attribute \<Rightarrow> val option \<Rightarrow> bool" where
  "field_stable E t ov =
     (case ov of
        None \<Rightarrow> (\<exists>s. \<forall>h. serialize E h (kind t) VNone = Inr s)
      | Some v \<Rightarrow> \<not> readonly t \<and> stable E (kind t) v)"

text \<open>What the round trip asks of a mapping value of class \<open>c\<close>: its stored
  attributes have distinct names, are declared and are not named like a keyword of the
  constructor, and every attribute of the schema is stable on it. And what the round
  trip of a list asks of an item: under a mapping class, that it is such a mapping
  value; under a plain attribute, which \<open>_instantiate_item\<close> does not deserialize, that
  it is not an object and equals its serialized form.\<close>

definition mapping_stable :: "externals \<Rightarrow> cls \<Rightarrow> mapping_value \<Rightarrow> bool" where
  "mapping_stable E c mv =
     (mv_class mv = c \<and> distinct (map fst (mv_attributes mv)) \<and>
      (\<forall>n \<in> fst ` set (mv_attributes mv).
          n \<notin> set constructor_keywords \<and> map_of (attribute_types c) n \<noteq> None) \<and>
      (\<forall>(n, t) \<in> set (attribute_types c).
          serializable t \<longrightarrow> field_stable E t (map_of (mv_attributes mv) n)))"

definition item_stable :: "externals \<Rightarrow> heap \<Rightarrow> item_type \<Rightarrow> val \<Rightarrow> bool" where
  "item_stable E h it x =
     (case it of
        ItemMapping c \<Rightarrow>
          (\<exists>a mv. x = VObj a \<and> lookup h a = Some (MappingValue mv) \<and> mapping_stable E c mv)
      | ItemPlain k \<Rightarrow>
          (\<forall>a. x \<noteq> VObj a) \<and> (\<exists>s. (\<forall>h. serialize E h k x = Inr s) \<and> (\<forall>h. py_eq E h x s)))"

text \<open>Every attribute of a schema is bound to the name it is registered under.\<close>

definition bound :: "(string \<times> kind attribute) list \<Rightarrow> bool" where
  "bound types = (\<forall>(k, a) \<in> set types. attribute_name a = k)"

section \<open>Observations\<close>

text \<open>The calls of its modification callback that the model object at an address
  has received so far (None where there is no model object).\<close>

definition notices_of :: "heap \<Rightarrow> addr \<Rightarrow> (string option \<times> bool \<times> bool) list option" where
  "notices_of h a = (case lookup h a of Some (ModelObject mo) \<Rightarrow> Some (mo_notices mo) | _ \<Rightarrow> None)"

text \<open>The policy check of a validated set or delete passes: the attribute is not
  readonly, and it is mutable or has no stored value.\<close>

definition policy_passes :: "'a flags_scheme \<Rightarrow> string \<Rightarrow> (string \<times> val) list \<Rightarrow> bool" where
  "policy_passes A name attrs = (\<not> readonly A \<and> (mutable A \<or> map_of attrs name = None))"

section \<open>An instance of the environment\<close>

text \<open>Concrete stand-ins for the external functions, to run the definitions on
  concrete inputs. \<open>strptime_fixed\<close> accepts the two formats of
  \<open>parse_iso_datetime\<close> on fixed-width input (the library's own accepts more, such as
  one-digit fields); \<open>val_eq\<close> is equality of representation, which agrees with \<open>==\<close>
  on two strings, two integers or two None.\<close>

definition digit :: "char \<Rightarrow> nat option" where
  "digit c = map_of [(CHR ''0'', 0), (CHR ''1'', 1), (CHR ''2'', 2), (CHR ''3'', 3), (CHR ''4'', 4),
                     (CHR ''5'', 5), (CHR ''6'', 6), (CHR ''7'', 7), (CHR ''8'', 8), (CHR ''9'', 9)] c"

fun number :: "nat \<Rightarrow> string \<Rightarrow> nat option" where
  "number acc [] = Some acc"
| "number acc (c # cs) = (case digit c of None \<Rightarrow> None | Some d \<Rightarrow> number (10 * acc + d) cs)"

definition days_in_month :: "nat \<Rightarrow> nat \<Rightarrow> nat" where
  "days_in_month y m =
     (if m = 2 then (if y mod 4 = 0 \<and> (y mod 100 \<noteq> 0 \<or> y mod 400 = 0) then 29 else 28)
      else if m = 4 \<or> m = 6 \<or> m = 9 \<or> m = 11 then 30 else 31)"

definition strptime_fixed :: "string \<Rightarrow> string \<Rightarrow> datetime option" where
  "strptime_fixed s fmt =
     (let with_fraction = (fmt = ''%Y-%m-%dT%H:%M:%S.%fZ'');
          f = take (length s - 21) (drop 20 s)
      in if \<not> with_fraction \<and> fmt \<noteq> ''%Y-%m-%dT%H:%M:%SZ'' then None
         else if length s < 20 then None
         else if [s ! 4, s ! 7, s ! 10, s ! 13, s ! 16] \<noteq> ''--T::'' \<or> last s \<noteq> CHR ''Z'' then None
         else if with_fraction \<and> (s ! 19 \<noteq> CHR ''.'' \<or> length f < 1 \<or> 6 < length f) then None
         else if \<not> with_fraction \<and> length s \<noteq> 20 then None
         else case (number 0 (take 4 s), number 0 (take 2 (drop 5 s)), number 0 (take 2 (drop 8 s)),
                    number 0 (take 2 (drop 11 s)), number 0 (take 2 (drop 14 s)),
                    number 0 (take 2 (drop 17 s)),
                    number 0 (if with_fraction then f @ replicate (6 - length f) (CHR ''0'') else [])) of
                (Some y, Some mo, Some d, Some hh, Some mi, Some ss, Some us) \<Rightarrow>
                  (if 1 \<le> y \<and> 1 \<le> mo \<and> mo \<le> 12 \<and> 1 \<le> d \<and> d \<le> days_in_month y mo
                      \<and> hh < 24 \<and> mi < 60 \<and> ss < 60
                   then Some \<lparr>year = y, month = mo, day = d, hour = hh, minute = mi, second = ss,
                              microsecond = us, tzinfo = None\<rparr>
                   else None)
              | _ \<Rightarrow> None)"

fun pad :: "nat \<Rightarrow> nat \<Rightarrow> string" where
  "pad 0 n = []"
| "pad (Suc w) n = pad w (n div 10) @ [''0123456789'' ! (n mod 10)]"

definition iso_format :: "datetime \<Rightarrow> string" where
  "iso_format d =
     pad 4 (year d) @ ''-'' @ pad 2 (month d) @ ''-'' @ pad 2 (day d) @ ''T'' @
     pad 2 (hour d) @ '':'' @ pad 2 (minute d) @ '':'' @ pad 2 (second d) @
     (if microsecond d = 0 then [] else ''.'' @ pad 6 (microsecond d)) @
     (case tzinfo d of None \<Rightarrow> [] | Some UTC \<Rightarrow> ''+00:00'')"

definition val_eq :: "heap \<Rightarrow> val \<Rightarrow> val \<Rightarrow> bool" where
  "val_eq h x y = (x = y)"

definition accept_mapping :: "val \<Rightarrow> error + val" where
  "accept_mapping v = (case v of VDict d \<Rightarrow> Inr v | _ \<Rightarrow> Inl TypeError)"

definition same_value :: "val \<Rightarrow> error + val" where
  "same_value v = Inr v"

text \<open>A catalog that holds the model objects of the heap: the lookup returns the
  first one of the class with the id, or None.\<close>

fun find_object :: "string \<Rightarrow> val \<Rightarrow> heap \<Rightarrow> addr \<Rightarrow> val" where
  "find_object c i [] a = VNone"
| "find_object c i (ModelObject mo # rest) a =
     (if c \<in> set (mo_mro mo) \<and> map_of (mo_attributes mo) ''id'' = Some i then VObj a
      else find_object c i rest (Suc a))"
| "find_object c i (x # rest) a = find_object c i rest (Suc a)"

definition heap_catalog :: "string \<Rightarrow> val \<Rightarrow> heap \<Rightarrow> val result" where
  "heap_catalog c i h = (Inr (find_object c i h 0), h)"

definition std :: externals where
  "std = \<lparr>strptime = strptime_fixed, isoformat = iso_format, py_eq = val_eq,
          geometry_like_to_shapely = accept_mapping, shapely_to_geojson = same_value,
          reference_get = heap_catalog\<rparr>"

section \<open>Example objects\<close>

text \<open>The two mapping classes of the source, \<open>File\<close> and \<open>Resolution\<close>, and a
  subclass of \<open>File\<close> that declares nothing.\<close>

definition default_attribute :: "kind \<Rightarrow> kind attribute" where
  "default_attribute k =
     \<lparr>mutable = True, serializable = True, sticky = False, readonly = False,
      attribute_name = [], kind = k\<rparr>"

definition File :: cls where
  "File = Class ''File'' None
     [(''href'', default_attribute KAttribute), (''size_bytes'', default_attribute KAttribute),
      (''hash'', default_attribute KAttribute), (''provider_id'', default_attribute KAttribute),
      (''provider_href'', default_attribute KAttribute)]"

definition Resolution :: cls where
  "Resolution = Class ''Resolution'' None
     [(''value'', default_attribute KAttribute),
      (''unit'', default_attribute (KEnum ''ResolutionUnit'' [''meters'', ''degrees'']))]"

definition SubFile :: cls where
  "SubFile = Class ''SubFile'' (Some File) []"

definition default_flags :: flags where
  "default_flags = \<lparr>mutable = True, serializable = True, sticky = False, readonly = False\<rparr>"

text \<open>A band that refers to a product: the cached product is \<open>p1\<close> (address 1)
  while the shadow field \<open>product_id\<close> names \<open>p2\<close> (address 2).\<close>

definition product_reference :: "reference attribute" where
  "product_reference =
     \<lparr>mutable = True, serializable = False, sticky = False, readonly = False,
      attribute_name = ''product'',
      kind = \<lparr>reference_class = ''Product'', allow_unsaved = False\<rparr>\<rparr>"

definition product_p1 :: obj where
  "product_p1 = ModelObject \<lparr>mo_mro = [''Product'', ''CatalogObject''],
     mo_attributes = [(''id'', VStr ''p1'')], mo_state = SAVED, mo_notices = []\<rparr>"

definition product_p2 :: obj where
  "product_p2 = ModelObject \<lparr>mo_mro = [''Product'', ''CatalogObject''],
     mo_attributes = [(''id'', VStr ''p2'')], mo_state = SAVED, mo_notices = []\<rparr>"

definition stale_band :: model_object where
  "stale_band =
     \<lparr>mo_mro = [''Band'', ''CatalogObject''],
      mo_attributes = [(''product'', VObj 1), (''product_id'', VStr ''p2'')],
      mo_state = SAVED, mo_notices = []\<rparr>"

definition stale_band_heap :: heap where
  "stale_band_heap = [ModelObject stale_band, product_p1, product_p2]"

text \<open>Two File values with the same href at different addresses, and a SubFile
  value with that href.\<close>

definition file_a :: mapping_value where
  "file_a = \<lparr>mv_class = File, mv_flags = default_flags,
              mv_attributes = [(''href'', VStr ''gs://a'')], mv_model_objects = []\<rparr>"

definition subfile_a :: mapping_value where
  "subfile_a = \<lparr>mv_class = SubFile, mv_flags = default_flags,
                 mv_attributes = [(''href'', VStr ''gs://a'')], mv_model_objects = []\<rparr>"

definition files_heap :: heap where
  "files_heap = [MappingValue file_a, MappingValue file_a, MappingValue subfile_a]"

text \<open>A mapping class with a readonly attribute, and one value of it held by two
  model objects: by the object at address 0 as \<open>field\<close> and by the object at address 1
  as \<open>field2\<close>.\<close>

definition Stamped :: cls where
  "Stamped = Class ''Stamped'' None
     [(''label'', default_attribute KAttribute),
      (''created'', (default_attribute KTimestamp)\<lparr>readonly := True\<rparr>)]"

definition shared_value :: mapping_value where
  "shared_value = \<lparr>mv_class = Stamped, mv_flags = default_flags,
                    mv_attributes = [(''label'', VStr ''x'')],
                    mv_model_objects = [(0, Some ''field''), (1, Some ''field2'')]\<rparr>"

definition owner_a :: model_object where
  "owner_a = \<lparr>mo_mro = [''Image'', ''CatalogObject''], mo_attributes = [(''field'', VObj 2)],
               mo_state = SAVED, mo_notices = []\<rparr>"

definition owner_b :: model_object where
  "owner_b = \<lparr>mo_mro = [''Band'', ''CatalogObject''], mo_attributes = [(''field2'', VObj 2)],
               mo_state = SAVED, mo_notices = []\<rparr>"

definition shared_heap :: heap where
  "shared_heap = [ModelObject owner_a, ModelObject owner_b, MappingValue shared_value]"

text \<open>An empty list of File items at address 0 with a File value beside it that no
  object holds, and the same list alone.\<close>

definition empty_files :: list_value where
  "empty_files = \<lparr>lv_item_type = ItemMapping File, lv_flags = default_flags,
                   lv_items = [], lv_model_objects = []\<rparr>"

definition list_and_file_heap :: heap where
  "list_and_file_heap = [ListValue empty_files, MappingValue file_a]"

definition list_heap :: heap where
  "list_heap = [ListValue empty_files]"

text \<open>The first instant of 2021, with the timezone UTC.\<close>

definition new_year_2021 :: datetime where
  "new_year_2021 = \<lparr>year = 2021, month = 1, day = 1, hour = 0, minute = 0, second = 0,
                     microsecond = 0, tzinfo = Some UTC\<rparr>"

text \<open>A descriptor of a File-valued attribute.\<close>

definition file_descriptor :: "cls attribute" where
  "file_descriptor =
     \<lparr>mutable = True, serializable = True, sticky = False, readonly = False,
      attribute_name = ''file'', kind = File\<rparr>"

text \<open>A list of two File items (addresses 1 and 2) held at address 0, a descriptor
  of a list of Files, and a list of two strings.\<close>

definition file_b :: mapping_value where
  "file_b = \<lparr>mv_class = File, mv_flags = default_flags,
              mv_attributes = [(''href'', VStr ''gs://b''), (''size_bytes'', VInt 3)],
              mv_model_objects = [(0, None)]\<rparr>"

definition two_files :: list_value where
  "two_files = \<lparr>lv_item_type = ItemMapping File, lv_flags = default_flags,
                 lv_items = [VObj 1, VObj 2], lv_model_objects = []\<rparr>"

definition two_files_heap :: heap where
  "two_files_heap =
     [ListValue two_files, MappingValue (file_a\<lparr>mv_model_objects := [(0, None)]\<rparr>),
      MappingValue file_b]"

definition files_descriptor :: "item_type attribute" where
  "files_descriptor =
     \<lparr>mutable = True, serializable = True, sticky = False, readonly = False,
      attribute_name = ''files'', kind = ItemMapping File\<rparr>"

definition two_strings :: list_value where
  "two_strings = \<lparr>lv_item_type = ItemPlain KAttribute, lv_flags = default_flags,
                   lv_items = [VStr ''a'', VStr ''b''], lv_model_objects = []\<rparr>"

definition strings_descriptor :: "item_type attribute" where
  "strings_descriptor =
     \<lparr>mutable = True, serializable = True, sticky = False, readonly = False,
      attribute_name = ''tags'', kind = ItemPlain KAttribute\<rparr>"

section \<open>Heap lemmas\<close>

lemma lookup_update:
  "lookup (h[a := x]) b = (if b < length h then (if b = a then Some x else Some (h ! b)) else None)"
  by (simp add: lookup_def)

lemma lookup_set_attributes:
  "lookup (set_attributes h a attrs) x =
     (if x = a then
        (case lookup h a of
           Some (ModelObject mo) \<Rightarrow> Some (ModelObject (mo\<lparr>mo_attributes := attrs\<rparr>))
         | Some (MappingValue mv) \<Rightarrow> Some (MappingValue (mv\<lparr>mv_attributes := attrs\<rparr>))
         | other \<Rightarrow> other)
      else lookup h x)"
  by (cases "x = a") (auto simp: set_attributes_def lookup_def split: option.splits obj.splits)

lemma lookup_set_attributes_notices:
  "notices_of (set_attributes h a attrs) x = notices_of h x"
  by (auto simp: notices_of_def lookup_set_attributes split: option.splits obj.splits)

lemma lookup_remove_model_object:
  "remove_model_object h a m = (r, h') \<Longrightarrow>
   lookup h' x =
     (if x = a then
        (case lookup h a of
           Some (MappingValue mv) \<Rightarrow>
             Some (MappingValue (mv\<lparr>mv_model_objects := AList.delete m (mv_model_objects mv)\<rparr>))
         | Some (ListValue lv) \<Rightarrow>
             Some (ListValue (lv\<lparr>lv_model_objects := AList.delete m (lv_model_objects lv)\<rparr>))
         | other \<Rightarrow> other)
      else lookup h x)"
  by (cases "x = a") (auto simp: remove_model_object_def lookup_def split: option.splits obj.splits)

lemma lookup_add_model_object:
  "add_model_object h a m n = (r, h') \<Longrightarrow>
   lookup h' x =
     (if x = a then
        (case lookup h a of
           Some (MappingValue mv) \<Rightarrow>
             Some (MappingValue (mv\<lparr>mv_model_objects := AList.update m n (mv_model_objects mv)\<rparr>))
         | Some (ListValue lv) \<Rightarrow>
             Some (ListValue (lv\<lparr>lv_model_objects := AList.update m n (lv_model_objects lv)\<rparr>))
         | other \<Rightarrow> other)
      else lookup h x)"
  by (cases "x = a") (auto simp: add_model_object_def lookup_def split: option.splits obj.splits)

lemma notices_remove_model_object:
  "remove_model_object h a m = (r, h') \<Longrightarrow> notices_of h' x = notices_of h x"
  by (auto simp: notices_of_def lookup_remove_model_object split: option.splits obj.splits)

lemma notices_add_model_object:
  "add_model_object h a m n = (r, h') \<Longrightarrow> notices_of h' x = notices_of h x"
  by (auto simp: notices_of_def lookup_add_model_object split: option.splits obj.splits)

lemma notices_value_remove_model_object:
  "value_remove_model_object h v m = (r, h') \<Longrightarrow> notices_of h' x = notices_of h x"
  by (auto simp: value_remove_model_object_def split: val.splits dest: notices_remove_model_object)

lemma set_attributes_same:
  "get_attributes h a = Some attrs \<Longrightarrow> set_attributes h a attrs = h"
  by (auto simp: get_attributes_def set_attributes_def lookup_def list_update_same_conv
           split: option.splits obj.splits if_splits)

lemma get_set_attributes:
  "get_attributes h a = Some attrs \<Longrightarrow> get_attributes (set_attributes h a attrs') a = Some attrs'"
  by (auto simp: get_attributes_def set_attributes_def lookup_def split: option.splits obj.splits if_splits)

lemma delete_absent: "map_of attrs k = None \<Longrightarrow> AList.delete k attrs = attrs"
  by (induction attrs) (auto split: if_splits)

section \<open>Immutable attributes\<close>

lemma immutable_set_raises:
  assumes "get_attributes h obj = Some attrs" and "map_of attrs (attribute_name A) \<noteq> None"
    and "\<not> mutable A"
  shows "Attribute_set E fuel A h obj v True = (Inl AttributeValidationError, h)"
  using assms by (simp add: Attribute_set_def raise_if_immutable_or_readonly_def)

text \<open>C4. An attribute declared with mutable=False and readonly=False, on an owner
  that already stores the value 'p1' for it: setting it again with the equal value
  'p1' raises AttributeValidationError (whatever the environment), where the claim
  and the docstring of Attribute say it does not raise.\<close>

theorem C4_equal_value_raises:
  "Attribute_set E fuel
     \<lparr>mutable = False, serializable = True, sticky = False, readonly = False,
      attribute_name = ''product_id'', kind = KAttribute\<rparr>
     [ModelObject \<lparr>mo_mro = [''Band''], mo_attributes = [(''product_id'', VStr ''p1'')],
                   mo_state = UNSAVED, mo_notices = []\<rparr>]
     0 (VStr ''p1'') True
   = (Inl AttributeValidationError,
      [ModelObject \<lparr>mo_mro = [''Band''], mo_attributes = [(''product_id'', VStr ''p1'')],
                    mo_state = UNSAVED, mo_notices = []\<rparr>])"
  by (simp add: Attribute_set_def raise_if_immutable_or_readonly_def get_attributes_def lookup_def)

section \<open>Delete\<close>

lemma Attribute_delete_notices:
  "Attribute_delete A h obj validate = (r, h') \<Longrightarrow> notices_of h' x = notices_of h x"
  by (auto simp: Attribute_delete_def lookup_set_attributes_notices split: option.splits sum.splits if_splits)

lemma delete_registered_notices:
  "delete_registered A h obj validate = (r, h') \<Longrightarrow> notices_of h' x = notices_of h x"
  by (auto simp: delete_registered_def Let_def lookup_set_attributes_notices
           split: option.splits sum.splits if_splits
           dest!: notices_value_remove_model_object[where x = x])

text \<open>C10, as the claim states it, fails: deleting a readonly attribute that has no
  stored value raises AttributeValidationError.\<close>

theorem C10_readonly_delete_raises:
  "Attribute_delete
     \<lparr>mutable = True, serializable = True, sticky = False, readonly = True,
      attribute_name = ''created'', kind = KTimestamp\<rparr>
     [ModelObject \<lparr>mo_mro = [''Product''], mo_attributes = [], mo_state = SAVED, mo_notices = []\<rparr>]
     0 True
   = (Inl AttributeValidationError,
      [ModelObject \<lparr>mo_mro = [''Product''], mo_attributes = [], mo_state = SAVED, mo_notices = []\<rparr>])"
  by (simp add: Attribute_delete_def raise_if_immutable_or_readonly_def get_attributes_def lookup_def)

lemma get_attributes_remove_model_object:
  "remove_model_object h a m = (r, h') \<Longrightarrow> get_attributes h' x = get_attributes h x"
  by (auto simp: get_attributes_def lookup_remove_model_object split: option.splits obj.splits)

lemma get_attributes_value_remove_model_object:
  "value_remove_model_object h v m = (r, h') \<Longrightarrow> get_attributes h' x = get_attributes h x"
  by (auto simp: value_remove_model_object_def split: val.splits dest: get_attributes_remove_model_object)

lemma value_remove_model_object_ok:
  "is_mapping_value h v \<or> is_list_value h v \<Longrightarrow> fst (value_remove_model_object h v m) = Inr ()"
  by (auto simp: value_remove_model_object_def remove_model_object_def is_mapping_value_def
                 is_list_value_def split: val.splits option.splits obj.splits)

lemma value_remove_model_object_lookup:
  "value_remove_model_object h v m = (r, h') \<Longrightarrow>
   lookup h a = Some (ModelObject mo) \<Longrightarrow> lookup h' a = Some (ModelObject mo)"
  by (auto simp: value_remove_model_object_def lookup_remove_model_object
           split: val.splits option.splits obj.splits if_splits)

lemma is_value_set_attributes:
  "lookup h obj = Some (ModelObject mo) \<Longrightarrow>
   is_mapping_value (set_attributes h obj attrs) v = is_mapping_value h v \<and>
   is_list_value (set_attributes h obj attrs) v = is_list_value h v"
  by (auto simp: is_mapping_value_def is_list_value_def lookup_set_attributes
           split: val.splits option.splits obj.splits)

text \<open>C10 (amended). On an owner with a value store, \<open>Attribute.__delete__\<close> and
  \<open>MappingAttribute.__delete__\<close> never invoke a modification callback: no model
  object of the heap receives a notice. When the policy check passes (validate is
  false, or the attribute is not readonly and is mutable or has no stored value) the
  stored value is removed from the owner's store, and deleting an attribute with no
  stored value returns without an error and leaves the heap as it was. When the check
  fails the operation raises AttributeValidationError and changes nothing.\<close>

theorem C10_delete_never_notifies:
  fixes A :: "'k attribute" and M :: "cls attribute"
  assumes "get_attributes h obj = Some attrs"
  shows
    "notices_of (snd (Attribute_delete A h obj validate)) x = notices_of h x \<and>
     notices_of (snd (MappingAttribute_delete M h obj validate)) x = notices_of h x \<and>
     (validate \<and> \<not> policy_passes A (attribute_name A) attrs \<longrightarrow>
        Attribute_delete A h obj validate = (Inl AttributeValidationError, h)) \<and>
     (validate \<and> \<not> policy_passes M (attribute_name M) attrs \<longrightarrow>
        MappingAttribute_delete M h obj validate = (Inl AttributeValidationError, h)) \<and>
     (\<not> validate \<or> policy_passes A (attribute_name A) attrs \<longrightarrow>
        fst (Attribute_delete A h obj validate) = Inr () \<and>
        get_attributes (snd (Attribute_delete A h obj validate)) obj
          = Some (AList.delete (attribute_name A) attrs) \<and>
        (map_of attrs (attribute_name A) = None \<longrightarrow> snd (Attribute_delete A h obj validate) = h)) \<and>
     (\<not> validate \<or> policy_passes M (attribute_name M) attrs \<longrightarrow>
        get_attributes (snd (MappingAttribute_delete M h obj validate)) obj
          = Some (AList.delete (attribute_name M) attrs) \<and>
        (map_of attrs (attribute_name M) = None \<longrightarrow>
           MappingAttribute_delete M h obj validate = (Inr (), h)))"
proof -
  have n1: "notices_of (snd (Attribute_delete A h obj validate)) x = notices_of h x"
    using Attribute_delete_notices[of A h obj validate] by (cases "Attribute_delete A h obj validate") simp
  have n2: "notices_of (snd (MappingAttribute_delete M h obj validate)) x = notices_of h x"
    using delete_registered_notices[of M h obj validate]
    by (cases "delete_registered M h obj validate") (simp add: MappingAttribute_delete_def)
  have fail1: "validate \<and> \<not> policy_passes A (attribute_name A) attrs \<longrightarrow>
        Attribute_delete A h obj validate = (Inl AttributeValidationError, h)"
    using assms by (auto simp: Attribute_delete_def raise_if_immutable_or_readonly_def policy_passes_def)
  have fail2: "validate \<and> \<not> policy_passes M (attribute_name M) attrs \<longrightarrow>
        MappingAttribute_delete M h obj validate = (Inl AttributeValidationError, h)"
    using assms
    by (auto simp: MappingAttribute_delete_def delete_registered_def
                   raise_if_immutable_or_readonly_def policy_passes_def)
  have ok1: "\<not> validate \<or> policy_passes A (attribute_name A) attrs \<longrightarrow>
        fst (Attribute_delete A h obj validate) = Inr () \<and>
        get_attributes (snd (Attribute_delete A h obj validate)) obj
          = Some (AList.delete (attribute_name A) attrs) \<and>
        (map_of attrs (attribute_name A) = None \<longrightarrow> snd (Attribute_delete A h obj validate) = h)"
    using assms
    by (auto simp: Attribute_delete_def raise_if_immutable_or_readonly_def policy_passes_def
                   get_set_attributes delete_absent set_attributes_same)
  have ok2: "\<not> validate \<or> policy_passes M (attribute_name M) attrs \<longrightarrow>
        get_attributes (snd (MappingAttribute_delete M h obj validate)) obj
          = Some (AList.delete (attribute_name M) attrs) \<and>
        (map_of attrs (attribute_name M) = None \<longrightarrow>
           MappingAttribute_delete M h obj validate = (Inr (), h))"
  proof (intro impI conjI)
    assume p: "\<not> validate \<or> policy_passes M (attribute_name M) attrs"
    let ?h1 = "set_attributes h obj (AList.delete (attribute_name M) attrs)"
    let ?prev = "case map_of attrs (attribute_name M) of None \<Rightarrow> VNone | Some p \<Rightarrow> p"
    have eq: "MappingAttribute_delete M h obj validate =
                (if ?prev \<noteq> VNone then value_remove_model_object ?h1 ?prev obj else (Inr (), ?h1))"
      using assms p
      by (auto simp: MappingAttribute_delete_def delete_registered_def Let_def
                     raise_if_immutable_or_readonly_def policy_passes_def)
    have g1: "get_attributes ?h1 obj = Some (AList.delete (attribute_name M) attrs)"
      using assms by (rule get_set_attributes)
    show "get_attributes (snd (MappingAttribute_delete M h obj validate)) obj
            = Some (AList.delete (attribute_name M) attrs)"
    proof (cases "?prev \<noteq> VNone")
      case True
      obtain r h' where rh: "value_remove_model_object ?h1 ?prev obj = (r, h')"
        by (cases "value_remove_model_object ?h1 ?prev obj")
      from get_attributes_value_remove_model_object[OF rh, of obj] g1 eq True rh
      show ?thesis by simp
    next
      case False
      with eq g1 show ?thesis by simp
    qed
    show "MappingAttribute_delete M h obj validate = (Inr (), h)"
      if "map_of attrs (attribute_name M) = None"
      using that eq assms by (simp add: delete_absent set_attributes_same)
  qed
  from n1 n2 fail1 fail2 ok1 ok2 show ?thesis by blast
qed

theorem C10_delete_witness:
  "get_attributes
     [ModelObject \<lparr>mo_mro = [''Image''], mo_attributes = [(''name'', VStr ''x'')],
                   mo_state = SAVED, mo_notices = [(Some ''name'', True, True)]\<rparr>] 0
     = Some [(''name'', VStr ''x'')] \<and>
   Attribute_delete
     \<lparr>mutable = True, serializable = True, sticky = False, readonly = False,
      attribute_name = ''name'', kind = KAttribute\<rparr>
     [ModelObject \<lparr>mo_mro = [''Image''], mo_attributes = [(''name'', VStr ''x'')],
                   mo_state = SAVED, mo_notices = [(Some ''name'', True, True)]\<rparr>] 0 True
     = (Inr (), [ModelObject \<lparr>mo_mro = [''Image''], mo_attributes = [],
                   mo_state = SAVED, mo_notices = [(Some ''name'', True, True)]\<rparr>]) \<and>
   Attribute_delete
     \<lparr>mutable = False, serializable = True, sticky = False, readonly = False,
      attribute_name = ''name'', kind = KAttribute\<rparr>
     [ModelObject \<lparr>mo_mro = [''Image''], mo_attributes = [(''name'', VStr ''x'')],
                   mo_state = SAVED, mo_notices = [(Some ''name'', True, True)]\<rparr>] 0 True
     = (Inl AttributeValidationError,
        [ModelObject \<lparr>mo_mro = [''Image''], mo_attributes = [(''name'', VStr ''x'')],
                   mo_state = SAVED, mo_notices = [(Some ''name'', True, True)]\<rparr>])"
  using C10_delete_never_notifies
    [of "[ModelObject \<lparr>mo_mro = [''Image''], mo_attributes = [(''name'', VStr ''x'')],
                   mo_state = SAVED, mo_notices = [(Some ''name'', True, True)]\<rparr>]"
        0 "[(''name'', VStr ''x'')]"
        "\<lparr>mutable = False, serializable = True, sticky = False, readonly = False,
      attribute_name = ''name'', kind = KAttribute\<rparr>" True]
  by (simp add: get_attributes_def lookup_def policy_passes_def Attribute_delete_def
                raise_if_immutable_or_readonly_def set_attributes_def)

section \<open>Timestamps\<close>

lemma parse_iso_datetime_aware:
  "parse_iso_datetime E s = Inr d \<Longrightarrow> tzinfo d = Some UTC"
  by (auto simp: parse_iso_datetime_def Let_def split: option.splits)

lemma parse_iso_datetime_truncates:
  "27 < length s \<Longrightarrow> parse_iso_datetime E s = parse_iso_datetime E (take 26 s @ [last s])"
  by (simp add: parse_iso_datetime_def)

text \<open>C2, as the claim states it, fails: with validate true a naive datetime is
  returned as it is, without a timezone, and a string is not parsed; UTC is attached
  and the string is parsed when validate is false.\<close>

theorem C2_validate_true_returns_value:
  "Timestamp_deserialize std
     (VDateTime \<lparr>year = 2021, month = 1, day = 1, hour = 0, minute = 0, second = 0,
                  microsecond = 0, tzinfo = None\<rparr>) True
   = Inr (VDateTime \<lparr>year = 2021, month = 1, day = 1, hour = 0, minute = 0, second = 0,
                       microsecond = 0, tzinfo = None\<rparr>) \<and>
   Timestamp_deserialize std
     (VDateTime \<lparr>year = 2021, month = 1, day = 1, hour = 0, minute = 0, second = 0,
                  microsecond = 0, tzinfo = None\<rparr>) False
   = Inr (VDateTime \<lparr>year = 2021, month = 1, day = 1, hour = 0, minute = 0, second = 0,
                       microsecond = 0, tzinfo = Some UTC\<rparr>) \<and>
   Timestamp_deserialize std (VStr ''2021-01-01T00:00:00.123456789Z'') True
   = Inr (VStr ''2021-01-01T00:00:00.123456789Z'')"
  by (simp add: Timestamp_deserialize_def)

text \<open>C2 (amended). \<open>Timestamp.deserialize\<close> returns None, and with validate true
  any value, as it is: nothing is parsed and no timezone is attached. With validate
  false it parses a string with \<open>parse_iso_datetime\<close> into a timezone-aware (UTC)
  instant, a string longer than 27 characters being cut to its first 26 characters
  and its last one, so that "2021-01-01T00:00:00.123456789Z" yields what
  "2021-01-01T00:00:00.123456Z" yields (truncation, not rounding), and a string that
  neither format parses raises AttributeValidationError; an already timezone-aware
  datetime is passed through unchanged, and UTC is attached to a naive datetime only
  when validate is false.\<close>

theorem C2_timestamp_deserialize:
  "Timestamp_deserialize E v True = Inr v \<and>
   Timestamp_deserialize E VNone validate = Inr VNone \<and>
   Timestamp_deserialize E (VStr ''2021-01-01T00:00:00.123456789Z'') False
     = Timestamp_deserialize E (VStr ''2021-01-01T00:00:00.123456Z'') False \<and>
   (27 < length s \<longrightarrow>
      Timestamp_deserialize E (VStr s) False
        = Timestamp_deserialize E (VStr (take 26 s @ [last s])) False) \<and>
   (\<forall>r. Timestamp_deserialize E (VStr s) False = Inr r \<longrightarrow>
      (\<exists>d. r = VDateTime d \<and> tzinfo d = Some UTC)) \<and>
   (parse_iso_datetime E s = Inl ValueError \<longrightarrow>
      Timestamp_deserialize E (VStr s) False = Inl AttributeValidationError) \<and>
   (tzinfo d \<noteq> None \<longrightarrow> Timestamp_deserialize E (VDateTime d) validate = Inr (VDateTime d)) \<and>
   (tzinfo d = None \<longrightarrow>
      Timestamp_deserialize E (VDateTime d) False = Inr (VDateTime (d\<lparr>tzinfo := Some UTC\<rparr>)) \<and>
      Timestamp_deserialize E (VDateTime d) True = Inr (VDateTime d))"
proof -
  have trunc: "Timestamp_deserialize E (VStr s') False
        = Timestamp_deserialize E (VStr (take 26 s' @ [last s'])) False" if "27 < length s'" for s'
  proof -
    have "length (take 26 s' @ [last s']) = 27" using that by simp
    then have "parse_iso_datetime E (take 26 s' @ [last s']) =
        (case strptime E (take 26 s' @ [last s']) ''%Y-%m-%dT%H:%M:%S.%fZ'' of
           Some date \<Rightarrow> Inr (date\<lparr>tzinfo := Some UTC\<rparr>)
         | None \<Rightarrow>
             (case strptime E (take 26 s' @ [last s']) ''%Y-%m-%dT%H:%M:%SZ'' of
                Some date \<Rightarrow> Inr (date\<lparr>tzinfo := Some UTC\<rparr>)
              | None \<Rightarrow> Inl ValueError))"
      unfolding parse_iso_datetime_def Let_def by (simp only: less_irrefl if_False)
    moreover have "parse_iso_datetime E s' =
        (case strptime E (take 26 s' @ [last s']) ''%Y-%m-%dT%H:%M:%S.%fZ'' of
           Some date \<Rightarrow> Inr (date\<lparr>tzinfo := Some UTC\<rparr>)
         | None \<Rightarrow>
             (case strptime E (take 26 s' @ [last s']) ''%Y-%m-%dT%H:%M:%SZ'' of
                Some date \<Rightarrow> Inr (date\<lparr>tzinfo := Some UTC\<rparr>)
              | None \<Rightarrow> Inl ValueError))"
      using that unfolding parse_iso_datetime_def Let_def by (simp only: if_True)
    ultimately show ?thesis by (simp add: Timestamp_deserialize_def)
  qed
  have nano: "Timestamp_deserialize E (VStr ''2021-01-01T00:00:00.123456789Z'') False
     = Timestamp_deserialize E (VStr ''2021-01-01T00:00:00.123456Z'') False"
    using trunc[of "''2021-01-01T00:00:00.123456789Z''"] by simp
  have aware: "\<forall>r. Timestamp_deserialize E (VStr s) False = Inr r \<longrightarrow>
      (\<exists>d. r = VDateTime d \<and> tzinfo d = Some UTC)"
    by (auto simp: Timestamp_deserialize_def split: sum.splits dest: parse_iso_datetime_aware)
  have bad: "parse_iso_datetime E s = Inl ValueError \<longrightarrow>
      Timestamp_deserialize E (VStr s) False = Inl AttributeValidationError"
    by (simp add: Timestamp_deserialize_def)
  have rest: "Timestamp_deserialize E v True = Inr v"
    "Timestamp_deserialize E VNone validate = Inr VNone"
    "tzinfo d \<noteq> None \<longrightarrow> Timestamp_deserialize E (VDateTime d) validate = Inr (VDateTime d)"
    "tzinfo d = None \<longrightarrow>
      Timestamp_deserialize E (VDateTime d) False = Inr (VDateTime (d\<lparr>tzinfo := Some UTC\<rparr>)) \<and>
      Timestamp_deserialize E (VDateTime d) True = Inr (VDateTime d)"
    by (simp_all add: Timestamp_deserialize_def)
  from trunc[of s] nano aware bad rest show ?thesis by blast
qed

theorem C2_timestamp_deserialize_witness:
  "27 < length ''2021-01-01T00:00:00.123456789Z'' \<and>
   Timestamp_deserialize std (VStr ''2021-01-01T00:00:00.123456789Z'') False
     = Inr (VDateTime \<lparr>year = 2021, month = 1, day = 1, hour = 0, minute = 0, second = 0,
                         microsecond = 123456, tzinfo = Some UTC\<rparr>) \<and>
   parse_iso_datetime std ''2021-01-01 00:00:00'' = Inl ValueError \<and>
   Timestamp_deserialize std (VStr ''2021-01-01 00:00:00'') False = Inl AttributeValidationError \<and>
   tzinfo \<lparr>year = 2021, month = 1, day = 1, hour = 0, minute = 0, second = 0,
           microsecond = 0, tzinfo = Some UTC\<rparr> \<noteq> None \<and>
   Timestamp_deserialize std
     (VDateTime \<lparr>year = 2021, month = 1, day = 1, hour = 0, minute = 0, second = 0,
                  microsecond = 0, tzinfo = Some UTC\<rparr>) False
     = Inr (VDateTime \<lparr>year = 2021, month = 1, day = 1, hour = 0, minute = 0, second = 0,
                         microsecond = 0, tzinfo = Some UTC\<rparr>)"
proof -
  have micro: "Timestamp_deserialize std (VStr ''2021-01-01T00:00:00.123456Z'') False
     = Inr (VDateTime \<lparr>year = 2021, month = 1, day = 1, hour = 0, minute = 0, second = 0,
                         microsecond = 123456, tzinfo = Some UTC\<rparr>)"
    by (simp add: Timestamp_deserialize_def parse_iso_datetime_def std_def strptime_fixed_def
                  digit_def days_in_month_def)
  have bad: "parse_iso_datetime std ''2021-01-01 00:00:00'' = Inl ValueError"
    by (simp add: parse_iso_datetime_def std_def strptime_fixed_def)
  show ?thesis
    using C2_timestamp_deserialize
      [of std "VNone" False "''2021-01-01 00:00:00''"
          "\<lparr>year = 2021, month = 1, day = 1, hour = 0, minute = 0, second = 0,
            microsecond = 0, tzinfo = Some UTC\<rparr>"]
      micro bad
    by simp
qed

section \<open>CatalogObjectReference\<close>

text \<open>C8. Reading a CatalogObjectReference attribute on an owner: let \<open>cached\<close> be
  the value stored under the attribute's name and \<open>rid\<close> the value of the shadow
  field \<open>name_id\<close> (None when absent). When there is a cached object and its id
  equals the shadow id, the read returns the cached object and leaves the heap as it
  is, whatever the lookup function would do. When there is no cached object, or its
  id differs from the shadow id, the cached object is not consulted further: if the
  shadow id is present (true as a condition) the result is that of
  \<open>reference_class.get(rid)\<close> and it is stored under the attribute's name; if it is
  absent the result is None and None is stored.\<close>

theorem C8_reference_get:
  assumes "get_attributes h obj = Some attrs"
    and "cached = (case map_of attrs (attribute_name A) of None \<Rightarrow> VNone | Some c \<Rightarrow> c)"
    and "rid = (case map_of attrs (id_field A) of None \<Rightarrow> VNone | Some i \<Rightarrow> i)"
  shows
    "(truthy h cached \<and> object_id h cached = Inr cid \<and> py_eq E h cid rid \<longrightarrow>
        CatalogObjectReference_get E A h obj = (Inr cached, h)) \<and>
     (\<not> truthy h cached \<or> (object_id h cached = Inr cid \<and> \<not> py_eq E h cid rid) \<longrightarrow>
        (truthy h rid \<and> reference_get E (reference_class (kind A)) rid h = (Inr new_value, h')
           \<and> get_attributes h' obj = Some attrs' \<longrightarrow>
           CatalogObjectReference_get E A h obj
             = (Inr new_value, set_attributes h' obj (AList.update (attribute_name A) new_value attrs'))
           \<and> get_attributes (snd (CatalogObjectReference_get E A h obj)) obj
             = Some (AList.update (attribute_name A) new_value attrs')
           \<and> map_of (AList.update (attribute_name A) new_value attrs') (attribute_name A)
             = Some new_value) \<and>
        (truthy h rid \<and> reference_get E (reference_class (kind A)) rid h = (Inl e, h') \<longrightarrow>
           CatalogObjectReference_get E A h obj = (Inl e, h')) \<and>
        (\<not> truthy h rid \<longrightarrow>
           CatalogObjectReference_get E A h obj
             = (Inr VNone, set_attributes h obj (AList.update (attribute_name A) VNone attrs))
           \<and> get_attributes (snd (CatalogObjectReference_get E A h obj)) obj
             = Some (AList.update (attribute_name A) VNone attrs)))"
proof -
  have hit: "CatalogObjectReference_get E A h obj = (Inr cached, h)"
    if "truthy h cached" "object_id h cached = Inr cid" "py_eq E h cid rid"
    using that assms by (simp add: CatalogObjectReference_get_def Let_def)
  have miss: "CatalogObjectReference_get E A h obj =
      (case (if truthy h rid then reference_get E (reference_class (kind A)) rid h
             else (Inr VNone, h)) of
         (Inl e, h') \<Rightarrow> (Inl e, h')
       | (Inr new_value, h') \<Rightarrow>
           (case get_attributes h' obj of
              None \<Rightarrow> (Inl AttributeError, h')
            | Some attrs' \<Rightarrow>
                (Inr new_value,
                 set_attributes h' obj (AList.update (attribute_name A) new_value attrs'))))"
    if "\<not> truthy h cached \<or> (object_id h cached = Inr cid \<and> \<not> py_eq E h cid rid)"
    using that assms by (auto simp: CatalogObjectReference_get_def Let_def)
  show ?thesis
  proof (intro conjI impI)
    assume "truthy h cached \<and> object_id h cached = Inr cid \<and> py_eq E h cid rid"
    then show "CatalogObjectReference_get E A h obj = (Inr cached, h)" using hit by blast
  next
    assume m: "\<not> truthy h cached \<or> (object_id h cached = Inr cid \<and> \<not> py_eq E h cid rid)"
      and l: "truthy h rid \<and> reference_get E (reference_class (kind A)) rid h = (Inr new_value, h')
           \<and> get_attributes h' obj = Some attrs'"
    from miss[OF m] l
    show r: "CatalogObjectReference_get E A h obj
             = (Inr new_value, set_attributes h' obj (AList.update (attribute_name A) new_value attrs'))"
      by simp
    from r l show "get_attributes (snd (CatalogObjectReference_get E A h obj)) obj
             = Some (AList.update (attribute_name A) new_value attrs')"
      by (simp add: get_set_attributes)
    show "map_of (AList.update (attribute_name A) new_value attrs') (attribute_name A) = Some new_value"
      by (simp add: update_conv')
  next
    assume m: "\<not> truthy h cached \<or> (object_id h cached = Inr cid \<and> \<not> py_eq E h cid rid)"
      and l: "truthy h rid \<and> reference_get E (reference_class (kind A)) rid h = (Inl e, h')"
    from miss[OF m] l show "CatalogObjectReference_get E A h obj = (Inl e, h')" by simp
  next
    assume m: "\<not> truthy h cached \<or> (object_id h cached = Inr cid \<and> \<not> py_eq E h cid rid)"
      and l: "\<not> truthy h rid"
    from miss[OF m] l assms(1)
    show r: "CatalogObjectReference_get E A h obj
             = (Inr VNone, set_attributes h obj (AList.update (attribute_name A) VNone attrs))"
      by simp
    from r assms(1) show "get_attributes (snd (CatalogObjectReference_get E A h obj)) obj
             = Some (AList.update (attribute_name A) VNone attrs)"
      by (simp add: get_set_attributes)
  qed
qed

theorem C8_reference_get_witness:
  "get_attributes stale_band_heap 0 = Some [(''product'', VObj 1), (''product_id'', VStr ''p2'')] \<and>
   object_id stale_band_heap (VObj 1) = Inr (VStr ''p1'') \<and>
   \<not> py_eq std stale_band_heap (VStr ''p1'') (VStr ''p2'') \<and>
   truthy stale_band_heap (VStr ''p2'') \<and>
   reference_get std ''Product'' (VStr ''p2'') stale_band_heap = (Inr (VObj 2), stale_band_heap) \<and>
   CatalogObjectReference_get std product_reference stale_band_heap 0
     = (Inr (VObj 2),
        [ModelObject \<lparr>mo_mro = [''Band'', ''CatalogObject''],
           mo_attributes = [(''product'', VObj 2), (''product_id'', VStr ''p2'')],
           mo_state = SAVED, mo_notices = []\<rparr>,
         product_p1, product_p2])"
proof -
  have a: "get_attributes stale_band_heap 0 = Some [(''product'', VObj 1), (''product_id'', VStr ''p2'')]"
    by (simp add: get_attributes_def lookup_def stale_band_heap_def stale_band_def)
  have i: "object_id stale_band_heap (VObj 1) = Inr (VStr ''p1'')"
    by (simp add: object_id_def lookup_def stale_band_heap_def stale_band_def product_p1_def)
  have n: "\<not> py_eq std stale_band_heap (VStr ''p1'') (VStr ''p2'')"
    by (simp add: std_def val_eq_def)
  have t: "truthy stale_band_heap (VStr ''p2'')" "truthy stale_band_heap (VObj 1)"
    by (simp_all add: truthy_def lookup_def stale_band_heap_def stale_band_def product_p1_def)
  have l: "reference_get std ''Product'' (VStr ''p2'') stale_band_heap = (Inr (VObj 2), stale_band_heap)"
    by (simp add: std_def heap_catalog_def stale_band_heap_def stale_band_def product_p1_def product_p2_def)
  have s: "set_attributes stale_band_heap 0
             (AList.update ''product'' (VObj 2) [(''product'', VObj 1), (''product_id'', VStr ''p2'')])
           = [ModelObject \<lparr>mo_mro = [''Band'', ''CatalogObject''],
                mo_attributes = [(''product'', VObj 2), (''product_id'', VStr ''p2'')],
                mo_state = SAVED, mo_notices = []\<rparr>,
              product_p1, product_p2]"
    by (simp add: set_attributes_def lookup_def stale_band_heap_def stale_band_def)
  from C8_reference_get
         [of stale_band_heap 0 "[(''product'', VObj 1), (''product_id'', VStr ''p2'')]"
             "VObj 1" product_reference "VStr ''p2''" "VStr ''p1''" std "VObj 2" stale_band_heap
             "[(''product'', VObj 1), (''product_id'', VStr ''p2'')]", OF a]
       a i n t l s
  show ?thesis by (simp add: product_reference_def id_field_def)
qed

lemma set_modified_model_object:
  assumes "lookup h a = Some (ModelObject mo)"
  shows "set_modified (Suc n) h a attr_name changed validate =
           (if mo_state mo = DELETED then (Inl CallbackVeto, h)
            else (Inr (), h[a := ModelObject
                    (mo\<lparr>mo_notices := mo_notices mo @ [(attr_name, changed, validate)]\<rparr>)]))"
  using assms by (simp add: model_set_modified_def)

lemma lookup_length: "lookup h a = Some x \<Longrightarrow> a < length h"
  by (simp add: lookup_def split: if_splits)

lemma object_id_update_owner:
  assumes "lookup h obj = Some (ModelObject mo)"
    and "v \<noteq> VObj obj \<or> map_of (mo_attributes mo') ''id'' = map_of (mo_attributes mo) ''id''"
  shows "object_id (h[obj := ModelObject mo']) v = object_id h v"
proof (cases v)
  case (VObj a)
  show ?thesis
  proof (cases "a = obj")
    case True
    with VObj assms show ?thesis
      by (auto simp: object_id_def lookup_update dest: lookup_length)
  next
    case False
    with VObj assms show ?thesis
      by (auto simp: object_id_def lookup_def)
  qed
qed (simp_all add: object_id_def)

text \<open>C7, as the claim states it, fails: a saved instance of the declared class,
  assigned to a readonly reference attribute, is not committed; the set raises
  AttributeValidationError from the attribute's own policy check.\<close>

theorem C7_readonly_reference_not_committed:
  "isinstance stale_band_heap (VObj 2) ''Product'' \<and>
   object_state stale_band_heap (VObj 2) = Inr SAVED \<and>
   CatalogObjectReference_set std 10
     (product_reference\<lparr>readonly := True\<rparr>) stale_band_heap 0 (VObj 2) True
   = (Inl AttributeValidationError, stale_band_heap)"
  by (simp add: CatalogObjectReference_set_def raise_if_immutable_or_readonly_def
                product_reference_def get_attributes_def lookup_def stale_band_heap_def stale_band_def
                isinstance_def object_state_def product_p2_def)

text \<open>C7 (amended). \<open>CatalogObjectReference.__set__\<close> on an owner with a value
  store. For a non-null value that is not an instance of the declared reference
  class, or whose state is UNSAVED while unsaved references are disallowed, it raises
  AttributeValidationError and leaves the heap as it is. Otherwise, provided the
  attribute's own policy check passes when validating and the owner (a model
  object) accepts the modification, it commits the value and writes the shadow field
  \<open>name_id\<close> to the value's id (None for a null value) in the same operation: the
  shadow field is written whatever it held before, no policy check is applied to it,
  and its notice is sent with validate false.\<close>

theorem C7_reference_set:
  assumes "lookup h obj = Some (ModelObject mo)"
  shows
    "(v \<noteq> VNone \<and> \<not> isinstance h v (reference_class (kind A)) \<longrightarrow>
        CatalogObjectReference_set E fuel A h obj v validate = (Inl AttributeValidationError, h)) \<and>
     (v \<noteq> VNone \<and> \<not> allow_unsaved (kind A) \<and> object_state h v = Inr UNSAVED \<longrightarrow>
        CatalogObjectReference_set E fuel A h obj v validate = (Inl AttributeValidationError, h)) \<and>
     ((v = VNone \<or> (isinstance h v (reference_class (kind A)) \<and>
                     (allow_unsaved (kind A) \<or> object_state h v \<noteq> Inr UNSAVED))) \<and>
      (validate \<longrightarrow> policy_passes A (attribute_name A) (mo_attributes mo)) \<and>
      mo_state mo \<noteq> DELETED \<and> 0 < fuel \<and>
      (v \<noteq> VObj obj \<or> attribute_name A \<noteq> ''id'') \<and>
      (if v = VNone then Inr VNone else object_id h v) = Inr i \<and>
      changed = (case map_of (mo_attributes mo) (attribute_name A) of
                   None \<Rightarrow> True | Some old \<Rightarrow> \<not> py_eq E h old v) \<longrightarrow>
        CatalogObjectReference_set E fuel A h obj v validate
          = (Inr (), h[obj := ModelObject
               (mo\<lparr>mo_attributes :=
                      AList.update (id_field A) i (AList.update (attribute_name A) v (mo_attributes mo)),
                    mo_notices := mo_notices mo @
                      [(Some (attribute_name A), changed, validate),
                       (Some (id_field A), changed, False)]\<rparr>)]))"
proof (intro conjI impI)
  have ga: "get_attributes h obj = Some (mo_attributes mo)"
    using assms by (simp add: get_attributes_def)
  have pol: "raise_if_immutable_or_readonly A (attribute_name A) (Some (mo_attributes mo))
               = Inl AttributeValidationError \<or>
             raise_if_immutable_or_readonly A (attribute_name A) (Some (mo_attributes mo)) = Inr ()"
    by (simp add: raise_if_immutable_or_readonly_def)
  {
    assume "v \<noteq> VNone \<and> \<not> isinstance h v (reference_class (kind A))"
    then show "CatalogObjectReference_set E fuel A h obj v validate = (Inl AttributeValidationError, h)"
      using ga pol by (auto simp: CatalogObjectReference_set_def)
  next
    assume "v \<noteq> VNone \<and> \<not> allow_unsaved (kind A) \<and> object_state h v = Inr UNSAVED"
    then show "CatalogObjectReference_set E fuel A h obj v validate = (Inl AttributeValidationError, h)"
      using ga pol by (auto simp: CatalogObjectReference_set_def)
  next
    assume a: "(v = VNone \<or> (isinstance h v (reference_class (kind A)) \<and>
                     (allow_unsaved (kind A) \<or> object_state h v \<noteq> Inr UNSAVED))) \<and>
      (validate \<longrightarrow> policy_passes A (attribute_name A) (mo_attributes mo)) \<and>
      mo_state mo \<noteq> DELETED \<and> 0 < fuel \<and>
      (v \<noteq> VObj obj \<or> attribute_name A \<noteq> ''id'') \<and>
      (if v = VNone then Inr VNone else object_id h v) = Inr i \<and>
      changed = (case map_of (mo_attributes mo) (attribute_name A) of
                   None \<Rightarrow> True | Some old \<Rightarrow> \<not> py_eq E h old v)"
    obtain n where fuel: "fuel = Suc n" using a by (cases fuel) auto
    have len: "obj < length h" using assms by (rule lookup_length)
    let ?n1 = "(Some (attribute_name A), changed, validate)"
    let ?n2 = "(Some (id_field A), changed, False)"
    let ?mo1 = "mo\<lparr>mo_notices := mo_notices mo @ [?n1]\<rparr>"
    let ?h1 = "h[obj := ModelObject ?mo1]"
    let ?attrs1 = "AList.update (attribute_name A) v (mo_attributes mo)"
    let ?mo2 = "?mo1\<lparr>mo_attributes := ?attrs1\<rparr>"
    let ?h2 = "h[obj := ModelObject ?mo2]"
    let ?mo3 = "?mo2\<lparr>mo_notices := mo_notices ?mo2 @ [?n2]\<rparr>"
    let ?h3 = "h[obj := ModelObject ?mo3]"
    have p: "(if validate then raise_if_immutable_or_readonly A (attribute_name A) (Some (mo_attributes mo))
              else Inr ()) = Inr ()"
      using a by (auto simp: raise_if_immutable_or_readonly_def policy_passes_def)
    have s1: "set_modified fuel h obj (Some (attribute_name A)) changed validate = (Inr (), ?h1)"
      using set_modified_model_object[OF assms] a fuel by simp
    have l1: "lookup ?h1 obj = Some (ModelObject ?mo1)" using len by (simp add: lookup_update)
    have g1: "get_attributes ?h1 obj = Some (mo_attributes mo)"
      using l1 by (simp add: get_attributes_def)
    have h2: "set_attributes ?h1 obj ?attrs1 = ?h2"
      using l1 by (simp add: set_attributes_def)
    have l2: "lookup ?h2 obj = Some (ModelObject ?mo2)" using len by (simp add: lookup_update)
    have s2: "set_modified fuel ?h2 obj (Some (id_field A)) changed False = (Inr (), ?h3)"
      using set_modified_model_object[OF l2] a fuel by simp
    have l3: "lookup ?h3 obj = Some (ModelObject ?mo3)" using len by (simp add: lookup_update)
    have g3: "get_attributes ?h3 obj = Some ?attrs1"
      using l3 by (simp add: get_attributes_def)
    have idk: "v = VObj obj \<Longrightarrow> map_of ?attrs1 ''id'' = map_of (mo_attributes mo) ''id''"
      using a by (auto simp: update_conv')
    have oid: "object_id ?h3 v = object_id h v"
      using object_id_update_owner[OF assms, of v ?mo3] idk by auto
    have ai: "(if v = VNone then Inr VNone else object_id h v) = Inr i"
      using a by blast
    have i: "(if v = VNone then Inr VNone else object_id ?h3 v) = Inr i"
      unfolding oid using ai .
    have h4: "set_attributes ?h3 obj (AList.update (id_field A) i ?attrs1)
              = h[obj := ModelObject
               (mo\<lparr>mo_attributes := AList.update (id_field A) i ?attrs1,
                    mo_notices := mo_notices mo @ [?n1, ?n2]\<rparr>)]"
      using l3 by (cases mo) (simp add: set_attributes_def)
    have chk: "\<not> (v \<noteq> VNone \<and> \<not> isinstance h v (reference_class (kind A)))"
      "\<not> (v \<noteq> VNone \<and> \<not> allow_unsaved (kind A) \<and> object_state h v = Inr UNSAVED)"
      using a by auto
    have ch: "(case map_of (mo_attributes mo) (attribute_name A) of
                   None \<Rightarrow> True | Some old \<Rightarrow> \<not> py_eq E h old v) = changed"
      using a by simp
    show "CatalogObjectReference_set E fuel A h obj v validate
          = (Inr (), h[obj := ModelObject
               (mo\<lparr>mo_attributes :=
                      AList.update (id_field A) i (AList.update (attribute_name A) v (mo_attributes mo)),
                    mo_notices := mo_notices mo @
                      [(Some (attribute_name A), changed, validate),
                       (Some (id_field A), changed, False)]\<rparr>)])"
      unfolding CatalogObjectReference_set_def
      using chk
      by (simp only: ga option.case p sum.case if_False Let_def ch s1 prod.case g1 h2 s2 g3 i h4)
  }
qed

theorem C7_reference_set_witness:
  "lookup stale_band_heap 0 = Some (ModelObject stale_band) \<and>
   isinstance stale_band_heap (VObj 2) ''Product'' \<and>
   object_state stale_band_heap (VObj 2) \<noteq> Inr UNSAVED \<and>
   policy_passes product_reference ''product'' (mo_attributes stale_band) \<and>
   mo_state stale_band \<noteq> DELETED \<and>
   object_id stale_band_heap (VObj 2) = Inr (VStr ''p2'') \<and>
   CatalogObjectReference_set std 10 product_reference stale_band_heap 0 (VObj 2) True
     = (Inr (),
        [ModelObject
           \<lparr>mo_mro = [''Band'', ''CatalogObject''],
            mo_attributes = [(''product'', VObj 2), (''product_id'', VStr ''p2'')],
            mo_state = SAVED,
            mo_notices = [(Some ''product'', True, True), (Some ''product_id'', True, False)]\<rparr>,
         product_p1, product_p2]) \<and>
   \<not> isinstance stale_band_heap (VStr ''p2'') ''Product'' \<and>
   CatalogObjectReference_set std 10 product_reference stale_band_heap 0 (VStr ''p2'') True
     = (Inl AttributeValidationError, stale_band_heap)"
proof -
  have l: "lookup stale_band_heap 0 = Some (ModelObject stale_band)"
    by (simp add: lookup_def stale_band_heap_def)
  have f: "isinstance stale_band_heap (VObj 2) ''Product''"
    "object_state stale_band_heap (VObj 2) \<noteq> Inr UNSAVED"
    "policy_passes product_reference ''product'' (mo_attributes stale_band)"
    "mo_state stale_band \<noteq> DELETED"
    "object_id stale_band_heap (VObj 2) = Inr (VStr ''p2'')"
    "\<not> isinstance stale_band_heap (VStr ''p2'') ''Product''"
    by (simp_all add: isinstance_def object_state_def object_id_def policy_passes_def lookup_def
                      stale_band_heap_def stale_band_def product_p2_def product_reference_def)
  from C7_reference_set[OF l, of "VObj 2" product_reference std 10 True "VStr ''p2''" True]
       C7_reference_set[OF l, of "VStr ''p2''" product_reference std 10 True]
       l f
  show ?thesis
    by (simp add: product_reference_def id_field_def stale_band_def stale_band_heap_def
                  std_def val_eq_def)
qed

section \<open>Equality of mapping values\<close>

lemma issubclass_refl: "issubclass c c"
proof (cases c)
  case (Class n b attrs)
  then show ?thesis by (cases b) auto
qed

lemma issubclass_size: "issubclass c d \<Longrightarrow> c = d \<or> size d < size c"
  by (induction c d rule: issubclass.induct) auto

lemma issubclass_antisym: "issubclass c d \<Longrightarrow> issubclass d c \<Longrightarrow> c = d"
  using issubclass_size[of c d] issubclass_size[of d c] by auto

lemma eq_attributes_alike:
  assumes "serializes E h types xs" and "serializes E h types ys"
  shows "eq_attributes E h types xs ys = Inr (serialize_alike E h types xs ys)"
  using assms
proof (induction types)
  case Nil
  then show ?case by (simp add: serialize_alike_def)
next
  case (Cons p types)
  obtain name t where p: "p = (name, t)" by (cases p)
  have s: "serializes E h types xs" "serializes E h types ys"
    using Cons.prems by (auto simp: serializes_def)
  have ih: "eq_attributes E h types xs ys = Inr (serialize_alike E h types xs ys)"
    using Cons.IH s by simp
  show ?case
  proof (cases "serializable t")
    case False
    then show ?thesis using ih p by (simp add: serialize_alike_def)
  next
    case True
    obtain x y where xy: "serialized E h t xs name = Inr x" "serialized E h t ys name = Inr y"
      using Cons.prems True p by (auto simp: serializes_def)
    show ?thesis
      using True xy ih p by (auto simp: serialize_alike_def serialized_def)
  qed
qed

text \<open>C9. For two mapping values held at the addresses \<open>a\<close> and \<open>b\<close> whose
  serializable attributes serialize without an error: \<open>a == b\<close> is true exactly when
  both have the same class and every serializable attribute of the schema serializes
  to equal values on both. The addresses do not enter the condition, nor do the
  values of attributes that are not serializable; and two values of different classes
  never compare equal.\<close>

theorem C9_mixin_equality:
  assumes "lookup h a = Some (MappingValue ma)" and "lookup h b = Some (MappingValue mb)"
    and "mv_class ma = mv_class mb \<longrightarrow>
           serializes E h (attribute_types (mv_class ma)) (mv_attributes ma) \<and>
           serializes E h (attribute_types (mv_class ma)) (mv_attributes mb)"
  shows
    "mapping_values_equal E h a b
       = Inr (mv_class ma = mv_class mb \<and>
              serialize_alike E h (attribute_types (mv_class ma)) (mv_attributes ma) (mv_attributes mb)) \<and>
     (mv_class ma \<noteq> mv_class mb \<longrightarrow> mapping_values_equal E h a b = Inr False) \<and>
     ((\<forall>(name, t) \<in> set (attribute_types (mv_class ma)).
          serializable t \<longrightarrow> attribute_value xs name = attribute_value (mv_attributes ma) name) \<longrightarrow>
        serialize_alike E h (attribute_types (mv_class ma)) xs (mv_attributes mb)
          = serialize_alike E h (attribute_types (mv_class ma)) (mv_attributes ma) (mv_attributes mb))"
proof -
  have diff: "mapping_values_equal E h a b = Inr False" if d: "mv_class ma \<noteq> mv_class mb"
  proof (cases "issubclass (mv_class mb) (mv_class ma)")
    case True
    then have "\<not> issubclass (mv_class ma) (mv_class mb)"
      using d issubclass_antisym by blast
    then show ?thesis
      using assms(1,2) d True
      by (simp add: mapping_values_equal_def AttributeEqualityMixin_eq_def)
  next
    case False
    then show ?thesis
      using assms(1,2) d
      by (simp add: mapping_values_equal_def AttributeEqualityMixin_eq_def)
  qed
  have same: "mapping_values_equal E h a b
       = Inr (serialize_alike E h (attribute_types (mv_class ma)) (mv_attributes ma) (mv_attributes mb))"
    if s: "mv_class ma = mv_class mb"
  proof -
    have "mapping_values_equal E h a b
            = eq_attributes E h (attribute_types (mv_class ma)) (mv_attributes ma) (mv_attributes mb)"
      using assms(1,2) s
      by (simp add: mapping_values_equal_def AttributeEqualityMixin_eq_def issubclass_refl)
    then show ?thesis
      using eq_attributes_alike assms(3) s by simp
  qed
  have indep: "serialize_alike E h (attribute_types (mv_class ma)) xs (mv_attributes mb)
          = serialize_alike E h (attribute_types (mv_class ma)) (mv_attributes ma) (mv_attributes mb)"
    if "\<forall>(name, t) \<in> set (attribute_types (mv_class ma)).
          serializable t \<longrightarrow> attribute_value xs name = attribute_value (mv_attributes ma) name"
    using that unfolding serialize_alike_def serialized_def by (intro ball_cong refl) auto
  show ?thesis
    using diff same indep by (cases "mv_class ma = mv_class mb") auto
qed

lemma attribute_types_File:
  "attribute_types File =
     [(''href'', (default_attribute KAttribute)\<lparr>attribute_name := ''href''\<rparr>),
      (''size_bytes'', (default_attribute KAttribute)\<lparr>attribute_name := ''size_bytes''\<rparr>),
      (''hash'', (default_attribute KAttribute)\<lparr>attribute_name := ''hash''\<rparr>),
      (''provider_id'', (default_attribute KAttribute)\<lparr>attribute_name := ''provider_id''\<rparr>),
      (''provider_href'', (default_attribute KAttribute)\<lparr>attribute_name := ''provider_href''\<rparr>)]"
  by (simp add: File_def register_declared_def)

theorem C9_mixin_equality_witness:
  "lookup files_heap 0 = Some (MappingValue file_a) \<and>
   lookup files_heap 1 = Some (MappingValue file_a) \<and>
   lookup files_heap 2 = Some (MappingValue subfile_a) \<and>
   serializes std files_heap (attribute_types File) (mv_attributes file_a) \<and>
   mv_class file_a \<noteq> mv_class subfile_a \<and>
   mapping_values_equal std files_heap 0 1 = Inr True \<and>
   mapping_values_equal std files_heap 0 2 = Inr False \<and>
   mapping_values_equal std files_heap 2 0 = Inr False"
proof -
  have l: "lookup files_heap 0 = Some (MappingValue file_a)"
    "lookup files_heap 1 = Some (MappingValue file_a)"
    "lookup files_heap 2 = Some (MappingValue subfile_a)"
    by (simp_all add: lookup_def files_heap_def)
  have s: "serializes std files_heap (attribute_types File) (mv_attributes file_a)"
    by (simp add: serializes_def attribute_types_File serialized_def serialize_def default_attribute_def)
  have a: "serialize_alike std files_heap (attribute_types File) (mv_attributes file_a) (mv_attributes file_a)"
    by (simp add: serialize_alike_def attribute_types_File serialized_def serialize_def
                  default_attribute_def std_def val_eq_def)
  have c: "mv_class file_a = File" "mv_class subfile_a = SubFile" "File \<noteq> SubFile"
    by (simp_all add: file_a_def subfile_a_def File_def SubFile_def)
  from C9_mixin_equality[OF l(1) l(2), of std] C9_mixin_equality[OF l(1) l(3), of std]
       C9_mixin_equality[OF l(3) l(1), of std] l s a c
  show ?thesis by simp
qed

section \<open>Notices to the owners of a shared value\<close>

lemma notify_owners_model_objects:
  assumes "\<forall>(ow, n) \<in> set owners. \<exists>mo. lookup h ow = Some (ModelObject mo) \<and> mo_state mo \<noteq> DELETED"
    and "distinct (map fst owners)"
  shows "\<exists>h'. notify_owners (Suc k) h owners changed validate = (Inr (), h') \<and>
           (\<forall>(ow, n) \<in> set owners.
              notices_of h' ow = Some (the (notices_of h ow) @ [(n, changed, validate)])) \<and>
           (\<forall>x. x \<notin> fst ` set owners \<longrightarrow> lookup h' x = lookup h x)"
  using assms
proof (induction owners arbitrary: h)
  case Nil
  then show ?case by simp
next
  case (Cons p owners)
  obtain ow n where p: "p = (ow, n)" by (cases p)
  obtain mo where mo: "lookup h ow = Some (ModelObject mo)" "mo_state mo \<noteq> DELETED"
    using Cons.prems(1) p by auto
  let ?h1 = "h[ow := ModelObject (mo\<lparr>mo_notices := mo_notices mo @ [(n, changed, validate)]\<rparr>)]"
  have s: "set_modified (Suc k) h ow n changed validate = (Inr (), ?h1)"
    using set_modified_model_object[OF mo(1)] mo(2) by simp
  have len: "ow < length h" using mo(1) by (rule lookup_length)
  have notin: "ow \<notin> fst ` set owners" using Cons.prems(2) p by auto
  have other: "lookup ?h1 x = lookup h x" if "x \<noteq> ow" for x
    using that by (simp add: lookup_def)
  have pre: "\<forall>(ow', n') \<in> set owners. \<exists>mo'. lookup ?h1 ow' = Some (ModelObject mo') \<and> mo_state mo' \<noteq> DELETED"
  proof (clarify)
    fix ow' n' assume in': "(ow', n') \<in> set owners"
    then have "ow' \<noteq> ow" using notin by force
    then show "\<exists>mo'. lookup ?h1 ow' = Some (ModelObject mo') \<and> mo_state mo' \<noteq> DELETED"
      using Cons.prems(1) in' other by auto
  qed
  have d: "distinct (map fst owners)" using Cons.prems(2) by simp
  from Cons.IH[OF pre d] obtain h' where
    h': "notify_owners (Suc k) ?h1 owners changed validate = (Inr (), h')"
        "\<forall>(ow', n') \<in> set owners.
            notices_of h' ow' = Some (the (notices_of ?h1 ow') @ [(n', changed, validate)])"
        "\<forall>x. x \<notin> fst ` set owners \<longrightarrow> lookup h' x = lookup ?h1 x"
    by blast
  have run: "notify_owners (Suc k) h (p # owners) changed validate = (Inr (), h')"
    using s h'(1) p by simp
  have no: "notices_of h' ow = Some (the (notices_of h ow) @ [(n, changed, validate)])"
    using h'(3) notin mo(1) len by (simp add: notices_of_def lookup_update)
  have rest: "notices_of h' ow' = Some (the (notices_of h ow') @ [(n', changed, validate)])"
    if "(ow', n') \<in> set owners" for ow' n'
  proof -
    have "ow' \<noteq> ow" using that notin by force
    then have "notices_of ?h1 ow' = notices_of h ow'" using other by (simp add: notices_of_def)
    then show ?thesis using h'(2) that by auto
  qed
  have frame: "lookup h' x = lookup h x" if "x \<notin> fst ` set (p # owners)" for x
    using that h'(3) other p by auto
  show ?case
    using run no rest frame p by auto
qed

text \<open>C1, as the claim states it, fails: \<open>created\<close> is a declared attribute of the
  shared value, it has no stored value, so the new value differs from it, yet
  setting it notifies neither owner: the attribute is readonly and the set raises
  AttributeValidationError first.\<close>

theorem C1_readonly_field_notifies_nobody:
  "get_attribute_type Stamped ''created''
     = Inr ((default_attribute KTimestamp)\<lparr>readonly := True, attribute_name := ''created''\<rparr>) \<and>
   map_of (mv_attributes shared_value) ''created'' = None \<and>
   MappingAttribute_setattr std 10 shared_heap 2 ''created'' (VStr ''2021-01-01T00:00:00Z'')
     = (Inl AttributeValidationError, shared_heap) \<and>
   notices_of shared_heap 0 = Some [] \<and> notices_of shared_heap 1 = Some []"
  by (simp add: MappingAttribute_setattr_def get_attribute_type_def Stamped_def register_declared_def
                default_attribute_def shared_heap_def shared_value_def lookup_def Attribute_set_def
                get_attributes_def raise_if_immutable_or_readonly_def notices_of_def
                owner_a_def owner_b_def)

text \<open>C1 (amended). Let \<open>m\<close> be a mapping value whose registered owners are model
  objects that accept modifications, among them \<open>a\<close> under the name \<open>field\<close> and \<open>b\<close>
  under the name \<open>field2\<close>. Setting a declared attribute of \<open>m\<close> that passes the policy
  check (not readonly, and mutable or not yet set) to a value that deserializes to
  \<open>v'\<close> succeeds, stores \<open>v'\<close>, and calls the callback of every registered owner exactly
  once, under the name that owner holds \<open>m\<close> by: with changed=True when \<open>v'\<close> differs
  from the stored value (or nothing is stored), and with changed=False, so with no
  changed=True notice, when it equals the stored value.\<close>

theorem C1_shared_value_notifies:
  assumes "lookup h m = Some (MappingValue mv)"
    and "get_attribute_type (mv_class mv) name = Inr A"
    and "policy_passes A (attribute_name A) (mv_attributes mv)"
    and "deserialize E h (kind A) v True = Inr v'"
    and "\<forall>(ow, n) \<in> set (mv_model_objects mv).
           \<exists>mo. lookup h ow = Some (ModelObject mo) \<and> mo_state mo \<noteq> DELETED"
    and "distinct (map fst (mv_model_objects mv))"
    and "2 \<le> fuel"
    and "changed = (case map_of (mv_attributes mv) (attribute_name A) of
                      None \<Rightarrow> True | Some old \<Rightarrow> \<not> py_eq E h old v')"
  shows
    "fst (MappingAttribute_setattr E fuel h m name v) = Inr () \<and>
     get_attributes (snd (MappingAttribute_setattr E fuel h m name v)) m
       = Some (AList.update (attribute_name A) v' (mv_attributes mv)) \<and>
     (\<forall>(ow, n) \<in> set (mv_model_objects mv).
        notices_of (snd (MappingAttribute_setattr E fuel h m name v)) ow
          = Some (the (notices_of h ow) @ [(n, changed, True)])) \<and>
     ((a, Some field) \<in> set (mv_model_objects mv) \<and> (b, Some field2) \<in> set (mv_model_objects mv) \<longrightarrow>
        notices_of (snd (MappingAttribute_setattr E fuel h m name v)) a
          = Some (the (notices_of h a) @ [(Some field, changed, True)]) \<and>
        notices_of (snd (MappingAttribute_setattr E fuel h m name v)) b
          = Some (the (notices_of h b) @ [(Some field2, changed, True)]))"
proof -
  obtain k where fuel: "fuel = Suc (Suc k)"
    using assms(7) by (metis Suc_le_D numeral_2_eq_2 Suc_le_mono)
  from notify_owners_model_objects[OF assms(5,6), of k changed True]
  obtain h1 where h1:
    "notify_owners (Suc k) h (mv_model_objects mv) changed True = (Inr (), h1)"
    "\<forall>(ow, n) \<in> set (mv_model_objects mv).
        notices_of h1 ow = Some (the (notices_of h ow) @ [(n, changed, True)])"
    "\<forall>x. x \<notin> fst ` set (mv_model_objects mv) \<longrightarrow> lookup h1 x = lookup h x"
    by blast
  have mnot: "m \<notin> fst ` set (mv_model_objects mv)"
    using assms(1,5) by force
  have lm: "lookup h1 m = Some (MappingValue mv)" using h1(3) mnot assms(1) by simp
  have ga: "get_attributes h m = Some (mv_attributes mv)"
    using assms(1) by (simp add: get_attributes_def)
  have ga1: "get_attributes h1 m = Some (mv_attributes mv)"
    using lm by (simp add: get_attributes_def)
  have sm: "set_modified fuel h m (Some (attribute_name A)) changed True = (Inr (), h1)"
    using assms(1) h1(1) fuel by simp
  have pol: "raise_if_immutable_or_readonly A (attribute_name A) (Some (mv_attributes mv)) = Inr ()"
    using assms(3) by (auto simp: raise_if_immutable_or_readonly_def policy_passes_def)
  let ?h2 = "set_attributes h1 m (AList.update (attribute_name A) v' (mv_attributes mv))"
  have ch: "(case map_of (mv_attributes mv) (attribute_name A) of
               None \<Rightarrow> True | Some old \<Rightarrow> \<not> py_eq E h old v') = changed"
    using assms(8) by simp
  have run: "MappingAttribute_setattr E fuel h m name v = (Inr (), ?h2)"
    unfolding MappingAttribute_setattr_def Attribute_set_def
    by (simp only: assms(1) assms(2) assms(4) option.case obj.case sum.case ga pol if_True
                   Let_def ch sm prod.case ga1)
  have n2: "notices_of ?h2 x = notices_of h1 x" for x
    by (rule lookup_set_attributes_notices)
  have all: "\<forall>(ow, n) \<in> set (mv_model_objects mv).
        notices_of ?h2 ow = Some (the (notices_of h ow) @ [(n, changed, True)])"
    using h1(2) n2 by auto
  have g2: "get_attributes ?h2 m = Some (AList.update (attribute_name A) v' (mv_attributes mv))"
    using ga1 by (rule get_set_attributes)
  show ?thesis
    using run all g2 by auto
qed

theorem C1_shared_value_notifies_witness:
  "lookup shared_heap 2 = Some (MappingValue shared_value) \<and>
   get_attribute_type (mv_class shared_value) ''label''
     = Inr ((default_attribute KAttribute)\<lparr>attribute_name := ''label''\<rparr>) \<and>
   policy_passes ((default_attribute KAttribute)\<lparr>attribute_name := ''label''\<rparr>) ''label''
     (mv_attributes shared_value) \<and>
   distinct (map fst (mv_model_objects shared_value)) \<and>
   (0, Some ''field'') \<in> set (mv_model_objects shared_value) \<and>
   (1, Some ''field2'') \<in> set (mv_model_objects shared_value) \<and>
   notices_of (snd (MappingAttribute_setattr std 2 shared_heap 2 ''label'' (VStr ''y''))) 0
     = Some [(Some ''field'', True, True)] \<and>
   notices_of (snd (MappingAttribute_setattr std 2 shared_heap 2 ''label'' (VStr ''y''))) 1
     = Some [(Some ''field2'', True, True)] \<and>
   notices_of (snd (MappingAttribute_setattr std 2 shared_heap 2 ''label'' (VStr ''x''))) 0
     = Some [(Some ''field'', False, True)] \<and>
   notices_of (snd (MappingAttribute_setattr std 2 shared_heap 2 ''label'' (VStr ''x''))) 1
     = Some [(Some ''field2'', False, True)]"
proof -
  let ?L = "(default_attribute KAttribute)\<lparr>attribute_name := ''label''\<rparr>"
  have l: "lookup shared_heap 2 = Some (MappingValue shared_value)"
    by (simp add: lookup_def shared_heap_def)
  have t: "get_attribute_type (mv_class shared_value) ''label'' = Inr ?L"
    by (simp add: get_attribute_type_def shared_value_def Stamped_def register_declared_def)
  have p: "policy_passes ?L (attribute_name ?L) (mv_attributes shared_value)"
    by (simp add: policy_passes_def default_attribute_def)
  have d: "deserialize std shared_heap (kind ?L) v True = Inr v" for v
    by (simp add: deserialize_def default_attribute_def)
  have ow: "\<forall>(ow, n) \<in> set (mv_model_objects shared_value).
           \<exists>mo. lookup shared_heap ow = Some (ModelObject mo) \<and> mo_state mo \<noteq> DELETED"
    by (simp add: shared_value_def shared_heap_def lookup_def owner_a_def owner_b_def)
  have di: "distinct (map fst (mv_model_objects shared_value))"
    by (simp add: shared_value_def)
  have mem: "(0, Some ''field'') \<in> set (mv_model_objects shared_value)"
    "(1, Some ''field2'') \<in> set (mv_model_objects shared_value)"
    by (simp_all add: shared_value_def)
  have n0: "notices_of shared_heap 0 = Some []" "notices_of shared_heap 1 = Some []"
    by (simp_all add: notices_of_def lookup_def shared_heap_def owner_a_def owner_b_def)
  have cy: "True = (case map_of (mv_attributes shared_value) (attribute_name ?L) of
                      None \<Rightarrow> True | Some old \<Rightarrow> \<not> py_eq std shared_heap old (VStr ''y''))"
    by (simp add: shared_value_def default_attribute_def std_def val_eq_def)
  have cx: "False = (case map_of (mv_attributes shared_value) (attribute_name ?L) of
                      None \<Rightarrow> True | Some old \<Rightarrow> \<not> py_eq std shared_heap old (VStr ''x''))"
    by (simp add: shared_value_def default_attribute_def std_def val_eq_def)
  have f: "(2::nat) \<le> 2" by simp
  from C1_shared_value_notifies[OF l t p d ow di f cy, of 0 "''field''" 1 "''field2''"]
       C1_shared_value_notifies[OF l t p d ow di f cx, of 0 "''field''" 1 "''field2''"]
       l t p di mem n0
  show ?thesis by (simp add: default_attribute_def)
qed

section \<open>ListAttribute\<close>

text \<open>C5. The invariant fails on the code. A File value that no object holds is
  tested for membership in an empty list of File items: \<open>value in L\<close> answers False
  and \<open>L.index(value)\<close> raises ValueError, the list stays empty, and both leave the
  list registered as an owner of the value, which is not one of its items. Both call
  \<open>_instantiate_item\<close> with \<open>add_model\<close> at its default, True; \<open>L.count(value)\<close>
  passes \<open>add_model=False\<close> and leaves the heap as it is.\<close>

theorem C5_membership_test_registers_owner:
  "get_items list_and_file_heap 0 = Some [] \<and>
   lookup list_and_file_heap 1 = Some (MappingValue file_a) \<and>
   mv_model_objects file_a = [] \<and>
   ListAttribute_contains std 10 list_and_file_heap 0 (VObj 1)
     = (Inr False,
        [ListValue empty_files, MappingValue (file_a\<lparr>mv_model_objects := [(0, None)]\<rparr>)]) \<and>
   ListAttribute_index std 10 list_and_file_heap 0 (VObj 1)
     = (Inl ValueError,
        [ListValue empty_files, MappingValue (file_a\<lparr>mv_model_objects := [(0, None)]\<rparr>)]) \<and>
   ListAttribute_count std 10 list_and_file_heap 0 (VObj 1) = (Inr 0, list_and_file_heap)"
  by (intro conjI; code_simp)

text \<open>C3. The claim fails on the code for \<open>extend\<close>. An empty list of File items
  is extended with two dicts, the second of which names an attribute that File does
  not declare: the call raises AttributeError, and the list now holds the File made
  from the first dict. The same bad dict given to \<open>append\<close> raises and leaves the
  list empty.\<close>

theorem C3_extend_keeps_earlier_items:
  "get_items list_heap 0 = Some [] \<and>
   fst (ListAttribute_extend std 10 list_heap 0
          [VDict [(''href'', VStr ''gs://a'')], VDict [(''bogus'', VInt 1)]]) = Inl AttributeError \<and>
   get_items (snd (ListAttribute_extend std 10 list_heap 0
          [VDict [(''href'', VStr ''gs://a'')], VDict [(''bogus'', VInt 1)]])) 0 = Some [VObj 1] \<and>
   fst (ListAttribute_append std 10 list_heap 0 (VDict [(''bogus'', VInt 1)])) = Inl AttributeError \<and>
   get_items (snd (ListAttribute_append std 10 list_heap 0 (VDict [(''bogus'', VInt 1)]))) 0 = Some []"
  by (intro conjI; code_simp)

section \<open>The round trip of a mapping value\<close>

lemma update_new: "map_of al k = None \<Longrightarrow> AList.update k v al = al @ [(k, v)]"
  by (induction al) (auto split: if_splits)

lemma set_update_cases: "p \<in> set (AList.update k v al) \<Longrightarrow> p = (k, v) \<or> p \<in> set al"
  by (induction al) (auto split: if_splits)

lemma bound_register_acc:
  "bound acc \<Longrightarrow>
   bound (foldl (\<lambda>types (attr_name, attr_type).
              AList.update attr_name (attr_type\<lparr>attribute_name := attr_name\<rparr>) types) acc attrs)"
proof (induction attrs arbitrary: acc)
  case Nil
  then show ?case by simp
next
  case (Cons p attrs)
  obtain n t where p: "p = (n, t)" by (cases p)
  have "bound (AList.update n (t\<lparr>attribute_name := n\<rparr>) acc)"
    using Cons.prems unfolding bound_def by (auto dest!: set_update_cases)
  then show ?case using Cons.IH p by simp
qed

lemma bound_register: "bound (register_declared attrs)"
  unfolding register_declared_def by (rule bound_register_acc) (simp add: bound_def)

lemma bound_inherit: "bound types \<Longrightarrow> bound bs \<Longrightarrow> bound (inherit types bs)"
proof (induction bs arbitrary: types)
  case Nil
  then show ?case by simp
next
  case (Cons p bs)
  obtain n t where p: "p = (n, t)" by (cases p)
  have b: "bound bs" and nt: "attribute_name t = n"
    using Cons.prems(2) p by (auto simp: bound_def)
  have "bound (if map_of types n = None then types @ [(n, t)] else types)"
    using Cons.prems(1) nt by (auto simp: bound_def)
  then show ?case using Cons.IH b p by simp
qed

lemma attribute_types_bound: "bound (attribute_types c)"
  by (induction c rule: attribute_types.induct) (auto intro: bound_register bound_inherit)

lemma attribute_types_name:
  "map_of (attribute_types c) n = Some t \<Longrightarrow> attribute_name t = n"
  using attribute_types_bound[of c] by (auto simp: bound_def dest: map_of_SomeD)


lemma foldl_update_new:
  "distinct (map fst xs) \<Longrightarrow> \<forall>k \<in> fst ` set xs. map_of acc k = None \<Longrightarrow>
   foldl (\<lambda>params (k, v). AList.update k v params) acc xs = acc @ xs"
proof (induction xs arbitrary: acc)
  case Nil
  then show ?case by simp
next
  case (Cons p xs)
  obtain k v where p: "p = (k, v)" by (cases p)
  have u: "AList.update k v acc = acc @ [(k, v)]"
    using Cons.prems(2) p by (simp add: update_new)
  have f: "\<forall>k' \<in> fst ` set xs. map_of (acc @ [(k, v)]) k' = None"
    using Cons.prems p by (auto simp: map_add_def split: option.splits)
  have d: "distinct (map fst xs)" using Cons.prems(1) by simp
  show ?case using Cons.IH[OF d f] u p by simp
qed

lemma delete_fresh: "k \<notin> fst ` set sd \<Longrightarrow> AList.delete k sd = sd"
  by (induction sd) auto

lemma map_of_fresh: "k \<notin> fst ` set sd \<Longrightarrow> map_of sd k = None"
  by (simp add: map_of_eq_None_iff)

lemma get_attr_params_fresh:
  assumes "distinct (map fst sd)" and "\<forall>k \<in> fst ` set sd. k \<notin> set constructor_keywords"
  shows "get_attr_params A sd =
           [(''mutable'', VBool (mutable A)), (''serializable'', VBool (serializable A)),
            (''sticky'', VBool (sticky A)), (''readonly'', VBool (readonly A))] @ sd"
  unfolding get_attr_params_def
  using assms by (intro foldl_update_new) (auto simp: constructor_keywords_def)

lemma init_fresh:
  assumes "distinct (map fst sd)" and "\<forall>k \<in> fst ` set sd. k \<notin> set constructor_keywords"
  shows "MappingAttribute_init E fuel c h ((''validate'', VBool True) # get_attr_params A sd) =
     (case init_attributes E fuel c
             (h @ [MappingValue \<lparr>mv_class = c,
                     mv_flags = \<lparr>mutable = mutable A, serializable = serializable A,
                                 sticky = sticky A, readonly = readonly A\<rparr>,
                     mv_attributes = [], mv_model_objects = []\<rparr>]) (length h) sd True of
        (Inl e, h') \<Rightarrow> (Inl e, h')
      | (Inr u, h') \<Rightarrow> (Inr (length h), h'))"
proof -
  have k: "''mutable'' \<notin> fst ` set sd" "''serializable'' \<notin> fst ` set sd"
    "''sticky'' \<notin> fst ` set sd" "''readonly'' \<notin> fst ` set sd"
    "''doc'' \<notin> fst ` set sd" "''validate'' \<notin> fst ` set sd"
    using assms(2) by (auto simp: constructor_keywords_def)
  show ?thesis
    unfolding MappingAttribute_init_def get_attr_params_fresh[OF assms]
    using k by (simp add: kwargs_pop_def Let_def delete_fresh map_of_fresh truthy_def)
qed


lemma Attribute_set_fresh:
  assumes "lookup h self = Some (MappingValue mv)" and "mv_model_objects mv = []"
    and "map_of (mv_attributes mv) (attribute_name t) = None"
    and "\<not> readonly t" and "deserialize E h (kind t) s True = Inr v'" and "0 < fuel"
  shows "Attribute_set E fuel t h self s True
           = (Inr (), h[self := MappingValue
                 (mv\<lparr>mv_attributes := mv_attributes mv @ [(attribute_name t, v')]\<rparr>)])"
proof -
  obtain k where fuel: "fuel = Suc k" using assms(6) by (cases fuel) auto
  have ga: "get_attributes h self = Some (mv_attributes mv)"
    using assms(1) by (simp add: get_attributes_def)
  have sm: "set_modified fuel h self (Some (attribute_name t)) True True = (Inr (), h)"
    using assms(1,2) fuel by simp
  have pol: "raise_if_immutable_or_readonly t (attribute_name t) (Some (mv_attributes mv)) = Inr ()"
    using assms(3,4) by (simp add: raise_if_immutable_or_readonly_def)
  have sa: "set_attributes h self (AList.update (attribute_name t) v' (mv_attributes mv))
              = h[self := MappingValue
                   (mv\<lparr>mv_attributes := mv_attributes mv @ [(attribute_name t, v')]\<rparr>)]"
    using assms(1,3) by (simp add: set_attributes_def update_new)
  show ?thesis
    unfolding Attribute_set_def
    by (simp only: ga option.case pol if_True sum.case assms(5) assms(3) Let_def sm prod.case sa)
qed

lemma init_attributes_exact:
  assumes "lookup h self = Some (MappingValue mv)" and "mv_model_objects mv = []"
    and "distinct (map fst sd)"
    and "\<forall>n \<in> fst ` set sd. map_of (mv_attributes mv) n = None"
    and "\<forall>(n, s) \<in> set sd. \<exists>t v'. map_of (attribute_types c) n = Some t \<and> \<not> readonly t \<and>
            (\<forall>h. deserialize E h (kind t) s True = Inr v')"
    and "0 < fuel"
  shows "\<exists>acc. init_attributes E fuel c h self sd True
                  = (Inr (), h[self := MappingValue (mv\<lparr>mv_attributes := acc\<rparr>)]) \<and>
           (\<forall>n. n \<notin> fst ` set sd \<longrightarrow> map_of acc n = map_of (mv_attributes mv) n) \<and>
           (\<forall>(n, s) \<in> set sd. \<forall>t v'. map_of (attribute_types c) n = Some t \<longrightarrow>
               deserialize E [] (kind t) s True = Inr v' \<longrightarrow> map_of acc n = Some v')"
  using assms
proof (induction sd arbitrary: h mv)
  case Nil
  have "h[self := MappingValue (mv\<lparr>mv_attributes := mv_attributes mv\<rparr>)] = h"
    using Nil(1) by (simp add: lookup_def list_update_same_conv split: if_splits)
  then show ?case
    by (intro exI[of _ "mv_attributes mv"]) simp
next
  case (Cons p sd)
  obtain n s where p: "p = (n, s)" by (cases p)
  obtain t v' where t: "map_of (attribute_types c) n = Some t" "\<not> readonly t"
      "\<forall>h. deserialize E h (kind t) s True = Inr v'"
    using Cons.prems(5) p by auto
  have nm: "attribute_name t = n" using t(1) by (rule attribute_types_name)
  have fresh: "map_of (mv_attributes mv) (attribute_name t) = None"
    using Cons.prems(4) p nm by simp
  let ?mv1 = "mv\<lparr>mv_attributes := mv_attributes mv @ [(n, v')]\<rparr>"
  let ?h1 = "h[self := MappingValue ?mv1]"
  have step: "Attribute_set E fuel t h self s True = (Inr (), ?h1)"
    using Attribute_set_fresh[OF Cons.prems(1,2) fresh t(2) _ Cons.prems(6), of E s v'] t(3) nm
    by simp
  have len: "self < length h" using Cons.prems(1) by (rule lookup_length)
  have l1: "lookup ?h1 self = Some (MappingValue ?mv1)" using len by (simp add: lookup_update)
  have m1: "mv_model_objects ?mv1 = []" using Cons.prems(2) by simp
  have d1: "distinct (map fst sd)" using Cons.prems(3) by simp
  have nnot: "n \<notin> fst ` set sd" using Cons.prems(3) p by auto
  have f1: "\<forall>k \<in> fst ` set sd. map_of (mv_attributes ?mv1) k = None"
    using Cons.prems(4) nnot by (auto simp: map_add_def split: option.splits)
  have a1: "\<forall>(n, s) \<in> set sd. \<exists>t v'. map_of (attribute_types c) n = Some t \<and> \<not> readonly t \<and>
            (\<forall>h. deserialize E h (kind t) s True = Inr v')"
    using Cons.prems(5) by auto
  from Cons.IH[OF l1 m1 d1 f1 a1 Cons.prems(6)] obtain acc where
    r: "init_attributes E fuel c ?h1 self sd True
          = (Inr (), ?h1[self := MappingValue (?mv1\<lparr>mv_attributes := acc\<rparr>)])"
       "\<forall>k. k \<notin> fst ` set sd \<longrightarrow> map_of acc k = map_of (mv_attributes ?mv1) k"
       "\<forall>(n, s) \<in> set sd. \<forall>t v'. map_of (attribute_types c) n = Some t \<longrightarrow>
               deserialize E [] (kind t) s True = Inr v' \<longrightarrow> map_of acc n = Some v'"
    by blast
  have run: "init_attributes E fuel c h self (p # sd) True
               = (Inr (), h[self := MappingValue (mv\<lparr>mv_attributes := acc\<rparr>)])"
    using step r(1) t(1) p by simp
  have old: "\<forall>k. k \<notin> fst ` set (p # sd) \<longrightarrow> map_of acc k = map_of (mv_attributes mv) k"
    using r(2) p by (auto simp: map_add_def split: option.splits)
  have hd: "map_of acc n = Some v'"
    using r(2) nnot fresh nm by (simp add: map_add_def)
  have new: "\<forall>(k, s') \<in> set (p # sd). \<forall>t' w. map_of (attribute_types c) k = Some t' \<longrightarrow>
               deserialize E [] (kind t') s' True = Inr w \<longrightarrow> map_of acc k = Some w"
    using r(3) hd t p by auto
  show ?case
    using run old new by blast
qed

lemma serialize_data_indep:
  assumes "\<forall>(n, v) \<in> set attrs. \<exists>t. map_of (attribute_types c) n = Some t \<and>
             (serializable t \<longrightarrow> (\<exists>s. \<forall>h. serialize E h (kind t) v = Inr s))"
  shows "\<exists>sd. (\<forall>h. serialize_data E h c attrs = Inr sd) \<and>
           map fst sd = map fst (filter (\<lambda>(n, v). serializable (the (map_of (attribute_types c) n))) attrs) \<and>
           (\<forall>(n, s) \<in> set sd. \<exists>t v. map_of (attribute_types c) n = Some t \<and> serializable t \<and>
               (n, v) \<in> set attrs \<and> (\<forall>h. serialize E h (kind t) v = Inr s)) \<and>
           (\<forall>(n, v) \<in> set attrs. \<forall>t. map_of (attribute_types c) n = Some t \<longrightarrow> serializable t \<longrightarrow>
               (\<exists>s. (n, s) \<in> set sd))"
  using assms
proof (induction attrs)
  case Nil
  then show ?case by simp
next
  case (Cons p attrs)
  obtain n v where p: "p = (n, v)" by (cases p)
  obtain t where t: "map_of (attribute_types c) n = Some t"
      "serializable t \<longrightarrow> (\<exists>s. \<forall>h. serialize E h (kind t) v = Inr s)"
    using Cons.prems p by auto
  have a: "\<forall>(n, v) \<in> set attrs. \<exists>t. map_of (attribute_types c) n = Some t \<and>
             (serializable t \<longrightarrow> (\<exists>s. \<forall>h. serialize E h (kind t) v = Inr s))"
    using Cons.prems by auto
  from Cons.IH[OF a] obtain sd where
    sd: "\<forall>h. serialize_data E h c attrs = Inr sd"
        "map fst sd = map fst (filter (\<lambda>(n, v). serializable (the (map_of (attribute_types c) n))) attrs)"
        "\<forall>(n, s) \<in> set sd. \<exists>t v. map_of (attribute_types c) n = Some t \<and> serializable t \<and>
               (n, v) \<in> set attrs \<and> (\<forall>h. serialize E h (kind t) v = Inr s)"
        "\<forall>(n, v) \<in> set attrs. \<forall>t. map_of (attribute_types c) n = Some t \<longrightarrow> serializable t \<longrightarrow>
               (\<exists>s. (n, s) \<in> set sd)"
    by blast
  show ?case
  proof (cases "serializable t")
    case False
    have "\<forall>h. serialize_data E h c (p # attrs) = Inr sd"
      using False t(1) sd(1) p by (simp add: get_attribute_type_def)
    moreover have "map fst sd = map fst (filter (\<lambda>(n, v). serializable (the (map_of (attribute_types c) n))) (p # attrs))"
      using False t(1) sd(2) p by simp
    moreover have "\<forall>(n, s) \<in> set sd. \<exists>t v. map_of (attribute_types c) n = Some t \<and> serializable t \<and>
               (n, v) \<in> set (p # attrs) \<and> (\<forall>h. serialize E h (kind t) v = Inr s)"
      using sd(3) by fastforce
    moreover have "\<forall>(n, v) \<in> set (p # attrs). \<forall>t. map_of (attribute_types c) n = Some t \<longrightarrow> serializable t \<longrightarrow>
               (\<exists>s. (n, s) \<in> set sd)"
      using sd(4) False t(1) p by auto
    ultimately show ?thesis by blast
  next
    case True
    then obtain s where s: "\<forall>h. serialize E h (kind t) v = Inr s" using t(2) by blast
    have "\<forall>h. serialize_data E h c (p # attrs) = Inr ((n, s) # sd)"
      using True t(1) sd(1) s p by (simp add: get_attribute_type_def)
    moreover have "map fst ((n, s) # sd) = map fst (filter (\<lambda>(n, v). serializable (the (map_of (attribute_types c) n))) (p # attrs))"
      using True t(1) sd(2) p by simp
    moreover have "\<forall>(n', s') \<in> set ((n, s) # sd). \<exists>t v. map_of (attribute_types c) n' = Some t \<and> serializable t \<and>
               (n', v) \<in> set (p # attrs) \<and> (\<forall>h. serialize E h (kind t) v = Inr s')"
      using sd(3) True t(1) s p by fastforce
    moreover have "\<forall>(n', v') \<in> set (p # attrs). \<forall>t. map_of (attribute_types c) n' = Some t \<longrightarrow> serializable t \<longrightarrow>
               (\<exists>s'. (n', s') \<in> set ((n, s) # sd))"
      using sd(4) p by fastforce
    ultimately show ?thesis by blast
  qed
qed


lemma distinct_register_acc:
  "distinct (map fst acc) \<Longrightarrow>
   distinct (map fst (foldl (\<lambda>types (attr_name, attr_type).
              AList.update attr_name (attr_type\<lparr>attribute_name := attr_name\<rparr>) types) acc attrs))"
proof (induction attrs arbitrary: acc)
  case Nil
  then show ?case by simp
next
  case (Cons p attrs)
  obtain n t where p: "p = (n, t)" by (cases p)
  show ?case using Cons.IH[of "AList.update n (t\<lparr>attribute_name := n\<rparr>) acc"] Cons.prems p
    by (simp add: distinct_update)
qed

lemma distinct_inherit:
  "distinct (map fst types) \<Longrightarrow> distinct (map fst (inherit types bs))"
proof (induction bs arbitrary: types)
  case Nil
  then show ?case by simp
next
  case (Cons p bs)
  obtain n t where p: "p = (n, t)" by (cases p)
  have "distinct (map fst (if map_of types n = None then types @ [(n, t)] else types))"
    using Cons.prems by (auto simp: map_of_eq_None_iff)
  then show ?case using Cons.IH p by simp
qed

lemma distinct_register: "distinct (map fst (register_declared attrs))"
  unfolding register_declared_def by (rule distinct_register_acc) simp

lemma attribute_types_distinct: "distinct (map fst (attribute_types c))"
proof (cases c)
  case (Class n b attrs)
  then show ?thesis
    by (cases b) (simp_all add: distinct_register distinct_inherit)
qed

lemma map_of_distinct_in: "distinct (map fst al) \<Longrightarrow> (k, v) \<in> set al \<Longrightarrow> map_of al k = Some v"
  by simp

lemma mapping_copy:
  assumes ms: "mapping_stable E c mv" and refl: "\<forall>h x. py_eq E h x x" and fuel: "0 < fuel"
  shows "\<exists>sd. (\<forall>H. serialize_data E H c (mv_attributes mv) = Inr sd) \<and> distinct (map fst sd) \<and>
           (\<forall>k \<in> fst ` set sd. k \<notin> set constructor_keywords) \<and>
           (\<forall>H fl. \<exists>acc.
               init_attributes E fuel c
                 (H @ [MappingValue \<lparr>mv_class = c, mv_flags = fl, mv_attributes = [],
                                      mv_model_objects = []\<rparr>]) (length H) sd True
               = (Inr (), H @ [MappingValue \<lparr>mv_class = c, mv_flags = fl, mv_attributes = acc,
                                              mv_model_objects = []\<rparr>]) \<and>
               (\<forall>H'. eq_attributes E H' (attribute_types c) (mv_attributes mv) acc = Inr True))"
proof -
  let ?types = "attribute_types c"
  let ?attrs = "mv_attributes mv"
  have d: "distinct (map fst ?attrs)"
    and kw: "\<forall>n \<in> fst ` set ?attrs. n \<notin> set constructor_keywords \<and> map_of ?types n \<noteq> None"
    and st: "\<forall>(n, t) \<in> set ?types. serializable t \<longrightarrow> field_stable E t (map_of ?attrs n)"
    using ms unfolding mapping_stable_def by blast+
  have stab: "stable E (kind t) v \<and> \<not> readonly t"
    if "(n, v) \<in> set ?attrs" "map_of ?types n = Some t" "serializable t" for n v t
  proof -
    have "(n, t) \<in> set ?types" using that(2) by (rule map_of_SomeD)
    moreover have "map_of ?attrs n = Some v" using d that(1) by simp
    ultimately show ?thesis using st that(3) by (auto simp: field_stable_def)
  qed
  have pre: "\<forall>(n, v) \<in> set ?attrs. \<exists>t. map_of ?types n = Some t \<and>
             (serializable t \<longrightarrow> (\<exists>s. \<forall>h. serialize E h (kind t) v = Inr s))"
  proof (clarify)
    fix n v assume nv: "(n, v) \<in> set ?attrs"
    then obtain t where t: "map_of ?types n = Some t" using kw by force
    have "serializable t \<longrightarrow> (\<exists>s. \<forall>h. serialize E h (kind t) v = Inr s)"
      using stab[OF nv t] by (auto simp: stable_def)
    then show "\<exists>t. map_of ?types n = Some t \<and>
             (serializable t \<longrightarrow> (\<exists>s. \<forall>h. serialize E h (kind t) v = Inr s))"
      using t by blast
  qed
  from serialize_data_indep[OF pre] obtain sd where
    sd: "\<forall>h. serialize_data E h c ?attrs = Inr sd"
        "map fst sd = map fst (filter (\<lambda>(n, v). serializable (the (map_of ?types n))) ?attrs)"
        "\<forall>(n, s) \<in> set sd. \<exists>t v. map_of ?types n = Some t \<and> serializable t \<and>
               (n, v) \<in> set ?attrs \<and> (\<forall>h. serialize E h (kind t) v = Inr s)"
        "\<forall>(n, v) \<in> set ?attrs. \<forall>t. map_of ?types n = Some t \<longrightarrow> serializable t \<longrightarrow>
               (\<exists>s. (n, s) \<in> set sd)"
    by blast
  have dsd: "distinct (map fst sd)"
    unfolding sd(2) using d by (simp add: distinct_map_filter)
  have keys: "fst ` set sd \<subseteq> fst ` set ?attrs"
  proof -
    have "set (map fst sd) \<subseteq> set (map fst ?attrs)" unfolding sd(2) by auto
    then show ?thesis by simp
  qed
  have nokw: "\<forall>k \<in> fst ` set sd. k \<notin> set constructor_keywords" using keys kw by blast
  have des: "\<forall>(n, s) \<in> set sd. \<exists>t v'. map_of ?types n = Some t \<and> \<not> readonly t \<and>
            (\<forall>h. deserialize E h (kind t) s True = Inr v')"
  proof (clarify)
    fix n s assume ns: "(n, s) \<in> set sd"
    then obtain t v where tv: "map_of ?types n = Some t" "serializable t" "(n, v) \<in> set ?attrs"
        "\<forall>h. serialize E h (kind t) v = Inr s"
      using sd(3) by fastforce
    from stab[OF tv(3) tv(1) tv(2)] obtain s0 v' where
      s0: "\<forall>h. serialize E h (kind t) v = Inr s0" "\<forall>h. deserialize E h (kind t) s0 True = Inr v'"
      and nr: "\<not> readonly t"
      by (auto simp: stable_def)
    have "s0 = s" using s0(1) tv(4) by (metis sum.inject(2))
    then show "\<exists>t v'. map_of ?types n = Some t \<and> \<not> readonly t \<and>
            (\<forall>h. deserialize E h (kind t) s True = Inr v')"
      using tv(1) nr s0(2) by blast
  qed
  have copy: "\<exists>acc.
               init_attributes E fuel c
                 (H @ [MappingValue \<lparr>mv_class = c, mv_flags = fl, mv_attributes = [],
                                      mv_model_objects = []\<rparr>]) (length H) sd True
               = (Inr (), H @ [MappingValue \<lparr>mv_class = c, mv_flags = fl, mv_attributes = acc,
                                              mv_model_objects = []\<rparr>]) \<and>
               (\<forall>H'. eq_attributes E H' ?types ?attrs acc = Inr True)" for H fl
  proof -
    let ?mv0 = "\<lparr>mv_class = c, mv_flags = fl, mv_attributes = [], mv_model_objects = []\<rparr>"
    let ?h0 = "H @ [MappingValue ?mv0]"
    let ?self = "length H"
    have l0: "lookup ?h0 ?self = Some (MappingValue ?mv0)" by (simp add: lookup_def)
    from init_attributes_exact[OF l0 _ dsd _ des fuel] obtain acc where
      run: "init_attributes E fuel c ?h0 ?self sd True
              = (Inr (), ?h0[?self := MappingValue (?mv0\<lparr>mv_attributes := acc\<rparr>)])"
           "\<forall>n. n \<notin> fst ` set sd \<longrightarrow> map_of acc n = map_of (mv_attributes ?mv0) n"
           "\<forall>(n, s) \<in> set sd. \<forall>t v'. map_of ?types n = Some t \<longrightarrow>
               deserialize E [] (kind t) s True = Inr v' \<longrightarrow> map_of acc n = Some v'"
      by auto
    have run': "init_attributes E fuel c ?h0 ?self sd True
              = (Inr (), H @ [MappingValue \<lparr>mv_class = c, mv_flags = fl, mv_attributes = acc,
                                              mv_model_objects = []\<rparr>])"
      using run(1) by simp
    have field: "\<exists>x. serialized E H' t ?attrs n = Inr x \<and> serialized E H' t acc n = Inr x"
      if nt: "(n, t) \<in> set ?types" and sz: "serializable t" for n t H'
    proof (cases "map_of ?attrs n")
      case None
      then have "n \<notin> fst ` set ?attrs" by (simp add: map_of_eq_None_iff)
      then have "n \<notin> fst ` set sd" using keys by blast
      then have "map_of acc n = None" using run(2) by simp
      then have same: "attribute_value acc n = attribute_value ?attrs n"
        using None by (simp add: attribute_value_def)
      have "field_stable E t None" using st nt sz None by fastforce
      then obtain s0 where "\<forall>h. serialize E h (kind t) VNone = Inr s0"
        by (auto simp: field_stable_def)
      then show ?thesis using same None by (simp add: serialized_def attribute_value_def)
    next
      case (Some v)
      then have inA: "(n, v) \<in> set ?attrs" by (rule map_of_SomeD)
      have t0: "map_of ?types n = Some t"
        using attribute_types_distinct[of c] nt by simp
      have av: "attribute_value ?attrs n = v" using Some by (simp add: attribute_value_def)
      have "stable E (kind t) v" using st nt sz Some by (fastforce simp: field_stable_def)
      then obtain s0 v' where
        s0: "\<forall>h. serialize E h (kind t) v = Inr s0" "\<forall>h. deserialize E h (kind t) s0 True = Inr v'"
            "\<forall>h. serialize E h (kind t) v' = Inr s0"
        by (auto simp: stable_def)
      obtain s1 where s1: "(n, s1) \<in> set sd" using sd(4) inA t0 sz by fastforce
      then obtain t1 v1 where t1: "map_of ?types n = Some t1" "serializable t1"
          "(n, v1) \<in> set ?attrs" "\<forall>h. serialize E h (kind t1) v1 = Inr s1"
        using sd(3) by fastforce
      have "v1 = v" using d t1(3) Some by simp
      have "t1 = t" using t1(1) t0 by simp
      have "s1 = s0" using t1(4) s0(1) \<open>v1 = v\<close> \<open>t1 = t\<close> by (metis sum.inject(2))
      have "map_of acc n = Some v'"
        using run(3) s1 t0 s0(2) \<open>s1 = s0\<close> by fastforce
      then have "attribute_value acc n = v'" by (simp add: attribute_value_def)
      then show ?thesis using s0(1,3) av by (simp add: serialized_def)
    qed
    have eq: "eq_attributes E H' ?types ?attrs acc = Inr True" for H'
    proof -
      have s1: "serializes E H' ?types ?attrs" and s2: "serializes E H' ?types acc"
        using field[of _ _ H'] unfolding serializes_def by blast+
      have al: "serialize_alike E H' ?types ?attrs acc"
        unfolding serialize_alike_def using field[of _ _ H'] refl by fastforce
      show ?thesis using eq_attributes_alike[OF s1 s2] al by simp
    qed
    show ?thesis using run' eq by blast
  qed
  show ?thesis using sd(1) dsd nokw copy by blast
qed

lemma mapping_round_trip:
  assumes m: "lookup h a = Some (MappingValue mv)" and ms: "mapping_stable E (kind A) mv"
    and refl: "\<forall>h x. py_eq E h x x"
    and fuel: "0 < fuel"
  shows "\<exists>sd h'. MappingAttribute_serialize E h A (VObj a) = Inr (VDict sd) \<and>
           MappingAttribute_deserialize E fuel A h (VDict sd) True = (Inr (VObj (length h)), h') \<and>
           mapping_values_equal E h' a (length h) = Inr True"
proof -
  let ?c = "kind A"
  let ?fl = "\<lparr>mutable = mutable A, serializable = serializable A,
              sticky = sticky A, readonly = readonly A\<rparr>"
  from mapping_copy[OF ms refl fuel] obtain sd where
    sd: "\<forall>H. serialize_data E H ?c (mv_attributes mv) = Inr sd" and dsd: "distinct (map fst sd)"
    and nokw: "\<forall>k \<in> fst ` set sd. k \<notin> set constructor_keywords"
    and copy: "\<forall>H fl. \<exists>acc.
               init_attributes E fuel ?c
                 (H @ [MappingValue \<lparr>mv_class = ?c, mv_flags = fl, mv_attributes = [],
                                      mv_model_objects = []\<rparr>]) (length H) sd True
               = (Inr (), H @ [MappingValue \<lparr>mv_class = ?c, mv_flags = fl, mv_attributes = acc,
                                              mv_model_objects = []\<rparr>]) \<and>
               (\<forall>H'. eq_attributes E H' (attribute_types ?c) (mv_attributes mv) acc = Inr True)"
    by blast
  from copy obtain acc where
    run: "init_attributes E fuel ?c
            (h @ [MappingValue \<lparr>mv_class = ?c, mv_flags = ?fl, mv_attributes = [],
                                 mv_model_objects = []\<rparr>]) (length h) sd True
          = (Inr (), h @ [MappingValue \<lparr>mv_class = ?c, mv_flags = ?fl, mv_attributes = acc,
                                         mv_model_objects = []\<rparr>])"
    and eq: "\<forall>H'. eq_attributes E H' (attribute_types ?c) (mv_attributes mv) acc = Inr True"
    by blast
  let ?h1 = "h @ [MappingValue \<lparr>mv_class = ?c, mv_flags = ?fl, mv_attributes = acc,
                                 mv_model_objects = []\<rparr>]"
  have ser: "MappingAttribute_serialize E h A (VObj a) = Inr (VDict sd)"
    using m sd by (simp add: MappingAttribute_serialize_def)
  have nm: "\<not> is_mapping_value h (VDict sd)" by (simp add: is_mapping_value_def)
  have "''validate'' \<notin> fst ` set sd" using nokw by (auto simp: constructor_keywords_def)
  then have nv: "map_of (get_attr_params A sd) ''validate'' = None"
    by (simp add: get_attr_params_fresh[OF dsd nokw] map_of_fresh)
  have deser: "MappingAttribute_deserialize E fuel A h (VDict sd) True = (Inr (VObj (length h)), ?h1)"
    unfolding MappingAttribute_deserialize_def
    using nm nv run by (simp add: Let_def init_fresh[OF dsd nokw])
  have alen: "a < length h" using m by (rule lookup_length)
  have la: "lookup ?h1 a = Some (MappingValue mv)"
    using alen m by (simp add: lookup_def nth_append)
  have lb: "lookup ?h1 (length h) = Some (MappingValue \<lparr>mv_class = ?c, mv_flags = ?fl,
               mv_attributes = acc, mv_model_objects = []\<rparr>)"
    by (simp add: lookup_def)
  have cls: "mv_class mv = ?c" using ms by (simp add: mapping_stable_def)
  have "mapping_values_equal E ?h1 a (length h) = Inr True"
    using la lb cls eq
    by (simp add: mapping_values_equal_def AttributeEqualityMixin_eq_def issubclass_refl)
  then show ?thesis using ser deser by blast
qed

lemma stable_kinds:
  "stable E KAttribute v"
  "stable E KTimestamp v"
  "(\<forall>a. v \<noteq> VObj a) \<Longrightarrow> stable E KBoolean v"
  "s \<in> set ms \<Longrightarrow> stable E (KEnum c ms) (VStr s)"
  "s \<in> set ms \<Longrightarrow> stable E (KEnum c ms) (VEnum c s)"
  unfolding stable_def
  by (auto simp: serialize_def deserialize_def Timestamp_serialize_def serialize_datetime_def
                 Timestamp_deserialize_def BooleanAttribute_serialize_def
                 BooleanAttribute_deserialize_def truthy_def EnumAttribute_serialize_def
                 EnumAttribute_deserialize_def split: val.splits)

lemma none_serializes:
  "k \<noteq> KGeometry \<Longrightarrow> \<exists>s. \<forall>h. serialize E h k VNone = Inr s"
  by (cases k)
     (auto simp: serialize_def Timestamp_serialize_def serialize_datetime_def
                 BooleanAttribute_serialize_def truthy_def EnumAttribute_serialize_def)


section \<open>The round trip of a list value\<close>

lemma init_item:
  assumes "distinct (map fst sd)" and "\<forall>k \<in> fst ` set sd. k \<notin> set constructor_keywords"
  shows "MappingAttribute_init E fuel c h ((''validate'', VBool True) # sd) =
     (case init_attributes E fuel c
             (h @ [MappingValue \<lparr>mv_class = c,
                     mv_flags = \<lparr>mutable = True, serializable = True, sticky = False,
                                 readonly = False\<rparr>,
                     mv_attributes = [], mv_model_objects = []\<rparr>]) (length h) sd True of
        (Inl e, h') \<Rightarrow> (Inl e, h')
      | (Inr u, h') \<Rightarrow> (Inr (length h), h'))"
proof -
  have k: "''mutable'' \<notin> fst ` set sd" "''serializable'' \<notin> fst ` set sd"
    "''sticky'' \<notin> fst ` set sd" "''readonly'' \<notin> fst ` set sd"
    "''doc'' \<notin> fst ` set sd" "''validate'' \<notin> fst ` set sd"
    using assms(2) by (auto simp: constructor_keywords_def)
  show ?thesis
    unfolding MappingAttribute_init_def
    using k by (simp add: kwargs_pop_def Let_def delete_fresh map_of_fresh truthy_def)
qed

lemma instantiate_item_copy:
  assumes l: "lookup H self = Some (ListValue lv)" and it: "lv_item_type lv = ItemMapping c"
    and d: "distinct (map fst sd)" and nokw: "\<forall>k \<in> fst ` set sd. k \<notin> set constructor_keywords"
    and run: "init_attributes E fuel c
                 (H @ [MappingValue \<lparr>mv_class = c,
                     mv_flags = \<lparr>mutable = True, serializable = True, sticky = False,
                                 readonly = False\<rparr>,
                     mv_attributes = [], mv_model_objects = []\<rparr>]) (length H) sd True
               = (Inr (), H @ [MappingValue \<lparr>mv_class = c,
                     mv_flags = \<lparr>mutable = True, serializable = True, sticky = False,
                                 readonly = False\<rparr>,
                     mv_attributes = acc, mv_model_objects = []\<rparr>])"
  shows "instantiate_item E fuel H self (VDict sd) True True
           = (Inr (VObj (length H)),
              H @ [MappingValue \<lparr>mv_class = c,
                     mv_flags = \<lparr>mutable = True, serializable = True, sticky = False,
                                 readonly = False\<rparr>,
                     mv_attributes = acc, mv_model_objects = [(self, None)]\<rparr>])"
proof -
  have "''validate'' \<notin> fst ` set sd" using nokw by (auto simp: constructor_keywords_def)
  then have nv: "map_of sd ''validate'' = None" by (rule map_of_fresh)
  have nm: "\<not> is_mapping_value H (VDict sd)" by (simp add: is_mapping_value_def)
  show ?thesis
    unfolding instantiate_item_def
    using l it nv nm run
    by (simp add: init_item[OF d nokw] value_add_model_object_def add_model_object_def lookup_def)
qed

lemma instantiate_items_copy:
  assumes "list_all2 (\<lambda>mv sd. distinct (map fst sd) \<and>
              (\<forall>k \<in> fst ` set sd. k \<notin> set constructor_keywords) \<and>
              (\<forall>H fl. \<exists>acc.
                 init_attributes E fuel c
                   (H @ [MappingValue \<lparr>mv_class = c, mv_flags = fl, mv_attributes = [],
                                        mv_model_objects = []\<rparr>]) (length H) sd True
                 = (Inr (), H @ [MappingValue \<lparr>mv_class = c, mv_flags = fl, mv_attributes = acc,
                                                mv_model_objects = []\<rparr>]) \<and>
                 (\<forall>H'. eq_attributes E H' (attribute_types c) (mv_attributes mv) acc = Inr True)))
            mvs sds"
    and "lookup H self = Some (ListValue lv)" and "lv_item_type lv = ItemMapping c"
  shows "\<exists>news. instantiate_items E fuel H self (map VDict sds) True
                   = (Inr (map VObj [length H ..< length H + length sds]),
                      H @ map MappingValue news) \<and>
           list_all2 (\<lambda>mv new. mv_class new = c \<and>
              (\<forall>H'. eq_attributes E H' (attribute_types c) (mv_attributes mv) (mv_attributes new)
                       = Inr True)) mvs news"
  using assms
proof (induction mvs sds arbitrary: H rule: list_all2_induct)
  case Nil
  show ?case by (rule exI[of _ "[]"]) simp
next
  case (Cons mv mvs sd sds)
  let ?fl = "\<lparr>mutable = True, serializable = True, sticky = False, readonly = False\<rparr>"
  have d: "distinct (map fst sd)" and nokw: "\<forall>k \<in> fst ` set sd. k \<notin> set constructor_keywords"
    using Cons.hyps(1) by blast+
  obtain acc where
    run: "init_attributes E fuel c
            (H @ [MappingValue \<lparr>mv_class = c, mv_flags = ?fl, mv_attributes = [],
                                 mv_model_objects = []\<rparr>]) (length H) sd True
          = (Inr (), H @ [MappingValue \<lparr>mv_class = c, mv_flags = ?fl, mv_attributes = acc,
                                         mv_model_objects = []\<rparr>])"
    and eq: "\<forall>H'. eq_attributes E H' (attribute_types c) (mv_attributes mv) acc = Inr True"
    using Cons.hyps(1) by blast
  let ?new = "\<lparr>mv_class = c, mv_flags = ?fl, mv_attributes = acc,
               mv_model_objects = [(self, None)]\<rparr>"
  let ?H1 = "H @ [MappingValue ?new]"
  have one: "instantiate_item E fuel H self (VDict sd) True True = (Inr (VObj (length H)), ?H1)"
    using instantiate_item_copy[OF Cons.prems(1,2) d nokw run] .
  have len: "self < length H" using Cons.prems(1) by (rule lookup_length)
  have l1: "lookup ?H1 self = Some (ListValue lv)"
    using Cons.prems(1) len by (simp add: lookup_def nth_append)
  from Cons.IH[OF l1 Cons.prems(2)] obtain news where
    rest: "instantiate_items E fuel ?H1 self (map VDict sds) True
             = (Inr (map VObj [length ?H1 ..< length ?H1 + length sds]),
                ?H1 @ map MappingValue news)"
    and all: "list_all2 (\<lambda>mv new. mv_class new = c \<and>
              (\<forall>H'. eq_attributes E H' (attribute_types c) (mv_attributes mv) (mv_attributes new)
                       = Inr True)) mvs news"
    by blast
  have upt: "[length H ..< length H + length (sd # sds)]
               = length H # [length ?H1 ..< length ?H1 + length sds]"
    by (simp add: upt_rec)
  have "instantiate_items E fuel H self (map VDict (sd # sds)) True
          = (Inr (map VObj [length H ..< length H + length (sd # sds)]),
             H @ map MappingValue (?new # news))"
    unfolding upt using one rest by simp
  moreover have "list_all2 (\<lambda>mv new. mv_class new = c \<and>
              (\<forall>H'. eq_attributes E H' (attribute_types c) (mv_attributes mv) (mv_attributes new)
                       = Inr True)) (mv # mvs) (?new # news)"
    using all eq by simp
  ultimately show ?case by blast
qed

lemma serialize_items_mapping:
  assumes "kind A = ItemMapping c"
    and "list_all2 (\<lambda>x sd. \<exists>a mv. x = VObj a \<and> lookup h a = Some (MappingValue mv) \<and>
             serialize_data E h c (mv_attributes mv) = Inr sd) xs sds"
  shows "serialize_items E h A xs = Inr (map VDict sds)"
  using assms(2,1)
  by (induction xs sds rule: list_all2_induct)
     (auto simp: serialize_item_def MappingAttribute_serialize_def item_attribute_def)

lemma eq_zip_all:
  "list_all2 (\<lambda>x y. item_ne E H x y = Inr False) xs ys \<Longrightarrow> eq_zip E H xs ys = Inr True"
  by (induction xs ys rule: list_all2_induct) auto

lemma instantiate_items_plain:
  "lookup H self = Some (ListValue lv) \<Longrightarrow> lv_item_type lv = ItemPlain k \<Longrightarrow>
   instantiate_items E fuel H self ys validate = (Inr ys, H)"
  by (induction ys) (auto simp: instantiate_item_def)

lemma serialize_items_plain:
  "list_all2 (\<lambda>x s. serialize E h k x = Inr s) xs ss \<Longrightarrow> kind A = ItemPlain k \<Longrightarrow>
   serialize_items E h A xs = Inr ss"
  by (induction xs ss rule: list_all2_induct) (auto simp: serialize_item_def)

lemma list_round_trip_mapping:
  assumes l: "lookup h l = Some (ListValue lv)" and k: "kind L = ItemMapping c"
    and items: "\<forall>x \<in> set (lv_items lv).
                  \<exists>a mv. x = VObj a \<and> lookup h a = Some (MappingValue mv) \<and> mapping_stable E c mv"
    and refl: "\<forall>h x. py_eq E h x x" and fuel: "0 < fuel"
  shows "\<exists>ss h'. ListAttribute_serialize E h L (VObj l) = Inr (VList ss) \<and>
           ListAttribute_deserialize E fuel L h (VList ss) True = (Inr (VObj (length h)), h') \<and>
           ListAttribute_eq E h' l (VObj (length h)) = Inr True"
proof -
  let ?xs = "lv_items lv"
  let ?n = "length h"
  define Q where "Q = (\<lambda>(mv::mapping_value) sd. distinct (map fst sd) \<and>
              (\<forall>k \<in> fst ` set sd. k \<notin> set constructor_keywords) \<and>
              (\<forall>H fl. \<exists>acc.
                 init_attributes E fuel c
                   (H @ [MappingValue \<lparr>mv_class = c, mv_flags = fl, mv_attributes = [],
                                        mv_model_objects = []\<rparr>]) (length H) sd True
                 = (Inr (), H @ [MappingValue \<lparr>mv_class = c, mv_flags = fl, mv_attributes = acc,
                                                mv_model_objects = []\<rparr>]) \<and>
                 (\<forall>H'. eq_attributes E H' (attribute_types c) (mv_attributes mv) acc = Inr True)))"
  have "\<forall>x \<in> set ?xs. \<exists>p. x = VObj (fst p) \<and> lookup h (fst p) = Some (MappingValue (fst (snd p))) \<and>
           mv_class (fst (snd p)) = c \<and>
           (\<forall>H. serialize_data E H c (mv_attributes (fst (snd p))) = Inr (snd (snd p))) \<and>
           Q (fst (snd p)) (snd (snd p))"
  proof
    fix x assume "x \<in> set ?xs"
    then obtain a mv where x: "x = VObj a" "lookup h a = Some (MappingValue mv)"
        and ms: "mapping_stable E c mv"
      using items by blast
    from mapping_copy[OF ms refl fuel] obtain sd where
      sd: "\<forall>H. serialize_data E H c (mv_attributes mv) = Inr sd" "Q mv sd"
      unfolding Q_def by blast
    have "mv_class mv = c" using ms by (simp add: mapping_stable_def)
    then show "\<exists>p. x = VObj (fst p) \<and> lookup h (fst p) = Some (MappingValue (fst (snd p))) \<and>
           mv_class (fst (snd p)) = c \<and>
           (\<forall>H. serialize_data E H c (mv_attributes (fst (snd p))) = Inr (snd (snd p))) \<and>
           Q (fst (snd p)) (snd (snd p))"
      using x sd by (intro exI[of _ "(a, mv, sd)"]) simp
  qed
  then have "\<exists>f. \<forall>x \<in> set ?xs. x = VObj (fst (f x)) \<and>
           lookup h (fst (f x)) = Some (MappingValue (fst (snd (f x)))) \<and>
           mv_class (fst (snd (f x))) = c \<and>
           (\<forall>H. serialize_data E H c (mv_attributes (fst (snd (f x)))) = Inr (snd (snd (f x)))) \<and>
           Q (fst (snd (f x))) (snd (snd (f x)))"
    by (rule bchoice)
  then obtain f where f: "\<forall>x \<in> set ?xs. x = VObj (fst (f x)) \<and>
           lookup h (fst (f x)) = Some (MappingValue (fst (snd (f x)))) \<and>
           mv_class (fst (snd (f x))) = c \<and>
           (\<forall>H. serialize_data E H c (mv_attributes (fst (snd (f x)))) = Inr (snd (snd (f x)))) \<and>
           Q (fst (snd (f x))) (snd (snd (f x)))"
    ..
  define ad where "ad = (\<lambda>x. fst (f x))"
  define M where "M = (\<lambda>x. fst (snd (f x)))"
  define S where "S = (\<lambda>x. snd (snd (f x)))"
  have fx: "x = VObj (ad x)" "lookup h (ad x) = Some (MappingValue (M x))" "mv_class (M x) = c"
      "serialize_data E H c (mv_attributes (M x)) = Inr (S x)" "Q (M x) (S x)"
    if "x \<in> set ?xs" for x H
    using f that unfolding ad_def M_def S_def by blast+
  let ?sds = "map S ?xs"
  let ?mvs = "map M ?xs"
  have "list_all2 (\<lambda>x sd. \<exists>a mv. x = VObj a \<and> lookup h a = Some (MappingValue mv) \<and>
             serialize_data E h c (mv_attributes mv) = Inr sd) ?xs ?sds"
    unfolding list.rel_map list_all2_same
  proof
    fix x assume xin: "x \<in> set ?xs"
    show "\<exists>a mv. x = VObj a \<and> lookup h a = Some (MappingValue mv) \<and>
             serialize_data E h c (mv_attributes mv) = Inr (S x)"
      using fx(1,2,4)[OF xin] by blast
  qed
  then have si: "serialize_items E h L ?xs = Inr (map VDict ?sds)"
    by (rule serialize_items_mapping[OF k])
  have ser: "ListAttribute_serialize E h L (VObj l) = Inr (VList (map VDict ?sds))"
    using l si by (simp add: ListAttribute_serialize_def iterate_def)
  let ?L0 = "\<lparr>lv_item_type = kind L,
              lv_flags = \<lparr>mutable = mutable L, serializable = serializable L,
                          sticky = sticky L, readonly = readonly L\<rparr>,
              lv_items = [], lv_model_objects = []\<rparr>"
  let ?h0 = "h @ [ListValue ?L0]"
  have l0: "lookup ?h0 ?n = Some (ListValue ?L0)" by (simp add: lookup_def)
  have it0: "lv_item_type ?L0 = ItemMapping c" using k by simp
  have pairs: "list_all2 Q ?mvs ?sds"
    unfolding list.rel_map list_all2_same using fx(5) by blast
  from instantiate_items_copy[OF pairs[unfolded Q_def] l0 it0] obtain news where
    inst: "instantiate_items E fuel ?h0 ?n (map VDict ?sds) True
             = (Inr (map VObj [length ?h0 ..< length ?h0 + length ?sds]),
                ?h0 @ map MappingValue news)"
    and all: "list_all2 (\<lambda>mv new. mv_class new = c \<and>
              (\<forall>H'. eq_attributes E H' (attribute_types c) (mv_attributes mv) (mv_attributes new)
                       = Inr True)) ?mvs news"
    by blast
  define its where "its = map VObj [Suc ?n ..< Suc ?n + length ?xs]"
  have its_len: "length its = length ?xs" by (simp add: its_def del: upt_Suc)
  have its_nth: "its ! i = VObj (Suc ?n + i)" if "i < length ?xs" for i
  proof -
    have "i < length [Suc ?n ..< Suc ?n + length ?xs]" using that by (simp del: upt_Suc)
    then have "its ! i = VObj ([Suc ?n ..< Suc ?n + length ?xs] ! i)"
      unfolding its_def by (rule nth_map)
    moreover have "[Suc ?n ..< Suc ?n + length ?xs] ! i = Suc ?n + i"
      using that by (intro nth_upt) simp
    ultimately show ?thesis by (simp del: upt_Suc)
  qed
  have inst': "instantiate_items E fuel ?h0 ?n (map VDict ?sds) True
             = (Inr its, ?h0 @ map MappingValue news)"
    using inst by (simp add: its_def del: upt_Suc)
  let ?L1 = "?L0\<lparr>lv_items := its\<rparr>"
  let ?h' = "(?h0 @ map MappingValue news)[?n := ListValue ?L1]"
  have lh: "lookup (?h0 @ map MappingValue news) ?n = Some (ListValue ?L0)"
    by (simp add: lookup_def nth_append)
  have deser: "ListAttribute_deserialize E fuel L h (VList (map VDict ?sds)) True
                 = (Inr (VObj ?n), ?h')"
    unfolding ListAttribute_deserialize_def ListAttribute_init_def
    using inst' lh by (simp add: is_list_value_def Let_def set_items_def)
  have ln: "l < ?n" using l by (rule lookup_length)
  have la: "lookup ?h' l = Some (ListValue lv)"
    using l ln by (simp add: lookup_def nth_append)
  have lb: "lookup ?h' ?n = Some (ListValue ?L1)"
    by (simp add: lookup_def nth_append)
  have nl: "length news = length ?xs"
    using all by (auto dest: list_all2_lengthD)
  have item: "item_ne E ?h' (?xs ! i) (its ! i) = Inr False" if i: "i < length ?xs" for i
  proof -
    let ?x = "?xs ! i"
    have xin: "?x \<in> set ?xs" using i by simp
    have a: "ad ?x < ?n" using fx(2)[OF xin] by (rule lookup_length)
    have lx: "lookup ?h' (ad ?x) = Some (MappingValue (M ?x))"
      using fx(2)[OF xin] a by (simp add: lookup_def nth_append)
    have ly: "lookup ?h' (Suc ?n + i) = Some (MappingValue (news ! i))"
      using i nl by (simp add: lookup_def nth_append)
    have "mv_class (news ! i) = c \<and>
          (\<forall>H'. eq_attributes E H' (attribute_types c) (mv_attributes (?mvs ! i))
                   (mv_attributes (news ! i)) = Inr True)"
      using list_all2_nthD[OF all, of i] i by simp
    then have cn: "mv_class (news ! i) = c"
      and eq: "eq_attributes E ?h' (attribute_types c) (mv_attributes (M ?x))
                 (mv_attributes (news ! i)) = Inr True"
      using i by simp_all
    have me: "mapping_values_equal E ?h' (ad ?x) (Suc ?n + i) = Inr True"
      using lx ly cn fx(3)[OF xin] eq
      by (simp add: mapping_values_equal_def AttributeEqualityMixin_eq_def issubclass_refl)
    have "item_ne E ?h' (VObj (ad ?x)) (VObj (Suc ?n + i)) = Inr False"
      using lx ly me by (simp add: item_ne_def is_mapping_value_def)
    then show ?thesis using fx(1)[OF xin] its_nth[OF i] by simp
  qed
  have "list_all2 (\<lambda>x y. item_ne E ?h' x y = Inr False) ?xs its"
    using item its_len by (simp add: list_all2_conv_all_nth)
  then have z: "eq_zip E ?h' ?xs its = Inr True" by (rule eq_zip_all)
  have "ListAttribute_eq E ?h' l (VObj ?n) = Inr True"
    using la lb ln z its_len by (simp add: ListAttribute_eq_def)
  then show ?thesis using ser deser by blast
qed

lemma list_round_trip_plain:
  assumes l: "lookup h l = Some (ListValue lv)" and k: "kind L = ItemPlain k"
    and items: "\<forall>x \<in> set (lv_items lv).
                  (\<forall>a. x \<noteq> VObj a) \<and>
                  (\<exists>s. (\<forall>h. serialize E h k x = Inr s) \<and> (\<forall>h. py_eq E h x s))"
  shows "\<exists>ss h'. ListAttribute_serialize E h L (VObj l) = Inr (VList ss) \<and>
           ListAttribute_deserialize E fuel L h (VList ss) True = (Inr (VObj (length h)), h') \<and>
           ListAttribute_eq E h' l (VObj (length h)) = Inr True"
proof -
  let ?xs = "lv_items lv"
  let ?n = "length h"
  have "\<forall>x \<in> set ?xs. \<exists>s. (\<forall>a. x \<noteq> VObj a) \<and> (\<forall>h. serialize E h k x = Inr s) \<and>
          (\<forall>h. py_eq E h x s)"
    using items by simp
  then have "\<exists>g. \<forall>x \<in> set ?xs. (\<forall>a. x \<noteq> VObj a) \<and> (\<forall>h. serialize E h k x = Inr (g x)) \<and>
          (\<forall>h. py_eq E h x (g x))"
    by (rule bchoice)
  then obtain g where g: "\<forall>x \<in> set ?xs. (\<forall>a. x \<noteq> VObj a) \<and>
          (\<forall>h. serialize E h k x = Inr (g x)) \<and> (\<forall>h. py_eq E h x (g x))"
    ..
  define ss where "ss = map g ?xs"
  have ss_len: "length ss = length ?xs" by (simp add: ss_def)
  have "list_all2 (\<lambda>x s. serialize E h k x = Inr s) ?xs ss"
    unfolding ss_def list.rel_map list_all2_same using g by blast
  then have si: "serialize_items E h L ?xs = Inr ss"
    using k by (rule serialize_items_plain)
  have ser: "ListAttribute_serialize E h L (VObj l) = Inr (VList ss)"
    using l si by (simp add: ListAttribute_serialize_def iterate_def)
  let ?L0 = "\<lparr>lv_item_type = kind L,
              lv_flags = \<lparr>mutable = mutable L, serializable = serializable L,
                          sticky = sticky L, readonly = readonly L\<rparr>,
              lv_items = [], lv_model_objects = []\<rparr>"
  let ?h0 = "h @ [ListValue ?L0]"
  have l0: "lookup ?h0 ?n = Some (ListValue ?L0)" by (simp add: lookup_def)
  have it0: "lv_item_type ?L0 = ItemPlain k" using k by simp
  have inst: "instantiate_items E fuel ?h0 ?n ss True = (Inr ss, ?h0)"
    using l0 it0 by (rule instantiate_items_plain)
  let ?L1 = "?L0\<lparr>lv_items := ss\<rparr>"
  let ?h' = "?h0[?n := ListValue ?L1]"
  have deser: "ListAttribute_deserialize E fuel L h (VList ss) True = (Inr (VObj ?n), ?h')"
    unfolding ListAttribute_deserialize_def ListAttribute_init_def
    using inst l0 by (simp add: is_list_value_def Let_def set_items_def)
  have ln: "l < ?n" using l by (rule lookup_length)
  have la: "lookup ?h' l = Some (ListValue lv)"
    using l ln by (simp add: lookup_def nth_append)
  have lb: "lookup ?h' ?n = Some (ListValue ?L1)"
    by (simp add: lookup_def)
  have item: "item_ne E ?h' (?xs ! i) (ss ! i) = Inr False" if i: "i < length ?xs" for i
  proof -
    let ?x = "?xs ! i"
    have xin: "?x \<in> set ?xs" using i by simp
    have no: "\<forall>a. ?x \<noteq> VObj a" and eq: "py_eq E ?h' ?x (g ?x)" using g xin by blast+
    have "ss ! i = g ?x" using i by (simp add: ss_def)
    then show ?thesis using no eq by (cases ?x) (simp_all add: item_ne_def)
  qed
  have "list_all2 (\<lambda>x y. item_ne E ?h' x y = Inr False) ?xs ss"
    using item ss_len by (simp add: list_all2_conv_all_nth)
  then have z: "eq_zip E ?h' ?xs ss = Inr True" by (rule eq_zip_all)
  have "ListAttribute_eq E ?h' l (VObj ?n) = Inr True"
    using la lb ln z ss_len by (simp add: ListAttribute_eq_def)
  then show ?thesis using ser deser by blast
qed

lemma list_round_trip:
  assumes l: "lookup h l = Some (ListValue lv)"
    and items: "\<forall>x \<in> set (lv_items lv). item_stable E h (kind L) x"
    and refl: "\<forall>h x. py_eq E h x x" and fuel: "0 < fuel"
  shows "\<exists>ss h'. ListAttribute_serialize E h L (VObj l) = Inr (VList ss) \<and>
           ListAttribute_deserialize E fuel L h (VList ss) True = (Inr (VObj (length h)), h') \<and>
           ListAttribute_eq E h' l (VObj (length h)) = Inr True"
proof (cases "kind L")
  case (ItemMapping c)
  have "\<forall>x \<in> set (lv_items lv).
          \<exists>a mv. x = VObj a \<and> lookup h a = Some (MappingValue mv) \<and> mapping_stable E c mv"
    using items ItemMapping by (simp add: item_stable_def)
  then show ?thesis by (rule list_round_trip_mapping[OF l ItemMapping _ refl fuel])
next
  case (ItemPlain k)
  have "\<forall>x \<in> set (lv_items lv).
                  (\<forall>a. x \<noteq> VObj a) \<and>
                  (\<exists>s. (\<forall>h. serialize E h k x = Inr s) \<and> (\<forall>h. py_eq E h x s))"
    using items ItemPlain by (simp add: item_stable_def)
  then show ?thesis by (rule list_round_trip_plain[OF l ItemPlain])
qed


section \<open>Round trips\<close>

text \<open>C6, as the claim states it, fails for Timestamp on a value that has no
  precision to lose: the datetime 2021-01-01 00:00:00 UTC serializes to the string
  "2021-01-01T00:00:00+00:00"; deserializing that string with validate true returns
  the string, which is not the datetime, and with validate false raises
  AttributeValidationError, because the string does not end in the designator Z.\<close>

theorem C6_timestamp_round_trip_fails:
  "round_trip std [] KTimestamp (VDateTime new_year_2021) True
     = Inr (VStr ''2021-01-01T00:00:00+00:00'') \<and>
   \<not> py_eq std [] (VStr ''2021-01-01T00:00:00+00:00'') (VDateTime new_year_2021) \<and>
   round_trip std [] KTimestamp (VDateTime new_year_2021) False = Inl AttributeValidationError"
  by (intro conjI; code_simp)

text \<open>C6 (amended). For the base Attribute and every value, for EnumAttribute and
  the string value of every member, for BooleanAttribute and every boolean, and for
  Timestamp and None, \<open>deserialize(serialize(v))\<close> returns \<open>v\<close>, whether validating or
  not; an enum member itself comes back as its string value. For GeometryAttribute it
  returns \<open>v\<close> whenever the two shapely helpers invert each other on \<open>v\<close>. For Timestamp
  and a datetime \<open>v\<close>, \<open>serialize\<close> gives the ISO-format string of \<open>v\<close> and \<open>deserialize\<close>
  with validate true returns that string, not \<open>v\<close>. For MappingAttribute and a mapping
  value \<open>m\<close> of the descriptor's class, whose stored attributes are declared and not
  named like a keyword of the constructor, and whose serializable attributes are, where
  they have a value, not readonly and stable (every value of a plain or Timestamp
  attribute is, every value of a BooleanAttribute that is not an object, every member
  value of an EnumAttribute), \<open>deserialize(serialize(m))\<close>, validating, makes a new
  instance that is equal to \<open>m\<close> in the sense of AttributeEqualityMixin. For
  ListAttribute and a list value of the descriptor's item type, whose items are such
  mapping values (under a mapping class) or values that are no objects and equal their
  serialized form (under a plain attribute), \<open>deserialize(serialize(l))\<close>, validating,
  makes a new list that is equal to \<open>l\<close> in the sense of \<open>ListAttribute.__eq__\<close>. The
  last two suppose that \<open>==\<close> holds between every value and itself.\<close>

theorem C6_round_trip:
  "round_trip E h KAttribute v validate = Inr v \<and>
   (s \<in> set members \<longrightarrow>
      round_trip E h (KEnum enum_cls members) (VStr s) validate = Inr (VStr s) \<and>
      round_trip E h (KEnum enum_cls members) (VEnum enum_cls s) validate = Inr (VStr s)) \<and>
   round_trip E h KBoolean (VBool b) validate = Inr (VBool b) \<and>
   round_trip E h KTimestamp VNone validate = Inr VNone \<and>
   round_trip E h KTimestamp (VDateTime d) True = Inr (VStr (isoformat E d)) \<and>
   (shapely_to_geojson E v = Inr g \<and> g \<noteq> VNone \<and> geometry_like_to_shapely E g = Inr v \<longrightarrow>
      round_trip E h KGeometry v validate = Inr v) \<and>
   (lookup h a = Some (MappingValue mv) \<and> mv_class mv = kind A \<and>
    distinct (map fst (mv_attributes mv)) \<and>
    (\<forall>n \<in> fst ` set (mv_attributes mv).
        n \<notin> set constructor_keywords \<and> map_of (attribute_types (kind A)) n \<noteq> None) \<and>
    (\<forall>(n, t) \<in> set (attribute_types (kind A)).
        serializable t \<longrightarrow> field_stable E t (map_of (mv_attributes mv) n)) \<and>
    (\<forall>h x. py_eq E h x x) \<and> 0 < fuel \<longrightarrow>
      (\<exists>sd h'. MappingAttribute_serialize E h A (VObj a) = Inr (VDict sd) \<and>
          MappingAttribute_deserialize E fuel A h (VDict sd) True = (Inr (VObj (length h)), h') \<and>
          mapping_values_equal E h' a (length h) = Inr True)) \<and>
   (lookup h l = Some (ListValue lv) \<and> lv_item_type lv = kind L \<and>
    (\<forall>x \<in> set (lv_items lv). item_stable E h (kind L) x) \<and>
    (\<forall>h x. py_eq E h x x) \<and> 0 < fuel \<longrightarrow>
      (\<exists>ss h'. ListAttribute_serialize E h L (VObj l) = Inr (VList ss) \<and>
          ListAttribute_deserialize E fuel L h (VList ss) True = (Inr (VObj (length h)), h') \<and>
          ListAttribute_eq E h' l (VObj (length h)) = Inr True)) \<and>
   stable E KAttribute v \<and> stable E KTimestamp v \<and>
   ((\<forall>x. v \<noteq> VObj x) \<longrightarrow> stable E KBoolean v) \<and>
   (s \<in> set members \<longrightarrow> stable E (KEnum enum_cls members) (VStr s)) \<and>
   (k \<noteq> KGeometry \<longrightarrow> (\<exists>sn. \<forall>h. serialize E h k VNone = Inr sn))"
proof -
  have plain: "round_trip E h KAttribute v validate = Inr v"
    "s \<in> set members \<longrightarrow>
      round_trip E h (KEnum enum_cls members) (VStr s) validate = Inr (VStr s) \<and>
      round_trip E h (KEnum enum_cls members) (VEnum enum_cls s) validate = Inr (VStr s)"
    "round_trip E h KBoolean (VBool b) validate = Inr (VBool b)"
    "round_trip E h KTimestamp VNone validate = Inr VNone"
    "round_trip E h KTimestamp (VDateTime d) True = Inr (VStr (isoformat E d))"
    by (simp_all add: round_trip_def serialize_def deserialize_def EnumAttribute_serialize_def
                EnumAttribute_deserialize_def BooleanAttribute_serialize_def
                BooleanAttribute_deserialize_def truthy_def Timestamp_serialize_def
                serialize_datetime_def Timestamp_deserialize_def)
  have geometry: "shapely_to_geojson E v = Inr g \<and> g \<noteq> VNone \<and>
      geometry_like_to_shapely E g = Inr v \<longrightarrow> round_trip E h KGeometry v validate = Inr v"
    by (simp add: round_trip_def serialize_def deserialize_def GeometryAttribute_deserialize_def)
  have mapping: "lookup h a = Some (MappingValue mv) \<and> mv_class mv = kind A \<and>
    distinct (map fst (mv_attributes mv)) \<and>
    (\<forall>n \<in> fst ` set (mv_attributes mv).
        n \<notin> set constructor_keywords \<and> map_of (attribute_types (kind A)) n \<noteq> None) \<and>
    (\<forall>(n, t) \<in> set (attribute_types (kind A)).
        serializable t \<longrightarrow> field_stable E t (map_of (mv_attributes mv) n)) \<and>
    (\<forall>h x. py_eq E h x x) \<and> 0 < fuel \<longrightarrow>
      (\<exists>sd h'. MappingAttribute_serialize E h A (VObj a) = Inr (VDict sd) \<and>
          MappingAttribute_deserialize E fuel A h (VDict sd) True = (Inr (VObj (length h)), h') \<and>
          mapping_values_equal E h' a (length h) = Inr True)"
    using mapping_round_trip[where h = h and a = a and mv = mv and A = A and E = E and fuel = fuel]
    unfolding mapping_stable_def by blast
  have lists: "lookup h l = Some (ListValue lv) \<and> lv_item_type lv = kind L \<and>
    (\<forall>x \<in> set (lv_items lv). item_stable E h (kind L) x) \<and>
    (\<forall>h x. py_eq E h x x) \<and> 0 < fuel \<longrightarrow>
      (\<exists>ss h'. ListAttribute_serialize E h L (VObj l) = Inr (VList ss) \<and>
          ListAttribute_deserialize E fuel L h (VList ss) True = (Inr (VObj (length h)), h') \<and>
          ListAttribute_eq E h' l (VObj (length h)) = Inr True)"
    using list_round_trip[where h = h and l = l and lv = lv and L = L and E = E and fuel = fuel]
    by blast
  have st: "stable E KAttribute v" "stable E KTimestamp v"
    "(\<forall>x. v \<noteq> VObj x) \<longrightarrow> stable E KBoolean v"
    "s \<in> set members \<longrightarrow> stable E (KEnum enum_cls members) (VStr s)"
    "k \<noteq> KGeometry \<longrightarrow> (\<exists>sn. \<forall>h. serialize E h k VNone = Inr sn)"
    using stable_kinds(1-4) none_serializes by blast+
  from plain geometry mapping lists st show ?thesis by blast
qed

theorem C6_round_trip_witness:
  "''meters'' \<in> set [''meters'', ''degrees''] \<and>
   round_trip std [] (KEnum ''ResolutionUnit'' [''meters'', ''degrees'']) (VStr ''meters'') True
     = Inr (VStr ''meters'') \<and>
   round_trip std [] (KEnum ''ResolutionUnit'' [''meters'', ''degrees''])
       (VEnum ''ResolutionUnit'' ''meters'') True
     = Inr (VStr ''meters'') \<and>
   round_trip std [] KBoolean (VBool True) True = Inr (VBool True) \<and>
   round_trip std [] KTimestamp (VDateTime new_year_2021) True
     = Inr (VStr ''2021-01-01T00:00:00+00:00'') \<and>
   round_trip std [] KGeometry (VDict [(''type'', VStr ''Point'')]) True
     = Inr (VDict [(''type'', VStr ''Point'')]) \<and>
   lookup files_heap 0 = Some (MappingValue file_a) \<and>
   mv_class file_a = kind file_descriptor \<and>
   distinct (map fst (mv_attributes file_a)) \<and>
   MappingAttribute_serialize std files_heap file_descriptor (VObj 0)
     = Inr (VDict [(''href'', VStr ''gs://a'')]) \<and>
   fst (MappingAttribute_deserialize std 1 file_descriptor files_heap
          (VDict [(''href'', VStr ''gs://a'')]) True) = Inr (VObj 3) \<and>
   (\<exists>sd h'. MappingAttribute_serialize std files_heap file_descriptor (VObj 0) = Inr (VDict sd) \<and>
       MappingAttribute_deserialize std 1 file_descriptor files_heap (VDict sd) True
         = (Inr (VObj (length files_heap)), h') \<and>
       mapping_values_equal std h' 0 (length files_heap) = Inr True) \<and>
   lookup two_files_heap 0 = Some (ListValue two_files) \<and>
   lv_item_type two_files = kind files_descriptor \<and>
   ListAttribute_serialize std two_files_heap files_descriptor (VObj 0)
     = Inr (VList [VDict [(''href'', VStr ''gs://a'')],
                   VDict [(''href'', VStr ''gs://b''), (''size_bytes'', VInt 3)]]) \<and>
   (\<exists>ss h'. ListAttribute_serialize std two_files_heap files_descriptor (VObj 0) = Inr (VList ss) \<and>
       ListAttribute_deserialize std 1 files_descriptor two_files_heap (VList ss) True
         = (Inr (VObj (length two_files_heap)), h') \<and>
       ListAttribute_eq std h' 0 (VObj (length two_files_heap)) = Inr True) \<and>
   (\<exists>ss h'. ListAttribute_serialize std [ListValue two_strings] strings_descriptor (VObj 0)
         = Inr (VList ss) \<and>
       ListAttribute_deserialize std 1 strings_descriptor [ListValue two_strings] (VList ss) True
         = (Inr (VObj (length [ListValue two_strings])), h') \<and>
       ListAttribute_eq std h' 0 (VObj (length [ListValue two_strings])) = Inr True)"
proof -
  have i: "isoformat std new_year_2021 = ''2021-01-01T00:00:00+00:00''"
    by code_simp
  have geo: "shapely_to_geojson std (VDict [(''type'', VStr ''Point'')])
               = Inr (VDict [(''type'', VStr ''Point'')])"
    "geometry_like_to_shapely std (VDict [(''type'', VStr ''Point'')])
               = Inr (VDict [(''type'', VStr ''Point'')])"
    by (simp_all add: std_def same_value_def accept_mapping_def)
  have l: "lookup files_heap 0 = Some (MappingValue file_a)"
    by (simp add: lookup_def files_heap_def)
  have c: "mv_class file_a = kind file_descriptor"
    by (simp add: file_a_def file_descriptor_def)
  have d: "distinct (map fst (mv_attributes file_a))"
    by (simp add: file_a_def)
  have kf: "kind file_descriptor = File" by (simp add: file_descriptor_def)
  have kw: "\<forall>n \<in> fst ` set (mv_attributes file_a).
        n \<notin> set constructor_keywords \<and> map_of (attribute_types (kind file_descriptor)) n \<noteq> None"
    by (simp add: file_a_def constructor_keywords_def kf attribute_types_File)
  have fs: "\<forall>(n, t) \<in> set (attribute_types (kind file_descriptor)).
        serializable t \<longrightarrow> field_stable std t (map_of (mv_attributes file_a) n)"
    using stable_kinds(1) none_serializes[where k = KAttribute and E = std]
    by (simp add: kf attribute_types_File file_a_def field_stable_def default_attribute_def)
  have r: "\<forall>h x. py_eq std h x x" by (simp add: std_def val_eq_def)
  have e: "MappingAttribute_serialize std files_heap file_descriptor (VObj 0)
     = Inr (VDict [(''href'', VStr ''gs://a'')])"
    "fst (MappingAttribute_deserialize std 1 file_descriptor files_heap
          (VDict [(''href'', VStr ''gs://a'')]) True) = Inr (VObj 3)"
    "ListAttribute_serialize std two_files_heap files_descriptor (VObj 0)
     = Inr (VList [VDict [(''href'', VStr ''gs://a'')],
                   VDict [(''href'', VStr ''gs://b''), (''size_bytes'', VInt 3)]])"
    by code_simp+
  have ll: "lookup two_files_heap 0 = Some (ListValue two_files)"
    by (simp add: lookup_def two_files_heap_def)
  have lk: "lv_item_type two_files = kind files_descriptor"
    by (simp add: two_files_def files_descriptor_def)
  have ms: "mapping_stable std File (file_a\<lparr>mv_model_objects := [(0, None)]\<rparr>)"
    "mapping_stable std File file_b"
    using stable_kinds(1) none_serializes[where k = KAttribute and E = std]
    by (simp_all add: mapping_stable_def attribute_types_File file_a_def file_b_def
          field_stable_def default_attribute_def constructor_keywords_def)
  have li: "\<forall>x \<in> set (lv_items two_files). item_stable std two_files_heap (kind files_descriptor) x"
    using ms by (simp add: two_files_def files_descriptor_def item_stable_def two_files_heap_def
                   lookup_def)
  have sl: "lookup [ListValue two_strings] 0 = Some (ListValue two_strings)"
    by (simp add: lookup_def)
  have sk: "lv_item_type two_strings = kind strings_descriptor"
    by (simp add: two_strings_def strings_descriptor_def)
  have si: "\<forall>x \<in> set (lv_items two_strings).
              item_stable std [ListValue two_strings] (kind strings_descriptor) x"
    by (simp add: two_strings_def strings_descriptor_def item_stable_def serialize_def std_def
          val_eq_def)
  have m1: "\<exists>sd h'. MappingAttribute_serialize std files_heap file_descriptor (VObj 0) = Inr (VDict sd) \<and>
       MappingAttribute_deserialize std 1 file_descriptor files_heap (VDict sd) True
         = (Inr (VObj (length files_heap)), h') \<and>
       mapping_values_equal std h' 0 (length files_heap) = Inr True"
    using C6_round_trip[where E = std and h = files_heap and a = 0 and mv = file_a
                          and A = file_descriptor and fuel = 1] l c d kw fs r
    by blast
  have m2: "\<exists>ss h'. ListAttribute_serialize std two_files_heap files_descriptor (VObj 0) = Inr (VList ss) \<and>
       ListAttribute_deserialize std 1 files_descriptor two_files_heap (VList ss) True
         = (Inr (VObj (length two_files_heap)), h') \<and>
       ListAttribute_eq std h' 0 (VObj (length two_files_heap)) = Inr True"
    using C6_round_trip[where E = std and h = two_files_heap and l = 0 and lv = two_files
                          and L = files_descriptor and fuel = 1] ll lk li r
    by blast
  have m3: "\<exists>ss h'. ListAttribute_serialize std [ListValue two_strings] strings_descriptor (VObj 0)
         = Inr (VList ss) \<and>
       ListAttribute_deserialize std 1 strings_descriptor [ListValue two_strings] (VList ss) True
         = (Inr (VObj (length [ListValue two_strings])), h') \<and>
       ListAttribute_eq std h' 0 (VObj (length [ListValue two_strings])) = Inr True"
    using C6_round_trip[where E = std and h = "[ListValue two_strings]" and l = 0
                          and lv = two_strings and L = strings_descriptor and fuel = 1] sl sk si r
    by blast
  have m0: "round_trip std [] (KEnum ''ResolutionUnit'' [''meters'', ''degrees'']) (VStr ''meters'') True
     = Inr (VStr ''meters'') \<and>
   round_trip std [] (KEnum ''ResolutionUnit'' [''meters'', ''degrees''])
       (VEnum ''ResolutionUnit'' ''meters'') True
     = Inr (VStr ''meters'') \<and>
   round_trip std [] KBoolean (VBool True) True = Inr (VBool True) \<and>
   round_trip std [] KTimestamp (VDateTime new_year_2021) True
     = Inr (VStr ''2021-01-01T00:00:00+00:00'') \<and>
   round_trip std [] KGeometry (VDict [(''type'', VStr ''Point'')]) True
     = Inr (VDict [(''type'', VStr ''Point'')])"
    using C6_round_trip[where E = std and h = "[]" and v = "VDict [(''type'', VStr ''Point'')]"
                          and validate = True and s = "''meters''"
                          and members = "[''meters'', ''degrees'']"
                          and enum_cls = "''ResolutionUnit''" and b = True and d = new_year_2021
                          and g = "VDict [(''type'', VStr ''Point'')]"] i geo
    by simp
  from m0 m1 m2 m3 l c d e ll lk show ?thesis by simp
qed

end
